(* ===== verification/Prelude.thy ===== *)
theory Prelude
  imports Main
begin

text \<open>
  Shared vocabulary of the development. The script \<open>src/scripts/openalex_to_hugo.py\<close>
  signals failure in two ways: an uncaught Python exception, and an explicit
  \<open>sys.exit(n)\<close>. Both are values here. An exception is a \<open>py_exc\<close>, and a
  computation that may raise has the type \<open>py_exc + 'a\<close>, with \<open>Inl\<close> the raised
  exception. \<open>bindE\<close> sequences two such computations the way Python statements
  are sequenced: the first raise ends the block. \<open>mapE\<close> is a Python \<open>for\<close> loop
  whose body may raise. The collection \<open>py_simps\<close> gathers the evaluation rules of
  the runtime model that the component proofs use.
\<close>

named_theorems py_simps "evaluation rules of the Python runtime model"

text \<open>
  The exceptions the script can raise. \<open>UnmodelledCompare\<close> is not a Python
  exception: it marks the one place where the model stops, the comparison of two
  sort keys neither of which is a number (see \<open>Mapper\<close>).
\<close>

datatype py_exc =
    AttributeError
  | TypeError
  | IndexError
  | KeyError
  | ValueError
  | HTTPError
  | JSONDecodeError
  | RequestError
  | CalledProcessError
  | YAMLError
  | FileNotFoundError
  | FileExistsError
  | NotADirectoryError
  | IsADirectoryError
  | SystemExit int
  | UnmodelledCompare

type_synonym 'a py = "py_exc + 'a"

definition bindE :: "'e + 'a \<Rightarrow> ('a \<Rightarrow> 'e + 'b) \<Rightarrow> 'e + 'b" where
  "bindE m f = (case m of Inl e \<Rightarrow> Inl e | Inr a \<Rightarrow> f a)"

fun mapE :: "('a \<Rightarrow> 'e + 'b) \<Rightarrow> 'a list \<Rightarrow> 'e + 'b list" where
  "mapE f [] = Inr []"
| "mapE f (x # xs) = bindE (f x) (\<lambda>y. bindE (mapE f xs) (\<lambda>ys. Inr (y # ys)))"

lemma bindE_Inl [simp]: "bindE (Inl e) f = Inl e"
  by (simp add: bindE_def)

lemma bindE_Inr [simp]: "bindE (Inr a) f = f a"
  by (simp add: bindE_def)

lemma bindE_eq_Inr_iff: "bindE m f = Inr b \<longleftrightarrow> (\<exists>a. m = Inr a \<and> f a = Inr b)"
  by (cases m) simp_all

lemma bindE_eq_Inl_iff:
  "bindE m f = Inl e \<longleftrightarrow> m = Inl e \<or> (\<exists>a. m = Inr a \<and> f a = Inl e)"
  by (cases m) simp_all

lemma mapE_map: "mapE (\<lambda>x. Inr (g x)) xs = Inr (map g xs)"
  by (induction xs) simp_all

lemma mapE_eq_Inr_length: "mapE f xs = Inr ys \<Longrightarrow> length ys = length xs"
  by (induction xs arbitrary: ys) (auto simp: bindE_eq_Inr_iff)

lemma mapE_eq_Inr_nth:
  "mapE f xs = Inr ys \<Longrightarrow> i < length xs \<Longrightarrow> f (xs ! i) = Inr (ys ! i)"
proof (induction xs arbitrary: ys i)
  case Nil
  then show ?case by simp
next
  case (Cons x xs)
  then obtain y ys' where "f x = Inr y" "mapE f xs = Inr ys'" "ys = y # ys'"
    by (auto simp: bindE_eq_Inr_iff)
  with Cons show ?case by (cases i) auto
qed

lemma mapE_all_Inr: "(\<And>x. x \<in> set xs \<Longrightarrow> \<exists>y. f x = Inr y) \<Longrightarrow> \<exists>ys. mapE f xs = Inr ys"
  by (induction xs) fastforce+

lemmas bindE_splits = sum.splits

subsection \<open>The process and its world\<close>

text \<open>
  What one run of the script can observe and change: the file store (an absolute
  path to the decoded text of the file), the set of directories, and what it has written to standard
  output and standard error. A statement of the script is a function from the
  world to its outcome and the new world (\<open>'a io\<close>): the outcome is a value or the
  exception that ends the run, and \<open>sys.exit(n)\<close> is the exception
  \<open>SystemExit n\<close>, as in Python.
\<close>

record world =
  files :: "string \<Rightarrow> string option"
  dirs :: "string set"
  stdout :: string
  stderr :: string

type_synonym 'a io = "world \<Rightarrow> 'a py \<times> world"

definition returnIO :: "'a \<Rightarrow> 'a io" where
  "returnIO x = (\<lambda>w. (Inr x, w))"

definition liftIO :: "'a py \<Rightarrow> 'a io" where
  "liftIO m = (\<lambda>w. (m, w))"

definition bindIO :: "'a io \<Rightarrow> ('a \<Rightarrow> 'b io) \<Rightarrow> 'b io" where
  "bindIO m f = (\<lambda>w. case m w of (Inl e, w') \<Rightarrow> (Inl e, w') | (Inr a, w') \<Rightarrow> f a w')"

definition write_stderr :: "string \<Rightarrow> unit io" where
  "write_stderr s = (\<lambda>w. (Inr (), w\<lparr>stderr := stderr w @ s\<rparr>))"

definition write_stdout :: "string \<Rightarrow> unit io" where
  "write_stdout s = (\<lambda>w. (Inr (), w\<lparr>stdout := stdout w @ s\<rparr>))"

definition sys_exit :: "int \<Rightarrow> 'a io" where
  "sys_exit n = (\<lambda>w. (Inl (SystemExit n), w))"

text \<open>The exit status of the process: \<open>SystemExit n\<close> gives \<open>n\<close>, any other
  uncaught exception 1 (the interpreter prints the traceback), a normal end 0.\<close>

definition exit_status :: "'a py \<Rightarrow> int" where
  "exit_status r = (case r of Inr _ \<Rightarrow> 0 | Inl (SystemExit n) \<Rightarrow> n | Inl _ \<Rightarrow> 1)"

lemma bindIO_apply [py_simps]:
  "bindIO m f w = (case m w of (Inl e, w') \<Rightarrow> (Inl e, w') | (Inr a, w') \<Rightarrow> f a w')"
  by (simp add: bindIO_def)

lemma io_simps [simp]:
  "returnIO x w = (Inr x, w)"
  "liftIO m w = (m, w)"
  "write_stderr s w = (Inr (), w\<lparr>stderr := stderr w @ s\<rparr>)"
  "write_stdout s w = (Inr (), w\<lparr>stdout := stdout w @ s\<rparr>)"
  "sys_exit n w = (Inl (SystemExit n), w)"
  by (simp_all add: returnIO_def liftIO_def write_stderr_def write_stdout_def sys_exit_def)

lemma bindIO_Inr [simp]: "m w = (Inr a, w') \<Longrightarrow> bindIO m f w = f a w'"
  by (simp add: bindIO_def)

lemma bindIO_Inl [simp]: "m w = (Inl e, w') \<Longrightarrow> bindIO m f w = (Inl e, w')"
  by (simp add: bindIO_def)

lemma bindIO_returnIO [simp]: "bindIO (returnIO x) f = f x"
  by (simp add: bindIO_def fun_eq_iff)

lemma bindIO_liftIO [simp]:
  "bindIO (liftIO m) f = (\<lambda>w. case m of Inl e \<Rightarrow> (Inl e, w) | Inr a \<Rightarrow> f a w)"
  by (simp add: bindIO_def liftIO_def fun_eq_iff split: sum.splits)

lemma exit_status_simps [simp]:
  "exit_status (Inr x) = 0"
  "exit_status (Inl (SystemExit n)) = n"
  "(\<forall>n. e \<noteq> SystemExit n) \<Longrightarrow> exit_status (Inl e) = 1"
  by (auto simp: exit_status_def split: py_exc.splits)

end
