(* ===== verification/PyStr.thy ===== *)
theory PyStr
  imports Prelude
begin

text \<open>
  Python's \<open>str\<close> and the methods of it the script calls. A Python string is a
  sequence of Unicode code points; here it is a \<open>string\<close> (a list of
  \<open>char\<close>), and the character with code \<open>n < 256\<close> stands for the code point
  U+00n, so the alphabet is Latin-1. Every character class below is the one CPython
  uses for these 256 code points: \<open>str.isspace\<close> (and the \<open>\s\<close> of \<open>re\<close>),
  the word characters \<open>\w\<close> of \<open>re\<close> (alphanumerics and the underscore),
  \<open>str.lower\<close>, and the line boundaries of \<open>str.splitlines\<close>.
\<close>

type_synonym pystr = string

definition py_isspace :: "char \<Rightarrow> bool" where
  "py_isspace c =
     (let n = of_char c :: nat in (9 \<le> n \<and> n \<le> 13) \<or> (28 \<le> n \<and> n \<le> 32) \<or> n = 133 \<or> n = 160)"

definition py_isword :: "char \<Rightarrow> bool" where
  "py_isword c =
     (let n = of_char c :: nat in
        (48 \<le> n \<and> n \<le> 57) \<or> (65 \<le> n \<and> n \<le> 90) \<or> n = 95 \<or> (97 \<le> n \<and> n \<le> 122) \<or>
        n = 170 \<or> n = 178 \<or> n = 179 \<or> n = 181 \<or> n = 185 \<or> n = 186 \<or>
        (188 \<le> n \<and> n \<le> 190) \<or> (192 \<le> n \<and> n \<le> 255 \<and> n \<noteq> 215 \<and> n \<noteq> 247))"

definition py_lower_char :: "char \<Rightarrow> char" where
  "py_lower_char c =
     (let n = of_char c :: nat in
        if (65 \<le> n \<and> n \<le> 90) \<or> (192 \<le> n \<and> n \<le> 222 \<and> n \<noteq> 215) then char_of (n + 32) else c)"

definition py_is_linebreak :: "char \<Rightarrow> bool" where
  "py_is_linebreak c =
     (let n = of_char c :: nat in (10 \<le> n \<and> n \<le> 13) \<or> (28 \<le> n \<and> n \<le> 30) \<or> n = 133)"

text \<open>\<open>str.lower()\<close>: for these code points a character-wise map.\<close>

definition py_lower :: "pystr \<Rightarrow> pystr" where
  "py_lower s = map py_lower_char s"

text \<open>\<open>str.strip()\<close> and \<open>str.strip(chars)\<close>: drop the characters of a class
  from both ends.\<close>

definition py_strip_by :: "(char \<Rightarrow> bool) \<Rightarrow> pystr \<Rightarrow> pystr" where
  "py_strip_by P s = rev (dropWhile P (rev (dropWhile P s)))"

definition py_strip :: "pystr \<Rightarrow> pystr" where
  "py_strip s = py_strip_by py_isspace s"

definition py_strip_chars :: "pystr \<Rightarrow> pystr \<Rightarrow> pystr" where
  "py_strip_chars s cs = py_strip_by (\<lambda>c. c \<in> set cs) s"

definition py_startswith :: "pystr \<Rightarrow> pystr \<Rightarrow> bool" where
  "py_startswith s p \<longleftrightarrow> take (length p) s = p"

text \<open>\<open>str.find(sub)\<close>: the least index where \<open>sub\<close> occurs, or \<open>-1\<close>.\<close>

fun py_find_from :: "pystr \<Rightarrow> pystr \<Rightarrow> nat \<Rightarrow> int" where
  "py_find_from [] sub i = (if sub = [] then int i else -1)"
| "py_find_from (c # s) sub i =
     (if py_startswith (c # s) sub then int i else py_find_from s sub (Suc i))"

definition py_find :: "pystr \<Rightarrow> pystr \<Rightarrow> int" where
  "py_find s sub = py_find_from s sub 0"

text \<open>\<open>s.split(sep, 1)\<close>: the part before the first \<open>sep\<close> and the rest, or
  \<open>[s]\<close> when \<open>sep\<close> does not occur; an empty separator raises \<open>ValueError\<close>.
  Indexing the result, \<open>xs[i]\<close>, raises \<open>IndexError\<close> out of range.\<close>

definition py_split1 :: "pystr \<Rightarrow> pystr \<Rightarrow> pystr list py" where
  "py_split1 s sep =
     (if sep = [] then Inl ValueError
      else let i = py_find s sep in
        if i = -1 then Inr [s]
        else Inr [take (nat i) s, drop (nat i + length sep) s])"

definition py_index :: "'a list \<Rightarrow> nat \<Rightarrow> 'a py" where
  "py_index xs i = (if i < length xs then Inr (xs ! i) else Inl IndexError)"

text \<open>\<open>str.splitlines(keepends=True)\<close>: \<open>take_line\<close> cuts the first line with its
  terminator (\<open>\r\n\<close> counts as one terminator), \<open>py_splitlines\<close> repeats it.\<close>

fun take_line :: "pystr \<Rightarrow> pystr \<times> pystr" where
  "take_line [] = ([], [])"
| "take_line (c # s) =
     (if c = CHR 0x0D \<and> take 1 s = [CHR 0x0A] then ([c, CHR 0x0A], drop 1 s)
      else if py_is_linebreak c then ([c], s)
      else (case take_line s of (l, r) \<Rightarrow> (c # l, r)))"

lemma take_line_append: "take_line s = (l, r) \<Longrightarrow> l @ r = s"
proof (induction s arbitrary: l r)
  case Nil
  then show ?case by simp
next
  case (Cons c s)
  then show ?case
    by (cases s) (auto split: if_splits prod.splits)
qed

lemma take_line_nonempty: "take_line s = (l, r) \<Longrightarrow> s \<noteq> [] \<Longrightarrow> l \<noteq> []"
  by (cases s) (auto split: if_splits prod.splits)

lemma take_line_shorter: "take_line s = (l, r) \<Longrightarrow> s \<noteq> [] \<Longrightarrow> length r < length s"
proof -
  assume a: "take_line s = (l, r)" and ne: "s \<noteq> []"
  from a have "l @ r = s" by (rule take_line_append)
  moreover from a ne have "l \<noteq> []" by (rule take_line_nonempty)
  ultimately show ?thesis by auto
qed

function py_splitlines :: "pystr \<Rightarrow> pystr list" where
  "py_splitlines s =
     (if s = [] then [] else case take_line s of (l, r) \<Rightarrow> l # py_splitlines r)"
  by pat_completeness auto
termination
  by (relation "measure length") (auto dest: take_line_shorter [OF sym])

declare py_splitlines.simps [simp del]

subsection \<open>Facts about the character classes\<close>

lemma py_isword_not_space [py_simps]: "py_isword c \<Longrightarrow> \<not> py_isspace c"
  by (auto simp: py_isword_def py_isspace_def Let_def)

lemma py_char_consts [py_simps]:
  "\<not> py_isspace CHR ''-''" "\<not> py_isword CHR ''-''" "py_isword CHR ''_''"
  "\<not> py_isspace CHR ''_''" "py_lower_char CHR ''-'' = CHR ''-''"
  "py_lower_char CHR ''_'' = CHR ''_''"
  by (simp_all add: py_isword_def py_isspace_def py_lower_char_def)

lemma py_lower_char_idem [py_simps]: "py_lower_char (py_lower_char c) = py_lower_char c"
proof -
  have "of_char c < (256::nat)" by simp
  then show ?thesis
    by (auto simp: py_lower_char_def Let_def)
qed

lemma py_isword_lower [py_simps]: "py_isword (py_lower_char c) = py_isword c"
proof -
  have "of_char c < (256::nat)" by simp
  then show ?thesis
    by (auto simp: py_lower_char_def py_isword_def Let_def)
qed

lemma py_lower_space [py_simps]: "py_isspace c \<Longrightarrow> py_lower_char c = c"
  by (auto simp: py_lower_char_def py_isspace_def Let_def)

lemma py_isspace_lower [py_simps]: "py_isspace (py_lower_char c) = py_isspace c"
proof -
  have "of_char c < (256::nat)" by simp
  then show ?thesis
    by (auto simp: py_lower_char_def py_isspace_def Let_def)
qed

subsection \<open>Facts about strip\<close>

lemma py_strip_by_set: "set (py_strip_by P s) \<subseteq> set s"
  by (auto simp: py_strip_by_def dest!: set_dropWhileD)

lemma py_strip_by_id:
  assumes "s = [] \<or> \<not> P (hd s) \<and> \<not> P (last s)"
  shows "py_strip_by P s = s"
proof (cases "s = []")
  case True
  then show ?thesis by (simp add: py_strip_by_def)
next
  case False
  with assms have h: "\<not> P (hd s)" and l: "\<not> P (last s)" by auto
  from h have "dropWhile P s = s" by (simp add: dropWhile_eq_self_iff)
  moreover from l False have "dropWhile P (rev s) = rev s"
    by (simp add: dropWhile_eq_self_iff hd_rev)
  ultimately show ?thesis by (simp add: py_strip_by_def)
qed

lemma py_strip_by_all: "list_all P s \<Longrightarrow> py_strip_by P s = []"
proof -
  assume "list_all P s"
  then have "dropWhile P s = []" by (induction s) auto
  then show ?thesis by (simp add: py_strip_by_def del: dropWhile_eq_Nil_conv)
qed

lemma py_strip_by_ends:
  assumes "py_strip_by P s \<noteq> []"
  shows "\<not> P (hd (py_strip_by P s))" and "\<not> P (last (py_strip_by P s))"
proof -
  let ?t = "dropWhile P s"
  have ne: "dropWhile P (rev ?t) \<noteq> []" using assms by (simp add: py_strip_by_def)
  then show "\<not> P (last (py_strip_by P s))"
    by (simp add: py_strip_by_def last_rev hd_dropWhile)
  have "?t \<noteq> []" using ne by (metis Nil_is_rev_conv dropWhile.simps(1))
  then have "\<not> P (hd ?t)" by (rule hd_dropWhile)
  moreover note \<open>?t \<noteq> []\<close>
  moreover have "hd (py_strip_by P s) = hd ?t"
  proof -
    obtain a u where u: "rev ?t = a @ u" "dropWhile P (rev ?t) = u" and "u \<noteq> []"
      using ne by (metis dropWhile_eq_Nil_conv takeWhile_dropWhile_id)
    then have "py_strip_by P s = rev u" by (simp add: py_strip_by_def)
    moreover have "?t = rev u @ rev a" using u(1) by (metis rev_append rev_rev_ident)
    ultimately show ?thesis using \<open>u \<noteq> []\<close> by simp
  qed
  ultimately show "\<not> P (hd (py_strip_by P s))" by simp
qed

lemma py_strip_by_infix: "\<exists>a b. s = a @ py_strip_by P s @ b"
proof -
  obtain a where a: "s = a @ dropWhile P s" by (metis takeWhile_dropWhile_id)
  obtain b where b: "rev (dropWhile P s) = b @ dropWhile P (rev (dropWhile P s))"
    by (metis takeWhile_dropWhile_id)
  have "dropWhile P s = py_strip_by P s @ rev b"
    using b by (metis py_strip_by_def rev_append rev_rev_ident)
  with a show ?thesis by auto
qed

subsection \<open>Facts about lower and characters\<close>

lemma char_of_eq_iff_nat [py_simps]: "char_of (n::nat) = c \<longleftrightarrow> n mod 256 = of_char c"
  by (metis char_of_char char_of_quasi_inj of_char_mod_256)

text \<open>The definitions to unfold when a string method is applied to a literal.\<close>

lemmas py_str_eval = py_lower_def py_lower_char_def char_of_eq_iff_nat py_strip_def
  py_strip_by_def py_isspace_def py_startswith_def

lemma of_char_py_lower_char:
  "(of_char (py_lower_char c) :: nat) =
     (let n = (of_char c :: nat) in
        if (65 \<le> n \<and> n \<le> 90) \<or> (192 \<le> n \<and> n \<le> 222 \<and> n \<noteq> 215) then n + 32 else n)"
  by (simp add: py_lower_char_def Let_def)

lemma py_lower_char_colon: "py_lower_char c = CHR '':'' \<longleftrightarrow> c = CHR '':''"
proof
  assume "py_lower_char c = CHR '':''"
  then have "(of_char (py_lower_char c) :: nat) = of_char CHR '':''" by simp
  then have "(of_char c :: nat) = of_char CHR '':''"
    by (simp add: of_char_py_lower_char Let_def split: if_splits)
  then show "c = CHR '':''" by (simp only: of_char_eq_iff)
next
  assume "c = CHR '':''"
  then show "py_lower_char c = CHR '':''" by (simp add: py_lower_char_def)
qed

end
