(* ===== verification/Slugify.thy ===== *)
theory Slugify
  imports PyStr
begin

text \<open>
  \<open>slugify\<close> (lines 14--19 of \<open>src/scripts/openalex_to_hugo.py\<close>): the title of the
  page becomes the file name. Each line of the Python is one step here:
  \<open>strip().lower()\<close>; \<open>re.sub(r"[^\w\s-]", "", s)\<close>, a filter;
  \<open>re.sub(r"[\s_]+", "-", s)\<close>, which replaces every maximal run of whitespace and
  underscores by one hyphen (\<open>re_sub_runs\<close>); \<open>re.sub(r"-{2,}", "-", s)\<close>
  (\<open>collapse_hyphens\<close>); \<open>strip("-")\<close>; and \<open>s or "untitled"\<close>.
  The lemmas show that the result is a slug (non-empty, only lower-case word
  characters and single inner hyphens), that a slug is a fixed point, hence that
  \<open>slugify\<close> is idempotent, and that a title with no word character gives
  \<open>untitled\<close>.
\<close>

definition slug_keep :: "char \<Rightarrow> bool" where
  "slug_keep c \<longleftrightarrow> py_isword c \<or> py_isspace c \<or> c = CHR ''-''"

definition slug_sep :: "char \<Rightarrow> bool" where
  "slug_sep c \<longleftrightarrow> py_isspace c \<or> c = CHR ''_''"

function re_sub_runs :: "(char \<Rightarrow> bool) \<Rightarrow> char \<Rightarrow> pystr \<Rightarrow> pystr" where
  "re_sub_runs P r [] = []"
| "re_sub_runs P r (c # s) =
     (if P c then r # re_sub_runs P r (dropWhile P s) else c # re_sub_runs P r s)"
  by pat_completeness auto
termination
  by (relation "measure (\<lambda>(P, r, s). length s)") (auto simp: le_imp_less_Suc length_dropWhile_le)

function collapse_hyphens :: "pystr \<Rightarrow> pystr" where
  "collapse_hyphens [] = []"
| "collapse_hyphens (c # s) =
     (if c = CHR ''-'' \<and> py_startswith s ''-''
      then CHR ''-'' # collapse_hyphens (dropWhile (\<lambda>x. x = CHR ''-'') s)
      else c # collapse_hyphens s)"
  by pat_completeness auto
termination
  by (relation "measure length") (auto simp: le_imp_less_Suc length_dropWhile_le)

definition slugify :: "pystr \<Rightarrow> pystr" where
  "slugify s0 =
     (let s1 = py_lower (py_strip s0);
          s2 = filter slug_keep s1;
          s3 = re_sub_runs slug_sep (CHR ''-'') s2;
          s4 = py_strip_chars (collapse_hyphens s3) ''-''
      in if s4 = [] then ''untitled'' else s4)"

text \<open>What a slug is: the characters that survive, no two hyphens in a row, no
  hyphen at either end.\<close>

definition slug_char :: "char \<Rightarrow> bool" where
  "slug_char c \<longleftrightarrow> (py_isword c \<and> c \<noteq> CHR ''_'' \<and> py_lower_char c = c) \<or> c = CHR ''-''"

fun no_dd :: "pystr \<Rightarrow> bool" where
  "no_dd (a # b # s) \<longleftrightarrow> \<not> (a = CHR ''-'' \<and> b = CHR ''-'') \<and> no_dd (b # s)"
| "no_dd _ \<longleftrightarrow> True"

definition is_slug :: "pystr \<Rightarrow> bool" where
  "is_slug t \<longleftrightarrow>
     t \<noteq> [] \<and> list_all slug_char t \<and> no_dd t \<and> hd t \<noteq> CHR ''-'' \<and> last t \<noteq> CHR ''-''"

subsection \<open>The regular-expression steps\<close>

lemma re_sub_runs_set: "set (re_sub_runs P r s) \<subseteq> {c \<in> set s. \<not> P c} \<union> {r}"
  by (induction P r s rule: re_sub_runs.induct) (auto dest: set_dropWhileD)

lemma re_sub_runs_id: "list_all (\<lambda>c. \<not> P c) s \<Longrightarrow> re_sub_runs P r s = s"
  by (induction P r s rule: re_sub_runs.induct) auto

lemma no_dd_Cons: "no_dd (a # s) \<longleftrightarrow> no_dd s \<and> (s = [] \<or> \<not> (a = CHR ''-'' \<and> hd s = CHR ''-''))"
  by (cases s) auto

lemma no_dd_appendD: "no_dd (xs @ ys) \<Longrightarrow> no_dd xs \<and> no_dd ys"
  by (induction xs) (auto simp: no_dd_Cons)

lemma startswith_hyphen: "py_startswith s ''-'' \<longleftrightarrow> s \<noteq> [] \<and> hd s = CHR ''-''"
  by (cases s) (auto simp: py_startswith_def)

lemma collapse_hyphens_run:
  "c = CHR ''-'' \<and> py_startswith s ''-'' \<Longrightarrow>
   collapse_hyphens (c # s) = CHR ''-'' # collapse_hyphens (dropWhile (\<lambda>x. x = CHR ''-'') s)"
  by (simp only: collapse_hyphens.simps(2) simp_thms if_True)

lemma collapse_hyphens_keep:
  "\<not> (c = CHR ''-'' \<and> py_startswith s ''-'') \<Longrightarrow> collapse_hyphens (c # s) = c # collapse_hyphens s"
  by (simp only: collapse_hyphens.simps(2) if_False)

lemma collapse_hyphens_hd: "s \<noteq> [] \<Longrightarrow> collapse_hyphens s \<noteq> [] \<and> hd (collapse_hyphens s) = hd s"
  by (cases s) auto

lemma collapse_hyphens_hd_not:
  "t = [] \<or> hd t \<noteq> CHR ''-'' \<Longrightarrow> collapse_hyphens t = [] \<or> hd (collapse_hyphens t) \<noteq> CHR ''-''"
  by (metis collapse_hyphens.simps(1) collapse_hyphens_hd)

lemma collapse_hyphens_set: "set (collapse_hyphens s) \<subseteq> set s"
  by (induction s rule: collapse_hyphens.induct) (auto simp: startswith_hyphen dest: set_dropWhileD)

lemma collapse_hyphens_no_dd: "no_dd (collapse_hyphens s)"
proof (induction s rule: collapse_hyphens.induct)
  case 1
  then show ?case by simp
next
  case (2 c s)
  show ?case
  proof (cases "c = CHR ''-'' \<and> py_startswith s ''-''")
    case True
    let ?t = "dropWhile (\<lambda>x. x = CHR ''-'') s"
    have "?t = [] \<or> hd ?t \<noteq> CHR ''-''" using hd_dropWhile by blast
    then have "collapse_hyphens ?t = [] \<or> hd (collapse_hyphens ?t) \<noteq> CHR ''-''"
      by (rule collapse_hyphens_hd_not)
    moreover have "no_dd (collapse_hyphens ?t)" using True by (rule "2.IH"(1))
    ultimately show ?thesis
      using collapse_hyphens_run [OF True] by (simp only: no_dd_Cons) blast
  next
    case False
    have "no_dd (collapse_hyphens s)" using False by (rule "2.IH"(2))
    moreover have "collapse_hyphens s = [] \<or> \<not> (c = CHR ''-'' \<and> hd (collapse_hyphens s) = CHR ''-'')"
    proof (cases "s = []")
      case True
      then show ?thesis by simp
    next
      case ne: False
      then show ?thesis
        using False collapse_hyphens_hd [of s] startswith_hyphen [of s] by metis
    qed
    ultimately show ?thesis
      by (simp only: collapse_hyphens_keep [OF False] no_dd_Cons)
  qed
qed

lemma collapse_hyphens_id: "no_dd s \<Longrightarrow> collapse_hyphens s = s"
proof (induction s)
  case Nil
  then show ?case by simp
next
  case (Cons c s)
  then have keep: "\<not> (c = CHR ''-'' \<and> py_startswith s ''-'')" and "no_dd s"
    by (simp_all only: no_dd_Cons startswith_hyphen) blast+
  then have "collapse_hyphens s = s" using Cons.IH by blast
  then show ?case by (simp only: collapse_hyphens_keep [OF keep])
qed

subsection \<open>The result is a slug, and a slug is a fixed point\<close>

lemma slug_char_props [py_simps]:
  "slug_char c \<Longrightarrow> \<not> py_isspace c" "slug_char c \<Longrightarrow> slug_keep c"
  "slug_char c \<Longrightarrow> \<not> slug_sep c" "slug_char c \<Longrightarrow> py_lower_char c = c"
  by (auto simp: slug_char_def slug_keep_def slug_sep_def py_simps)

lemma is_slug_untitled: "is_slug ''untitled''"
  by (simp add: is_slug_def slug_char_def py_isword_def py_lower_char_def)

lemma slugify_steps_chars:
  "list_all slug_char
     (collapse_hyphens (re_sub_runs slug_sep (CHR ''-'') (filter slug_keep (py_lower s))))"
proof -
  let ?s2 = "filter slug_keep (py_lower s)"
  have s2: "c \<in> set ?s2 \<Longrightarrow> slug_keep c \<and> py_lower_char c = c" for c
    by (auto simp: py_lower_def py_simps)
  have "c \<in> set (re_sub_runs slug_sep (CHR ''-'') ?s2) \<Longrightarrow> slug_char c" for c
    using re_sub_runs_set [of slug_sep "CHR ''-''" ?s2] s2 [of c]
    by (auto simp: slug_char_def slug_keep_def slug_sep_def)
  then show ?thesis
    using collapse_hyphens_set by (fastforce simp: list_all_iff)
qed

lemma slugify_result_slug: "is_slug (slugify s)"
proof -
  let ?s3 = "collapse_hyphens (re_sub_runs slug_sep (CHR ''-'') (filter slug_keep (py_lower (py_strip s))))"
  let ?s4 = "py_strip_chars ?s3 ''-''"
  have chars: "list_all slug_char ?s3" by (rule slugify_steps_chars)
  obtain a b where ab: "?s3 = a @ ?s4 @ b"
    using py_strip_by_infix unfolding py_strip_chars_def by metis
  show ?thesis
  proof (cases "?s4 = []")
    case True
    then show ?thesis by (simp add: slugify_def Let_def is_slug_untitled)
  next
    case False
    have "list_all slug_char ?s4"
      using chars py_strip_by_set by (fastforce simp: list_all_iff py_strip_chars_def)
    moreover have "no_dd ?s4"
      using collapse_hyphens_no_dd ab by (metis no_dd_appendD)
    moreover have "hd ?s4 \<noteq> CHR ''-''" "last ?s4 \<noteq> CHR ''-''"
      using py_strip_by_ends [of "\<lambda>c. c \<in> set ''-''" ?s3] False
      by (simp_all add: py_strip_chars_def)
    ultimately show ?thesis
      using False by (simp add: slugify_def Let_def is_slug_def)
  qed
qed

lemma slugify_slug_fixed: "is_slug t \<Longrightarrow> slugify t = t"
proof -
  assume t: "is_slug t"
  then have ne: "t \<noteq> []" and chars: "\<forall>c\<in>set t. slug_char c" and dd: "no_dd t"
    and ends: "hd t \<noteq> CHR ''-''" "last t \<noteq> CHR ''-''"
    by (auto simp: is_slug_def list_all_iff)
  have "py_strip t = t"
    using ne chars by (simp add: py_strip_def py_strip_by_id py_simps)
  moreover have "py_lower t = t"
    using chars by (simp add: py_lower_def map_idI py_simps)
  moreover have "filter slug_keep t = t"
    using chars by (simp add: py_simps)
  moreover have "re_sub_runs slug_sep (CHR ''-'') t = t"
    using chars by (simp add: re_sub_runs_id list_all_iff py_simps)
  moreover have "collapse_hyphens t = t"
    using dd by (rule collapse_hyphens_id)
  moreover have "py_strip_chars t ''-'' = t"
    using ends by (simp add: py_strip_chars_def py_strip_by_id)
  ultimately show ?thesis
    using ne by (simp add: slugify_def Let_def)
qed


lemma slugify_no_word_steps:
  assumes "\<not> list_ex py_isword s"
  shows "list_all (\<lambda>c. c = CHR ''-'')
           (collapse_hyphens (re_sub_runs slug_sep (CHR ''-'') (filter slug_keep (py_lower (py_strip s)))))"
proof -
  let ?s2 = "filter slug_keep (py_lower (py_strip s))"
  have "c \<in> set ?s2 \<Longrightarrow> py_isspace c \<or> c = CHR ''-''" for c
    using assms py_strip_by_set [of py_isspace s]
    by (auto simp: py_lower_def slug_keep_def py_strip_def list_ex_iff py_simps)
  then have "c \<in> set (re_sub_runs slug_sep (CHR ''-'') ?s2) \<Longrightarrow> c = CHR ''-''" for c
    using re_sub_runs_set [of slug_sep "CHR ''-''" ?s2] by (auto simp: slug_sep_def)
  then show ?thesis
    using collapse_hyphens_set by (fastforce simp: list_all_iff)
qed

subsection \<open>Properties of slugify\<close>

text \<open>C1: slugify is idempotent (spec section 4.2 and 8): applying it to its own
  result changes nothing.\<close>

theorem slugify_idempotent: "slugify (slugify s) = slugify s"
  by (rule slugify_slug_fixed) (rule slugify_result_slug)

text \<open>C2: the strings that slugify leaves unchanged are exactly the slugs: non-empty,
  made of lower-case word characters other than the underscore and of hyphens, with
  no two hyphens in a row and none at either end. Every result of slugify is one.\<close>

theorem slugify_fixed_iff: "slugify t = t \<longleftrightarrow> is_slug t"
proof
  assume "slugify t = t"
  then show "is_slug t" using slugify_result_slug [of t] by simp
next
  assume "is_slug t"
  then show "slugify t = t" by (rule slugify_slug_fixed)
qed

text \<open>C3: a title without any word character, such as \<open>***\<close>, gives the
  fallback slug \<open>untitled\<close>.\<close>

theorem slugify_untitled: "\<not> list_ex py_isword s \<Longrightarrow> slugify s = ''untitled''"
proof -
  assume "\<not> list_ex py_isword s"
  then have "list_all (\<lambda>c. c \<in> set ''-'')
     (collapse_hyphens (re_sub_runs slug_sep (CHR ''-'') (filter slug_keep (py_lower (py_strip s)))))"
    using slugify_no_word_steps by simp
  then show ?thesis
    by (simp add: slugify_def Let_def py_strip_chars_def py_strip_by_all)
qed

theorem slugify_untitled_witness:
  "\<not> list_ex py_isword ''***'' \<and> slugify ''***'' = ''untitled''"
proof -
  have h: "\<not> list_ex py_isword ''***''" by (simp add: py_isword_def)
  show ?thesis using h slugify_untitled [OF h] by simp
qed

end
