(* ===== verification/ExtractDoi.thy ===== *)
theory ExtractDoi
  imports PyStr
begin

text \<open>
  \<open>extract_doi\<close> (lines 21--27 of \<open>src/scripts/openalex_to_hugo.py\<close>): strip the
  input; a \<open>https://doi.org/\<close> or \<open>http://doi.org/\<close> URL loses everything up to
  the first \<open>doi.org/\<close>; an input whose lower-cased form starts with \<open>doi:\<close>
  loses everything up to its first colon and is stripped again; anything else is
  returned stripped. Both \<open>split(...)[1]\<close> may raise \<open>IndexError\<close> in Python; the
  model keeps that branch and the lemmas prove it unreachable.
\<close>

definition extract_doi :: "pystr \<Rightarrow> pystr py" where
  "extract_doi input_str =
     (let s = py_strip input_str in
      if py_startswith s ''https://doi.org/'' \<or> py_startswith s ''http://doi.org/''
      then bindE (py_split1 s ''doi.org/'') (\<lambda>parts. py_index parts 1)
      else if py_startswith (py_lower s) ''doi:''
      then bindE (py_split1 s '':'') (\<lambda>parts. bindE (py_index parts 1) (\<lambda>p. Inr (py_strip p)))
      else Inr s)"

subsection \<open>How split finds the separator\<close>

lemma py_startswith_append [py_simps]: "py_startswith (p @ r) p"
  by (simp add: py_startswith_def)

lemma py_startswith_iff_append: "py_startswith s p \<longleftrightarrow> (\<exists>r. s = p @ r)"
  by (auto simp: py_startswith_def) (metis append_take_drop_id)

lemma split_doi_org:
  "py_split1 (''https://doi.org/'' @ r) ''doi.org/'' = Inr [''https://'', r]"
  "py_split1 (''http://doi.org/'' @ r) ''doi.org/'' = Inr [''http://'', r]"
  by (simp_all add: py_split1_def py_find_def py_startswith_def)

lemma py_startswith_length: "py_startswith s p \<Longrightarrow> length p \<le> length s"
proof -
  assume "py_startswith s p"
  then have "length (take (length p) s) = length p" by (simp add: py_startswith_def)
  then show ?thesis by (simp add: min_def split: if_splits)
qed

lemma four_cons: "4 \<le> length s \<Longrightarrow> \<exists>a b c d r. s = a # b # c # d # r"
  by (cases s; cases "tl s"; cases "tl (tl s)"; cases "tl (tl (tl s))") auto

lemma py_lower_char_colon_self: "py_lower_char CHR '':'' = CHR '':''"
  by (simp add: py_lower_char_def)

lemma split_doi_colon:
  assumes "py_startswith (py_lower s) ''doi:''"
  shows "py_split1 s '':'' = Inr [take 3 s, drop 4 s]"
proof -
  have "4 \<le> length s"
    using py_startswith_length [OF assms] by (simp add: py_lower_def)
  then obtain a b c d r where s: "s = a # b # c # d # r"
    using four_cons by blast
  with assms have l: "py_lower_char a = CHR ''d''" "py_lower_char b = CHR ''o''"
    "py_lower_char c = CHR ''i''" "py_lower_char d = CHR '':''"
    by (simp_all add: py_startswith_def py_lower_def)
  from l(1-3) have "a \<noteq> CHR '':''" "b \<noteq> CHR '':''" "c \<noteq> CHR '':''"
    by (auto simp: py_lower_char_colon_self)
  moreover from l(4) have "d = CHR '':''" by (simp only: py_lower_char_colon)
  ultimately show ?thesis
    using s by (simp add: py_split1_def py_find_def py_startswith_def)
qed

lemma doi_prefix_not_url:
  assumes "py_startswith (py_lower s) ''doi:''"
  shows "\<not> py_startswith s ''https://doi.org/'' \<and> \<not> py_startswith s ''http://doi.org/''"
proof -
  have "py_startswith s p \<Longrightarrow> py_startswith (py_lower s) (py_lower p)" for p
    by (auto simp: py_startswith_iff_append py_lower_def)
  moreover have "\<not> py_startswith (py_lower s) (py_lower ''https://doi.org/'')"
    "\<not> py_startswith (py_lower s) (py_lower ''http://doi.org/'')"
    using assms by (auto simp: py_startswith_iff_append py_lower_def py_lower_char_def py_simps)
  ultimately show ?thesis by blast
qed

lemma extract_doi_cases:
  "extract_doi s =
     (if py_startswith (py_strip s) ''https://doi.org/'' then Inr (drop 16 (py_strip s))
      else if py_startswith (py_strip s) ''http://doi.org/'' then Inr (drop 15 (py_strip s))
      else if py_startswith (py_lower (py_strip s)) ''doi:'' then Inr (py_strip (drop 4 (py_strip s)))
      else Inr (py_strip s))"
proof (cases "py_startswith (py_strip s) ''https://doi.org/''")
  case True
  then obtain r where r: "py_strip s = ''https://doi.org/'' @ r"
    by (auto simp: py_startswith_iff_append)
  then have "py_split1 (py_strip s) ''doi.org/'' = Inr [''https://'', r]"
    and "drop 16 (py_strip s) = r"
    by (simp only: r split_doi_org) (simp add: r)
  with True show ?thesis by (simp add: extract_doi_def py_index_def)
next
  case F1: False
  show ?thesis
  proof (cases "py_startswith (py_strip s) ''http://doi.org/''")
    case True
    then obtain r where r: "py_strip s = ''http://doi.org/'' @ r"
      by (auto simp: py_startswith_iff_append)
    then have "py_split1 (py_strip s) ''doi.org/'' = Inr [''http://'', r]"
      and "drop 15 (py_strip s) = r"
      by (simp only: r split_doi_org) (simp add: r)
    with F1 True show ?thesis by (simp add: extract_doi_def py_index_def)
  next
    case F2: False
    show ?thesis
    proof (cases "py_startswith (py_lower (py_strip s)) ''doi:''")
      case True
      with F1 F2 show ?thesis by (simp add: extract_doi_def split_doi_colon py_index_def)
    next
      case False
      with F1 F2 show ?thesis by (simp add: extract_doi_def)
    qed
  qed
qed

subsection \<open>Properties of extract_doi\<close>

text \<open>\<open>extract_doi\<close> never raises: the \<open>IndexError\<close> that
  \<open>s.split(sep, 1)[1]\<close> raises when \<open>sep\<close> does not occur cannot happen, because
  each branch splits only at a separator its guard has just seen.\<close>

theorem extract_doi_total: "\<exists>d. extract_doi s = Inr d"
  by (simp add: extract_doi_cases)

text \<open>C4: a \<open>https://doi.org/\<close> or \<open>http://doi.org/\<close> URL (after stripping
  surrounding whitespace) is reduced to the path after the resolver host.\<close>

theorem extract_doi_url:
  "py_strip s = ''https://doi.org/'' @ d \<or> py_strip s = ''http://doi.org/'' @ d \<Longrightarrow>
   extract_doi s = Inr d"
proof -
  assume "py_strip s = ''https://doi.org/'' @ d \<or> py_strip s = ''http://doi.org/'' @ d"
  then show ?thesis
  proof
    assume h: "py_strip s = ''https://doi.org/'' @ d"
    then have "py_startswith (py_strip s) ''https://doi.org/''"
      and "py_split1 (py_strip s) ''doi.org/'' = Inr [''https://'', d]"
      by (simp_all only: py_startswith_append split_doi_org)
    then show ?thesis by (simp add: extract_doi_def py_index_def)
  next
    assume h: "py_strip s = ''http://doi.org/'' @ d"
    then have "\<not> py_startswith (py_strip s) ''https://doi.org/''"
      and "py_startswith (py_strip s) ''http://doi.org/''"
      and "py_split1 (py_strip s) ''doi.org/'' = Inr [''http://'', d]"
      by (simp_all only: py_startswith_append split_doi_org) (simp add: py_startswith_def)
    then show ?thesis by (simp add: extract_doi_def py_index_def)
  qed
qed

theorem extract_doi_url_witness:
  "(py_strip ''https://doi.org/10.1/xyz'' = ''https://doi.org/'' @ ''10.1/xyz'' \<or>
    py_strip ''https://doi.org/10.1/xyz'' = ''http://doi.org/'' @ ''10.1/xyz'') \<and>
   extract_doi ''https://doi.org/10.1/xyz'' = Inr ''10.1/xyz''"
proof -
  have h: "py_strip ''https://doi.org/10.1/xyz'' = ''https://doi.org/'' @ ''10.1/xyz'' \<or>
    py_strip ''https://doi.org/10.1/xyz'' = ''http://doi.org/'' @ ''10.1/xyz''"
    by (simp add: py_strip_def py_strip_by_def py_isspace_def)
  show ?thesis using h extract_doi_url [OF h] by simp
qed

text \<open>C5: an input whose lower-cased, stripped form starts with \<open>doi:\<close> (in any
  case, e.g. \<open>DOI:\<close>) loses those four characters and is stripped again.\<close>

theorem extract_doi_prefix:
  "py_startswith (py_lower (py_strip s)) ''doi:'' \<Longrightarrow>
   extract_doi s = Inr (py_strip (drop 4 (py_strip s)))"
  using doi_prefix_not_url [of "py_strip s"]
  by (simp add: extract_doi_def Let_def split_doi_colon py_index_def)

theorem extract_doi_prefix_witness:
  "py_startswith (py_lower (py_strip ''DOI:10.1/xyz'')) ''doi:'' \<and>
   extract_doi ''DOI:10.1/xyz'' = Inr ''10.1/xyz''"
proof -
  have h: "py_startswith (py_lower (py_strip ''DOI:10.1/xyz'')) ''doi:''"
    by (simp add: py_str_eval)
  have "extract_doi ''DOI:10.1/xyz'' = Inr (py_strip (drop 4 (py_strip ''DOI:10.1/xyz'')))"
    by (rule extract_doi_prefix [OF h])
  then show ?thesis using h by (simp add: py_strip_def py_strip_by_def py_isspace_def)
qed

text \<open>C6: any other input is only stripped; it is assumed to be a bare DOI and is
  not validated.\<close>

theorem extract_doi_other:
  "\<not> py_startswith (py_strip s) ''https://doi.org/'' \<Longrightarrow>
   \<not> py_startswith (py_strip s) ''http://doi.org/'' \<Longrightarrow>
   \<not> py_startswith (py_lower (py_strip s)) ''doi:'' \<Longrightarrow>
   extract_doi s = Inr (py_strip s)"
  by (simp add: extract_doi_def Let_def)

theorem extract_doi_other_witness:
  "\<not> py_startswith (py_strip '' 10.1/xyz'') ''https://doi.org/'' \<and>
   \<not> py_startswith (py_strip '' 10.1/xyz'') ''http://doi.org/'' \<and>
   \<not> py_startswith (py_lower (py_strip '' 10.1/xyz'')) ''doi:'' \<and>
   extract_doi '' 10.1/xyz'' = Inr ''10.1/xyz''"
proof -
  have e: "py_strip '' 10.1/xyz'' = ''10.1/xyz''"
    by (simp add: py_strip_def py_strip_by_def py_isspace_def)
  have h1: "\<not> py_startswith (py_strip '' 10.1/xyz'') ''https://doi.org/''"
    and h2: "\<not> py_startswith (py_strip '' 10.1/xyz'') ''http://doi.org/''"
    and h3: "\<not> py_startswith (py_lower (py_strip '' 10.1/xyz'')) ''doi:''"
    by (simp_all add: e py_str_eval)
  show ?thesis using h1 h2 h3 extract_doi_other [OF h1 h2 h3] e by simp
qed

end
