(* ===== verification/PyValue.thy ===== *)
theory PyValue
  imports PyStr Complex_Main
begin

text \<open>
  The Python values the script handles: what \<open>r.json()\<close> returns for the OpenAlex
  response, what \<open>yaml.safe_load\<close> returns for a front matter, and the dict the
  script builds. \<open>pyval\<close> has one constructor per Python type that JSON and the YAML
  safe loader produce; a \<open>dict\<close> is an association list in insertion order, as
  CPython dicts are ordered. Floats are modelled as reals (finite, without
  rounding). On top of it: truthiness and \<open>or\<close>, \<open>d.get(k)\<close> and \<open>d[k]\<close>,
  iteration with \<open>for\<close>, item assignment and \<open>setdefault\<close>, and \<open>int()\<close>.
  Every operation that raises on a value of the wrong type returns the exception.
\<close>

datatype pyval =
    PNone
  | PBool bool
  | PInt int
  | PFloat real
  | PStr pystr
  | PList "pyval list"
  | PDict "(pyval \<times> pyval) list"

type_synonym pydict = "(pyval \<times> pyval) list"

subsection \<open>Truthiness and or\<close>

fun py_truthy :: "pyval \<Rightarrow> bool" where
  "py_truthy PNone \<longleftrightarrow> False"
| "py_truthy (PBool b) \<longleftrightarrow> b"
| "py_truthy (PInt i) \<longleftrightarrow> i \<noteq> 0"
| "py_truthy (PFloat r) \<longleftrightarrow> r \<noteq> 0"
| "py_truthy (PStr s) \<longleftrightarrow> s \<noteq> []"
| "py_truthy (PList xs) \<longleftrightarrow> xs \<noteq> []"
| "py_truthy (PDict d) \<longleftrightarrow> d \<noteq> []"

text \<open>\<open>a or b\<close> with both operands evaluated, and the short-circuit form where the
  right operand is a computation that may raise and is run only when the left one is
  falsy.\<close>

definition py_or :: "pyval \<Rightarrow> pyval \<Rightarrow> pyval" where
  "py_or a b = (if py_truthy a then a else b)"

definition py_or_else :: "pyval py \<Rightarrow> pyval py \<Rightarrow> pyval py" where
  "py_or_else a b = bindE a (\<lambda>x. if py_truthy x then Inr x else b)"

subsection \<open>Dict access\<close>

text \<open>\<open>d.get(k)\<close> with a string key: \<open>None\<close> when absent; a value without a
  \<open>get\<close> method raises \<open>AttributeError\<close>. \<open>d[k]\<close>: \<open>KeyError\<close> when absent,
  \<open>TypeError\<close> on a value that is not a dict. A string key equals only the same
  string, so lookup is \<open>map_of\<close>.\<close>

fun py_get :: "pyval \<Rightarrow> pystr \<Rightarrow> pyval py" where
  "py_get (PDict d) k = Inr (case map_of d (PStr k) of None \<Rightarrow> PNone | Some v \<Rightarrow> v)"
| "py_get _ k = Inl AttributeError"

fun py_getitem :: "pyval \<Rightarrow> pystr \<Rightarrow> pyval py" where
  "py_getitem (PDict d) k = (case map_of d (PStr k) of None \<Rightarrow> Inl KeyError | Some v \<Rightarrow> Inr v)"
| "py_getitem _ k = Inl TypeError"

text \<open>\<open>for x in v\<close>: a list gives its elements, a dict its keys, a string its
  characters; a number, a bool or \<open>None\<close> is not iterable.\<close>

fun py_iter :: "pyval \<Rightarrow> pyval list py" where
  "py_iter (PList xs) = Inr xs"
| "py_iter (PDict d) = Inr (map fst d)"
| "py_iter (PStr s) = Inr (map (\<lambda>c. PStr [c]) s)"
| "py_iter _ = Inl TypeError"

subsection \<open>Dict update in insertion order\<close>

text \<open>\<open>d[k] = v\<close>: an existing key keeps its position and gets the new value, a new
  key is appended. \<open>d.setdefault(k, v)\<close> only appends.\<close>

fun dict_set :: "pydict \<Rightarrow> pyval \<Rightarrow> pyval \<Rightarrow> pydict" where
  "dict_set [] k v = [(k, v)]"
| "dict_set ((k', v') # d) k v = (if k' = k then (k, v) # d else (k', v') # dict_set d k v)"

definition dict_setdefault :: "pydict \<Rightarrow> pyval \<Rightarrow> pyval \<Rightarrow> pydict" where
  "dict_setdefault d k v = (if k \<in> set (map fst d) then d else d @ [(k, v)])"

text \<open>Item assignment on any value: only a dict supports it.\<close>

fun py_setitem :: "pyval \<Rightarrow> pystr \<Rightarrow> pyval \<Rightarrow> pyval py" where
  "py_setitem (PDict d) k v = Inr (PDict (dict_set d (PStr k) v))"
| "py_setitem _ k v = Inl TypeError"

text \<open>\<open>d.setdefault(k, v)\<close> on any value, its result unused: only a dict has the
  method. \<open>k in v\<close> with a string \<open>k\<close>: a key of a dict, an element of a list, a
  substring of a string; any other value raises \<open>TypeError\<close>.\<close>

fun py_setdefault :: "pyval \<Rightarrow> pystr \<Rightarrow> pyval \<Rightarrow> pyval py" where
  "py_setdefault (PDict d) k v = Inr (PDict (dict_setdefault d (PStr k) v))"
| "py_setdefault _ k v = Inl AttributeError"

fun py_contains :: "pyval \<Rightarrow> pystr \<Rightarrow> bool py" where
  "py_contains (PDict d) k = Inr (PStr k \<in> set (map fst d))"
| "py_contains (PList xs) k = Inr (PStr k \<in> set xs)"
| "py_contains (PStr s) k = Inr (py_find s k \<noteq> -1)"
| "py_contains _ k = Inl TypeError"

subsection \<open>int()\<close>

text \<open>\<open>int(x)\<close>: an int is itself, a bool is 0 or 1, a float is truncated toward
  zero, a string is parsed (surrounding whitespace, one optional sign, decimal digits
  with single underscores between them), anything else raises \<open>TypeError\<close>.\<close>

definition py_isdigit :: "char \<Rightarrow> bool" where
  "py_isdigit c \<longleftrightarrow> (let n = of_char c :: nat in 48 \<le> n \<and> n \<le> 57)"

definition digit_val :: "char \<Rightarrow> int" where
  "digit_val c = int (of_char c) - 48"

fun parse_digits :: "pystr \<Rightarrow> int \<Rightarrow> bool \<Rightarrow> int option" where
  "parse_digits [] acc after_digit = (if after_digit then Some acc else None)"
| "parse_digits (c # s) acc after_digit =
     (if py_isdigit c then parse_digits s (10 * acc + digit_val c) True
      else if c = CHR ''_'' \<and> after_digit then parse_digits s acc False
      else None)"

definition py_int_of_str :: "pystr \<Rightarrow> int py" where
  "py_int_of_str s =
     (let t = py_strip s;
          r = (case t of
                 c # u \<Rightarrow> if c = CHR ''-'' then map_option uminus (parse_digits u 0 False)
                          else if c = CHR ''+'' then parse_digits u 0 False
                          else parse_digits t 0 False
               | [] \<Rightarrow> None)
      in case r of None \<Rightarrow> Inl ValueError | Some i \<Rightarrow> Inr i)"

definition trunc_real :: "real \<Rightarrow> int" where
  "trunc_real r = (if 0 \<le> r then \<lfloor>r\<rfloor> else \<lceil>r\<rceil>)"

fun py_int :: "pyval \<Rightarrow> int py" where
  "py_int (PInt i) = Inr i"
| "py_int (PBool b) = Inr (if b then 1 else 0)"
| "py_int (PFloat r) = Inr (trunc_real r)"
| "py_int (PStr s) = py_int_of_str s"
| "py_int _ = Inl TypeError"

subsection \<open>Dict update refines map update\<close>

text \<open>The abstraction of a dict is \<open>map_of\<close>; item assignment is map update, and
  the list of keys changes only by appending a new key at the end.\<close>

lemma dict_set_map_of [simp]: "map_of (dict_set d k v) = (map_of d)(k \<mapsto> v)"
  by (induction d k v rule: dict_set.induct) (auto simp: fun_eq_iff)

lemma dict_set_keys:
  "map fst (dict_set d k v) = (if k \<in> set (map fst d) then map fst d else map fst d @ [k])"
  by (induction d k v rule: dict_set.induct) auto

lemma dict_set_distinct [simp]: "distinct (map fst d) \<Longrightarrow> distinct (map fst (dict_set d k v))"
  by (simp add: dict_set_keys)

lemma dict_setdefault_map_of [simp]:
  "map_of (dict_setdefault d k v) = (if k \<in> dom (map_of d) then map_of d else (map_of d)(k \<mapsto> v))"
proof (cases "k \<in> set (map fst d)")
  case True
  then show ?thesis by (simp add: dict_setdefault_def dom_map_of_conv_image_fst)
next
  case False
  then have "map_of d k = None" by (simp add: map_of_eq_None_iff)
  with False show ?thesis
    by (auto simp: dict_setdefault_def dom_map_of_conv_image_fst map_add_def fun_eq_iff
        map_of_append split: option.splits)
qed

lemma dict_setdefault_keys:
  "map fst (dict_setdefault d k v) = (if k \<in> set (map fst d) then map fst d else map fst d @ [k])"
  by (simp add: dict_setdefault_def)

lemma py_or_else_simps [simp]:
  "py_or_else (Inl e) b = Inl e"
  "py_or_else (Inr x) b = (if py_truthy x then Inr x else b)"
  by (simp_all add: py_or_else_def)

end
