(* ===== verification/Mapper.thy ===== *)
theory Mapper
  imports PyValue "HOL-Library.Multiset"
begin

text \<open>
  The field mappers of \<open>src/scripts/openalex_to_hugo.py\<close>: \<open>pick_venue\<close>
  (lines 40--45), \<open>pick_authors\<close> (47--56), \<open>pick_topics\<close> (58--62) and the
  inline mappings of \<open>main\<close> (lines 153--159), over the \<open>pyval\<close> that
  \<open>r.json()\<close> returned. Every \<open>.get\<close>, \<open>or\<close>, loop and sort is the Python one,
  so a response of the wrong shape raises here where it raises in Python.
  The lemmas give the behaviour on responses of the OpenAlex shape (\<open>wf_meta\<close>):
  the mappers do not raise, the venue is never empty, the authors keep their order,
  and the topics are the top \<open>limit\<close> concepts by score, stably ordered.
\<close>

subsection \<open>Shapes of values\<close>

fun is_dict :: "pyval \<Rightarrow> bool" where
  "is_dict (PDict d) \<longleftrightarrow> True"
| "is_dict _ \<longleftrightarrow> False"

definition dict_or_falsy :: "pyval \<Rightarrow> bool" where
  "dict_or_falsy v \<longleftrightarrow> is_dict v \<or> \<not> py_truthy v"

text \<open>\<open>dict_val v k\<close>: what \<open>v.get(k)\<close> returns when \<open>v\<close> is a dict.\<close>

fun dict_val :: "pyval \<Rightarrow> pystr \<Rightarrow> pyval" where
  "dict_val (PDict d) k = (case map_of d (PStr k) of None \<Rightarrow> PNone | Some v \<Rightarrow> v)"
| "dict_val _ k = PNone"

fun py_num :: "pyval \<Rightarrow> real option" where
  "py_num (PInt i) = Some (real_of_int i)"
| "py_num (PFloat r) = Some r"
| "py_num (PBool b) = Some (if b then 1 else 0)"
| "py_num _ = None"

subsection \<open>pick_venue\<close>

definition pick_venue :: "pyval \<Rightarrow> pyval py" where
  "pick_venue meta =
     bindE (py_get meta ''host_venue'') (\<lambda>hv0. let hv = py_or hv0 (PDict []) in
     bindE (py_get hv ''display_name'') (\<lambda>dn.
       if py_truthy dn then py_getitem hv ''display_name''
       else
         bindE (py_get meta ''primary_location'') (\<lambda>pl0.
         bindE (py_get (py_or pl0 (PDict [])) ''source'') (\<lambda>src.
         let pl = py_or src (PDict []) in
         bindE (py_get pl ''display_name'') (\<lambda>n. Inr (py_or n (PStr ''?'')))))))"

subsection \<open>pick_authors\<close>

text \<open>The loop of lines 51--55 with its accumulator \<open>names\<close>.\<close>

fun authors_loop :: "pyval list \<Rightarrow> pyval list \<Rightarrow> pyval list py" where
  "authors_loop [] names = Inr names"
| "authors_loop (a # auths) names =
     bindE (py_get a ''author'') (\<lambda>p0.
     bindE (py_get (py_or p0 (PDict [])) ''display_name'') (\<lambda>name.
       authors_loop auths (if py_truthy name then names @ [name] else names)))"

definition pick_authors :: "pyval \<Rightarrow> pyval list py" where
  "pick_authors meta =
     bindE (py_get meta ''authorships'') (\<lambda>a0.
     bindE (py_iter (py_or a0 (PList []))) (\<lambda>auths. authors_loop auths []))"

subsection \<open>pick_topics\<close>

text \<open>The sort key \<open>c.get("score") or 0\<close>, computed for every concept before the
  sort. \<open>sorted(..., reverse=True)\<close> is stable: concepts with equal scores keep
  their order. Numbers (ints, floats, bools) compare by value; when some key is not
  a number and there are two or more concepts the model stops
  (\<open>UnmodelledCompare\<close>): CPython then raises \<open>TypeError\<close> or, when all keys are
  strings or all lists, orders them by that type's comparison.\<close>

definition score_key :: "pyval \<Rightarrow> pyval py" where
  "score_key c = bindE (py_get c ''score'') (\<lambda>s. Inr (py_or s (PInt 0)))"

definition sort_by_score_desc :: "pyval list \<Rightarrow> pyval list \<Rightarrow> pyval list py" where
  "sort_by_score_desc xs ks =
     (case those (map py_num ks) of
        Some ns \<Rightarrow> Inr (map snd (sort_key (\<lambda>p. - fst p) (zip ns xs)))
      | None \<Rightarrow> if length xs \<le> 1 then Inr xs else Inl UnmodelledCompare)"

text \<open>The comprehension of line 62: \<open>c.get("display_name")\<close> is evaluated for the
  test and again for the element.\<close>

fun topic_names :: "pyval list \<Rightarrow> pyval list py" where
  "topic_names [] = Inr []"
| "topic_names (c # cs) =
     bindE (py_get c ''display_name'') (\<lambda>n.
       if py_truthy n
       then bindE (py_get c ''display_name'') (\<lambda>n'. bindE (topic_names cs) (\<lambda>r. Inr (n' # r)))
       else topic_names cs)"

definition pick_topics :: "pyval \<Rightarrow> nat \<Rightarrow> pyval list py" where
  "pick_topics meta limit =
     bindE (py_get meta ''concepts'') (\<lambda>c0.
     bindE (py_iter (py_or c0 (PList []))) (\<lambda>concepts.
     bindE (mapE score_key concepts) (\<lambda>ks.
     bindE (sort_by_score_desc concepts ks) (\<lambda>sorted.
     topic_names (take limit sorted)))))"

subsection \<open>The mappings of main\<close>

text \<open>Lines 153--159 of \<open>main\<close>, in their order: the first statement that raises
  ends the mapping. \<open>oa\<close> is a chain of \<open>or\<close>s whose right operands are only
  evaluated when needed.\<close>

record article_fields =
  af_title :: pyval
  af_year :: pyval
  af_venue :: pyval
  af_authors :: "pyval list"
  af_topics :: "pyval list"
  af_oa :: pyval
  af_doi :: pyval

definition map_fields :: "pyval \<Rightarrow> pystr \<Rightarrow> pystr \<Rightarrow> article_fields py" where
  "map_fields meta page_title doi =
     bindE (py_get meta ''title'') (\<lambda>t.
     bindE (py_get meta ''publication_year'') (\<lambda>y.
     bindE (pick_venue meta) (\<lambda>venue.
     bindE (pick_authors meta) (\<lambda>authors.
     bindE (pick_topics meta 5) (\<lambda>topics.
     bindE (py_or_else
              (bindE (py_get meta ''open_access'') (\<lambda>oa0. py_get (py_or oa0 (PDict [])) ''oa_url''))
              (py_or_else
                 (bindE (py_get meta ''primary_location'')
                    (\<lambda>p. py_get (py_or p (PDict [])) ''landing_page_url''))
                 (Inr (PStr ''''))))
       (\<lambda>oa.
     bindE (py_get meta ''doi'') (\<lambda>d.
       Inr \<lparr>af_title = py_or t (PStr page_title), af_year = py_or y PNone, af_venue = venue,
            af_authors = authors, af_topics = topics, af_oa = oa,
            af_doi = py_or d (PStr doi)\<rparr>)))))))"


subsection \<open>Shape lemmas\<close>

lemma py_get_is_dict [py_simps]: "is_dict v \<Longrightarrow> py_get v k = Inr (dict_val v k)"
  by (cases v) auto

lemma py_get_InrD: "py_get v k = Inr x \<Longrightarrow> is_dict v \<and> x = dict_val v k"
  by (cases v) auto

lemma dict_or_falsy_or [py_simps]: "dict_or_falsy v \<Longrightarrow> is_dict (py_or v (PDict []))"
  by (cases v) (auto simp: dict_or_falsy_def py_or_def)

subsection \<open>Topics: the top concepts by score\<close>

text \<open>The score a concept is sorted by, and the concepts whose key is a number.\<close>

definition concept_score :: "pyval \<Rightarrow> real" where
  "concept_score c = (case py_num (py_or (dict_val c ''score'') (PInt 0)) of Some r \<Rightarrow> r | None \<Rightarrow> 0)"

definition wf_concept :: "pyval \<Rightarrow> bool" where
  "wf_concept c \<longleftrightarrow> is_dict c \<and> py_num (py_or (dict_val c ''score'') (PInt 0)) \<noteq> None"

text \<open>The abstract contract of \<open>pick_topics\<close>: \<open>sel\<close> is a stable top-\<open>k\<close> of
  the scored list \<open>xs\<close>: a sub-multiset of the right length, in descending order,
  no unselected entry scoring above a selected one, and among entries of equal
  score the selected ones are the first in the input order.\<close>

definition is_top_k :: "nat \<Rightarrow> (real \<times> 'a) list \<Rightarrow> (real \<times> 'a) list \<Rightarrow> bool" where
  "is_top_k k xs sel \<longleftrightarrow>
     mset sel \<subseteq># mset xs \<and> length sel = min k (length xs) \<and>
     sorted_wrt (\<lambda>a b. fst b \<le> fst a) sel \<and>
     (\<forall>a\<in>set sel. \<forall>b\<in>#mset xs - mset sel. fst b \<le> fst a) \<and>
     (\<forall>s\<in>fst ` set xs. filter (\<lambda>p. fst p = s) sel =
        take (length (filter (\<lambda>p. fst p = s) sel)) (filter (\<lambda>p. fst p = s) xs))"

lemma sorted_desc_sort_key:
  fixes xs :: "(real \<times> 'a) list"
  shows "sorted_wrt (\<lambda>a b. fst b \<le> fst a) (sort_key (\<lambda>p. - fst p) xs)"
proof -
  have "sorted (map (\<lambda>p. - fst p) (sort_key (\<lambda>p. - fst p) xs))" by (rule sorted_sort_key)
  then have "sorted_wrt (\<lambda>a b. - fst a \<le> - fst b) (sort_key (\<lambda>p. - fst p) xs)"
    by (simp only: sorted_map)
  then show ?thesis by (rule sorted_wrt_mono_rel [rotated]) simp
qed

lemma filter_take_prefix: "filter P (take k ys) = take (length (filter P (take k ys))) (filter P ys)"
proof -
  have "filter P ys = filter P (take k ys) @ filter P (drop k ys)"
    by (metis append_take_drop_id filter_append)
  then show ?thesis by (metis append_eq_conv_conj)
qed

lemma top_k_take_sort:
  fixes xs :: "(real \<times> 'a) list"
  shows "is_top_k k xs (take k (sort_key (\<lambda>p. - fst p) xs))"
proof -
  let ?ys = "sort_key (\<lambda>p. - fst p) xs"
  have ys: "mset ?ys = mset xs" by simp
  have split: "mset xs = mset (take k ?ys) + mset (drop k ?ys)"
    by (metis append_take_drop_id mset_append ys)
  have sub: "mset (take k ?ys) \<subseteq># mset xs" using split by simp
  have rest: "mset xs - mset (take k ?ys) = mset (drop k ?ys)" using split by simp
  have sw: "sorted_wrt (\<lambda>a b. fst b \<le> fst a) (take k ?ys @ drop k ?ys)"
    using sorted_desc_sort_key [of xs] by simp
  then have sw1: "sorted_wrt (\<lambda>a b. fst b \<le> fst a) (take k ?ys)"
    and cross: "\<forall>a\<in>set (take k ?ys). \<forall>b\<in>set (drop k ?ys). fst b \<le> fst a"
    by (simp_all only: sorted_wrt_append) blast+
  have stable: "filter (\<lambda>p. fst p = s) ?ys = filter (\<lambda>p. fst p = s) xs" for s
    using sort_key_stable [of "\<lambda>p. - fst p" "- s" xs] by simp
  have stab: "filter (\<lambda>p. fst p = s) (take k ?ys) =
      take (length (filter (\<lambda>p. fst p = s) (take k ?ys))) (filter (\<lambda>p. fst p = s) xs)" for s
    using filter_take_prefix [of "\<lambda>p. fst p = s" k ?ys] by (simp only: stable)
  show ?thesis
    unfolding is_top_k_def
  proof (intro conjI ballI)
    show "mset (take k ?ys) \<subseteq># mset xs" by (rule sub)
    show "length (take k ?ys) = min k (length xs)" by simp
    show "sorted_wrt (\<lambda>a b. fst b \<le> fst a) (take k ?ys)" by (rule sw1)
  next
    fix a b
    assume "a \<in> set (take k ?ys)" "b \<in># mset xs - mset (take k ?ys)"
    then show "fst b \<le> fst a" using cross by (simp add: rest)
  next
    fix s
    show "filter (\<lambda>p. fst p = s) (take k ?ys) =
      take (length (filter (\<lambda>p. fst p = s) (take k ?ys))) (filter (\<lambda>p. fst p = s) xs)"
      by (rule stab)
  qed
qed

lemma mapE_score_key:
  "list_all wf_concept cs \<Longrightarrow>
   mapE score_key cs = Inr (map (\<lambda>c. py_or (dict_val c ''score'') (PInt 0)) cs)"
  by (induction cs) (auto simp: wf_concept_def score_key_def py_simps)

lemma those_py_num:
  "list_all wf_concept cs \<Longrightarrow>
   those (map py_num (map (\<lambda>c. py_or (dict_val c ''score'') (PInt 0)) cs)) =
   Some (map concept_score cs)"
  by (induction cs) (auto simp: wf_concept_def concept_score_def)

lemma zip_map_self: "zip (map f xs) xs = map (\<lambda>x. (f x, x)) xs"
  by (induction xs) auto

lemma topic_names_dicts:
  "list_all is_dict cs \<Longrightarrow>
   topic_names cs = Inr (filter py_truthy (map (\<lambda>c. dict_val c ''display_name'') cs))"
  by (induction cs) (auto simp: py_simps)

lemma topic_names_length: "topic_names cs = Inr r \<Longrightarrow> length r \<le> length cs"
proof (induction cs arbitrary: r)
  case Nil
  then show ?case by simp
next
  case (Cons c cs)
  then show ?case
    by (fastforce simp: bindE_eq_Inr_iff split: if_splits)
qed

lemma pick_topics_wf:
  assumes "is_dict meta" "dict_val meta ''concepts'' = PList cs" "list_all wf_concept cs"
  shows "pick_topics meta limit =
     Inr (filter py_truthy (map (\<lambda>c. dict_val c ''display_name'')
       (map snd (take limit (sort_key (\<lambda>p. - fst p) (map (\<lambda>c. (concept_score c, c)) cs))))))"
proof -
  have dicts: "list_all is_dict cs" using assms(3) by (auto simp: list_all_iff wf_concept_def)
  have "py_iter (py_or (PList cs) (PList [])) = Inr cs" by (simp add: py_or_def)
  moreover have "list_all is_dict (take limit (map snd (sort_key (\<lambda>p. - fst p)
                   (map (\<lambda>c. (concept_score c, c)) cs))))"
    using dicts by (auto simp: list_all_iff dest!: in_set_takeD)
  moreover have "sort_by_score_desc cs (map (\<lambda>c. py_or (dict_val c ''score'') (PInt 0)) cs) =
      Inr (map snd (sort_key (\<lambda>p. - fst p) (map (\<lambda>c. (concept_score c, c)) cs)))"
    using those_py_num [OF assms(3)]
    by (simp only: sort_by_score_desc_def option.case zip_map_self)
  ultimately show ?thesis
    using assms
    by (simp add: pick_topics_def mapE_score_key topic_names_dicts take_map py_simps)
qed

text \<open>C7: on concepts whose scores are numbers, \<open>pick_topics\<close> returns the display
  names, where set, of a stable top-\<open>limit\<close> selection of the concepts by score, in
  descending order of score (spec section 4.5).\<close>

theorem pick_topics_top_k:
  "is_dict meta \<Longrightarrow> dict_val meta ''concepts'' = PList cs \<Longrightarrow> list_all wf_concept cs \<Longrightarrow>
   \<exists>sel. is_top_k limit (map (\<lambda>c. (concept_score c, c)) cs) sel \<and>
     pick_topics meta limit = Inr (filter py_truthy (map (\<lambda>c. dict_val c ''display_name'') (map snd sel)))"
  using pick_topics_wf top_k_take_sort by blast

definition topics_example :: pyval where
  "topics_example = PDict [(PStr ''concepts'', PList [
     PDict [(PStr ''display_name'', PStr ''A''), (PStr ''score'', PFloat 0.9)],
     PDict [(PStr ''display_name'', PStr ''B''), (PStr ''score'', PFloat 0.5)],
     PDict [(PStr ''display_name'', PStr ''C''), (PStr ''score'', PFloat 0.99)]])]"

theorem pick_topics_top_k_witness:
  "is_dict topics_example \<and>
   dict_val topics_example ''concepts'' = PList [
     PDict [(PStr ''display_name'', PStr ''A''), (PStr ''score'', PFloat 0.9)],
     PDict [(PStr ''display_name'', PStr ''B''), (PStr ''score'', PFloat 0.5)],
     PDict [(PStr ''display_name'', PStr ''C''), (PStr ''score'', PFloat 0.99)]] \<and>
   pick_topics topics_example 2 = Inr [PStr ''C'', PStr ''A''] \<and>
   (\<exists>sel. is_top_k 2 (map (\<lambda>c. (concept_score c, c)) [
     PDict [(PStr ''display_name'', PStr ''A''), (PStr ''score'', PFloat 0.9)],
     PDict [(PStr ''display_name'', PStr ''B''), (PStr ''score'', PFloat 0.5)],
     PDict [(PStr ''display_name'', PStr ''C''), (PStr ''score'', PFloat 0.99)]]) sel \<and>
     pick_topics topics_example 2 =
       Inr (filter py_truthy (map (\<lambda>c. dict_val c ''display_name'') (map snd sel))))"
proof -
  have h1: "is_dict topics_example" by (simp add: topics_example_def)
  have h2: "dict_val topics_example ''concepts'' = PList [
     PDict [(PStr ''display_name'', PStr ''A''), (PStr ''score'', PFloat 0.9)],
     PDict [(PStr ''display_name'', PStr ''B''), (PStr ''score'', PFloat 0.5)],
     PDict [(PStr ''display_name'', PStr ''C''), (PStr ''score'', PFloat 0.99)]]"
    by (simp add: topics_example_def)
  have h3: "list_all wf_concept [
     PDict [(PStr ''display_name'', PStr ''A''), (PStr ''score'', PFloat 0.9)],
     PDict [(PStr ''display_name'', PStr ''B''), (PStr ''score'', PFloat 0.5)],
     PDict [(PStr ''display_name'', PStr ''C''), (PStr ''score'', PFloat 0.99)]]"
    by (simp add: wf_concept_def py_or_def)
  have v: "pick_topics topics_example 2 = Inr [PStr ''C'', PStr ''A'']"
    by (simp add: topics_example_def pick_topics_def score_key_def py_or_def sort_by_score_desc_def)
  show ?thesis using h1 h2 v pick_topics_top_k [OF h1 h2 h3, of 2] by blast
qed

text \<open>\<open>pick_topics\<close> never returns more than \<open>limit\<close> names, whatever the
  response.\<close>

theorem pick_topics_length: "pick_topics meta limit = Inr ts \<Longrightarrow> length ts \<le> limit"
proof -
  assume "pick_topics meta limit = Inr ts"
  then obtain sorted where "topic_names (take limit sorted) = Inr ts"
    by (auto simp: pick_topics_def bindE_eq_Inr_iff)
  then have "length ts \<le> length (take limit sorted)" by (rule topic_names_length)
  then show ?thesis by simp
qed

theorem pick_topics_length_witness:
  "pick_topics topics_example 2 = Inr [PStr ''C'', PStr ''A''] \<and> length [PStr ''C'', PStr ''A''] \<le> 2"
proof -
  have h: "pick_topics topics_example 2 = Inr [PStr ''C'', PStr ''A'']"
    by (simp add: topics_example_def pick_topics_def score_key_def py_or_def sort_by_score_desc_def)
  show ?thesis using h pick_topics_length [OF h] by simp
qed


subsection \<open>Authors\<close>

definition wf_authorship :: "pyval \<Rightarrow> bool" where
  "wf_authorship a \<longleftrightarrow> is_dict a \<and> dict_or_falsy (dict_val a ''author'')"

definition author_name :: "pyval \<Rightarrow> pyval" where
  "author_name a = dict_val (py_or (dict_val a ''author'') (PDict [])) ''display_name''"

lemma authors_loop_wf:
  "list_all wf_authorship auths \<Longrightarrow>
   authors_loop auths names = Inr (names @ filter py_truthy (map author_name auths))"
  by (induction auths arbitrary: names) (auto simp: wf_authorship_def author_name_def py_simps)

text \<open>C8: on authorship records of the OpenAlex shape, \<open>pick_authors\<close> returns
  the authors' display names in the order of the response, skipping the records
  without a name.\<close>

theorem pick_authors_order:
  "is_dict meta \<Longrightarrow> dict_val meta ''authorships'' = PList auths \<Longrightarrow>
   list_all wf_authorship auths \<Longrightarrow>
   pick_authors meta = Inr (filter py_truthy (map author_name auths))"
  by (simp add: pick_authors_def py_or_def authors_loop_wf py_simps)

definition authors_example :: "pyval list" where
  "authors_example = [
     PDict [(PStr ''author'', PDict [(PStr ''display_name'', PStr ''Ada'')])],
     PDict [(PStr ''author'', PNone)],
     PDict [(PStr ''author'', PDict [(PStr ''display_name'', PStr ''Bob'')])]]"

theorem pick_authors_order_witness:
  "is_dict (PDict [(PStr ''authorships'', PList authors_example)]) \<and>
   dict_val (PDict [(PStr ''authorships'', PList authors_example)]) ''authorships'' = PList authors_example \<and>
   list_all wf_authorship authors_example \<and>
   pick_authors (PDict [(PStr ''authorships'', PList authors_example)]) = Inr [PStr ''Ada'', PStr ''Bob'']"
proof -
  have h1: "is_dict (PDict [(PStr ''authorships'', PList authors_example)])" by simp
  have h2: "dict_val (PDict [(PStr ''authorships'', PList authors_example)]) ''authorships'' =
    PList authors_example" by simp
  have h3: "list_all wf_authorship authors_example"
    by (simp add: authors_example_def wf_authorship_def dict_or_falsy_def)
  have "filter py_truthy (map author_name authors_example) = [PStr ''Ada'', PStr ''Bob'']"
    by (simp add: authors_example_def author_name_def py_or_def)
  then show ?thesis using h1 h2 h3 pick_authors_order [OF h1 h2 h3] by simp
qed

subsection \<open>Venue\<close>

lemma py_getitem_get:
  "py_get hv k = Inr dn \<Longrightarrow> py_truthy dn \<Longrightarrow> py_getitem hv k = Inr dn"
  by (cases hv) (auto split: option.splits)

text \<open>C9: whatever the response, a venue that \<open>pick_venue\<close> returns is truthy
  (a display name or the placeholder \<open>"?"\<close>), so the \<open>venue or ""\<close> of line 177
  never takes its right operand.\<close>

theorem pick_venue_truthy: "pick_venue meta = Inr v \<Longrightarrow> py_truthy v"
  by (auto simp: pick_venue_def bindE_eq_Inr_iff py_or_def Let_def split: if_splits
      dest: py_getitem_get)

theorem pick_venue_truthy_witness:
  "pick_venue (PDict []) = Inr (PStr ''?'') \<and> py_truthy (PStr ''?'')"
proof -
  have h: "pick_venue (PDict []) = Inr (PStr ''?'')" by (simp add: pick_venue_def py_or_def)
  show ?thesis using h pick_venue_truthy [OF h] by simp
qed

subsection \<open>The whole mapping on responses of the OpenAlex shape\<close>

text \<open>\<open>wf_meta\<close>: the response is a dict, and each field the mappers read is absent,
  falsy, or of the type OpenAlex documents: dicts for \<open>host_venue\<close>,
  \<open>primary_location\<close> (and its \<open>source\<close>) and \<open>open_access\<close>, lists of
  dicts for \<open>authorships\<close> and \<open>concepts\<close>, numbers for scores.\<close>

definition wf_list :: "(pyval \<Rightarrow> bool) \<Rightarrow> pyval \<Rightarrow> bool" where
  "wf_list P v \<longleftrightarrow> \<not> py_truthy v \<or> (case v of PList xs \<Rightarrow> list_all P xs | _ \<Rightarrow> False)"

definition wf_meta :: "pyval \<Rightarrow> bool" where
  "wf_meta m \<longleftrightarrow>
     is_dict m \<and> dict_or_falsy (dict_val m ''host_venue'') \<and>
     dict_or_falsy (dict_val m ''primary_location'') \<and>
     dict_or_falsy (dict_val (py_or (dict_val m ''primary_location'') (PDict [])) ''source'') \<and>
     wf_list wf_authorship (dict_val m ''authorships'') \<and>
     wf_list wf_concept (dict_val m ''concepts'') \<and>
     dict_or_falsy (dict_val m ''open_access'')"

lemma wf_list_cases:
  "wf_list P v \<Longrightarrow>
   py_or v (PList []) = PList [] \<or> (\<exists>xs. v = PList xs \<and> py_or v (PList []) = v \<and> list_all P xs)"
  by (cases v) (auto simp: wf_list_def py_or_def)

lemma py_getitem_dict:
  "is_dict hv \<Longrightarrow> py_truthy (dict_val hv k) \<Longrightarrow> py_getitem hv k = Inr (dict_val hv k)"
  by (cases hv) (auto split: option.splits)

lemma pick_venue_wf: "wf_meta m \<Longrightarrow> \<exists>v. pick_venue m = Inr v"
  by (auto simp: wf_meta_def pick_venue_def Let_def py_getitem_dict py_simps)

lemma pick_authors_wf: "wf_meta m \<Longrightarrow> \<exists>r. pick_authors m = Inr r"
proof -
  assume wf: "wf_meta m"
  then have m: "is_dict m" and a: "wf_list wf_authorship (dict_val m ''authorships'')"
    by (simp_all add: wf_meta_def)
  from wf_list_cases [OF a] show ?thesis
    using m by (auto simp: pick_authors_def authors_loop_wf py_simps)
qed

lemma pick_topics_wf_meta: "wf_meta m \<Longrightarrow> \<exists>r. pick_topics m limit = Inr r"
proof -
  assume wf: "wf_meta m"
  then have m: "is_dict m" and c: "wf_list wf_concept (dict_val m ''concepts'')"
    by (simp_all add: wf_meta_def)
  from wf_list_cases [OF c] show ?thesis
  proof
    assume "py_or (dict_val m ''concepts'') (PList []) = PList []"
    with m show ?thesis by (simp add: pick_topics_def sort_by_score_desc_def py_simps)
  next
    assume "\<exists>xs. dict_val m ''concepts'' = PList xs \<and>
      py_or (dict_val m ''concepts'') (PList []) = dict_val m ''concepts'' \<and> list_all wf_concept xs"
    with m show ?thesis using pick_topics_wf by blast
  qed
qed

definition oa_of :: "pyval \<Rightarrow> pyval py" where
  "oa_of m =
     py_or_else
       (bindE (py_get m ''open_access'') (\<lambda>oa0. py_get (py_or oa0 (PDict [])) ''oa_url''))
       (py_or_else
          (bindE (py_get m ''primary_location'') (\<lambda>p. py_get (py_or p (PDict [])) ''landing_page_url''))
          (Inr (PStr '''')))"

lemma oa_wf: "wf_meta m \<Longrightarrow> \<exists>oa. oa_of m = Inr oa"
  by (auto simp: wf_meta_def oa_of_def py_simps)

lemma map_fields_oa_of:
  "map_fields meta page_title doi =
     bindE (py_get meta ''title'') (\<lambda>t.
     bindE (py_get meta ''publication_year'') (\<lambda>y.
     bindE (pick_venue meta) (\<lambda>venue.
     bindE (pick_authors meta) (\<lambda>authors.
     bindE (pick_topics meta 5) (\<lambda>topics.
     bindE (oa_of meta) (\<lambda>oa.
     bindE (py_get meta ''doi'') (\<lambda>d.
       Inr \<lparr>af_title = py_or t (PStr page_title), af_year = py_or y PNone, af_venue = venue,
            af_authors = authors, af_topics = topics, af_oa = oa,
            af_doi = py_or d (PStr doi)\<rparr>)))))))"
  by (simp add: map_fields_def oa_of_def)

text \<open>C10: on a response of the OpenAlex shape the mapping of lines 153--159 never
  raises: title, year, venue, authors, topics, open-access URL and DOI are all
  computed.\<close>

theorem map_fields_total: "wf_meta m \<Longrightarrow> \<exists>r. map_fields m page_title doi = Inr r"
proof -
  assume wf: "wf_meta m"
  then have m: "is_dict m" by (simp add: wf_meta_def)
  obtain v where "pick_venue m = Inr v" using pick_venue_wf [OF wf] by blast
  moreover obtain a where "pick_authors m = Inr a" using pick_authors_wf [OF wf] by blast
  moreover obtain t where "pick_topics m 5 = Inr t" using pick_topics_wf_meta [OF wf] by blast
  moreover obtain oa where "oa_of m = Inr oa" using oa_wf [OF wf] by blast
  ultimately show ?thesis using m by (simp add: map_fields_oa_of py_simps)
qed

definition openalex_example :: pyval where
  "openalex_example = PDict [
     (PStr ''title'', PStr ''Foo Bar''),
     (PStr ''publication_year'', PInt 2021),
     (PStr ''host_venue'', PDict [(PStr ''display_name'', PStr ''ACME Journal'')]),
     (PStr ''authorships'', PList authors_example),
     (PStr ''concepts'', PList [
        PDict [(PStr ''display_name'', PStr ''A''), (PStr ''score'', PFloat 0.9)],
        PDict [(PStr ''display_name'', PStr ''B''), (PStr ''score'', PFloat 0.5)],
        PDict [(PStr ''display_name'', PStr ''C''), (PStr ''score'', PFloat 0.99)]])]"

theorem map_fields_total_witness:
  "wf_meta openalex_example \<and> (\<exists>r. map_fields openalex_example ''Page'' ''10.1/xyz'' = Inr r)"
proof -
  have h: "wf_meta openalex_example"
    by (simp add: openalex_example_def authors_example_def wf_meta_def wf_list_def
        wf_authorship_def wf_concept_def dict_or_falsy_def py_or_def)
  show ?thesis using h map_fields_total [OF h] by blast
qed

text \<open>C11: a response of another shape than OpenAlex documents is not
  tolerated: when the response is not a JSON object, \<open>meta.get("title")\<close> raises
  \<open>AttributeError\<close>; when it is one but its \<open>host_venue\<close> is truthy and not an
  object (a string, a list, a number), \<open>(meta.get("host_venue") or {}).get\<close>
  raises \<open>AttributeError\<close>. The error is not caught and ends the program.\<close>

theorem map_fields_wrong_shape:
  assumes "\<not> is_dict meta \<or> \<not> dict_or_falsy (dict_val meta ''host_venue'')"
  shows "map_fields meta page_title doi = Inl AttributeError"
proof (cases "is_dict meta")
  case False
  then show ?thesis by (cases meta) (simp_all add: map_fields_def)
next
  case True
  then obtain kvs where m: "meta = PDict kvs" by (cases meta) auto
  let ?hv = "dict_val meta ''host_venue''"
  from True assms have hv: "py_truthy ?hv" "\<not> is_dict ?hv" by (auto simp: dict_or_falsy_def)
  then have "py_get (py_or ?hv (PDict [])) ''display_name'' = Inl AttributeError"
    by (cases ?hv) (simp_all add: py_or_def)
  then have "pick_venue meta = Inl AttributeError"
    by (simp add: pick_venue_def m split: option.splits)
  then show ?thesis by (simp add: map_fields_def m)
qed

theorem map_fields_wrong_shape_witness:
  "py_truthy (dict_val (PDict [(PStr ''host_venue'', PStr ''ACME'')]) ''host_venue'') \<and>
   \<not> is_dict (dict_val (PDict [(PStr ''host_venue'', PStr ''ACME'')]) ''host_venue'') \<and>
   map_fields (PDict [(PStr ''host_venue'', PStr ''ACME'')]) ''t'' ''d'' = Inl AttributeError"
proof -
  have h: "\<not> is_dict (PDict [(PStr ''host_venue'', PStr ''ACME'')]) \<or>
    \<not> dict_or_falsy (dict_val (PDict [(PStr ''host_venue'', PStr ''ACME'')]) ''host_venue'')"
    by (simp add: dict_or_falsy_def)
  show ?thesis using map_fields_wrong_shape [OF h] by simp
qed

end
