(* ===== verification/Merge.thy ===== *)
theory Merge
  imports Mapper
begin

text \<open>
  The merge of lines 165--179 of \<open>src/scripts/openalex_to_hugo.py\<close>: the
  mapped fields of an article (\<open>article_fields\<close>, see \<open>Mapper\<close>) are set into the
  front matter \<open>fm\<close> read from the page, by item assignment, \<open>setdefault\<close> and
  an \<open>in\<close> test, each of which raises on a front matter that is not a dict. The
  lemmas compare the merge with its specification \<open>merge_spec\<close> on the abstraction
  \<open>map_of\<close> of the dict, and describe the order of its keys.
\<close>

definition merge_front_matter :: "pyval \<Rightarrow> pystr \<Rightarrow> pystr \<Rightarrow> article_fields \<Rightarrow> pyval py" where
  "merge_front_matter fm page_title now af =
     bindE (py_setitem fm ''title'' (PStr page_title)) (\<lambda>fm.
     bindE (py_setitem fm ''type'' (PStr ''articles'')) (\<lambda>fm.
     bindE (py_setdefault fm ''draft'' (PBool False)) (\<lambda>fm.
     bindE (py_contains fm ''date'') (\<lambda>has_date.
     bindE (if \<not> has_date then py_setitem fm ''date'' (PStr now) else Inr fm) (\<lambda>fm.
     bindE (py_setitem fm ''article_doi'' (af_doi af)) (\<lambda>fm.
     bindE (py_setitem fm ''article_oaurl'' (py_or (af_oa af) (PStr ''''))) (\<lambda>fm.
     bindE (py_setitem fm ''article_topics'' (py_or (PList (af_topics af)) (PList []))) (\<lambda>fm.
     bindE (py_setitem fm ''article_article_authors'' (py_or (PList (af_authors af)) (PList []))) (\<lambda>fm.
     bindE (py_setitem fm ''article_title'' (af_title af)) (\<lambda>fm.
     bindE (py_setitem fm ''article_venue'' (py_or (af_venue af) (PStr ''''))) (\<lambda>fm.
       if py_truthy (af_year af)
       then bindE (py_int (af_year af)) (\<lambda>y. py_setitem fm ''article_publication_year'' (PInt y))
       else Inr fm)))))))))))"

subsection \<open>Specification\<close>

text \<open>What spec section 4.6 asks of the merge, on the abstraction \<open>map_of\<close> of the
  dict: the merge keys are set, \<open>draft\<close> and \<open>date\<close> only when absent, every
  other key keeps its value; the publication year is added when truthy.\<close>

definition merge_spec :: "(pyval \<rightharpoonup> pyval) \<Rightarrow> pystr \<Rightarrow> pystr \<Rightarrow> article_fields \<Rightarrow> (pyval \<rightharpoonup> pyval)" where
  "merge_spec m t now af =
     (m(PStr ''title'' \<mapsto> PStr t,
        PStr ''type'' \<mapsto> PStr ''articles'',
        PStr ''draft'' \<mapsto> (case m (PStr ''draft'') of None \<Rightarrow> PBool False | Some v \<Rightarrow> v),
        PStr ''date'' \<mapsto> (case m (PStr ''date'') of None \<Rightarrow> PStr now | Some v \<Rightarrow> v),
        PStr ''article_doi'' \<mapsto> af_doi af,
        PStr ''article_oaurl'' \<mapsto> py_or (af_oa af) (PStr ''''),
        PStr ''article_topics'' \<mapsto> PList (af_topics af),
        PStr ''article_article_authors'' \<mapsto> PList (af_authors af),
        PStr ''article_title'' \<mapsto> af_title af,
        PStr ''article_venue'' \<mapsto> py_or (af_venue af) (PStr ''''))) ++
     (if py_truthy (af_year af)
      then (case py_int (af_year af) of
              Inr y \<Rightarrow> [PStr ''article_publication_year'' \<mapsto> PInt y]
            | Inl _ \<Rightarrow> Map.empty)
      else Map.empty)"

definition merge_keys :: "article_fields \<Rightarrow> pyval list" where
  "merge_keys af =
     map PStr ([''title'', ''type'', ''draft'', ''date'', ''article_doi'', ''article_oaurl'',
                ''article_topics'', ''article_article_authors'', ''article_title'', ''article_venue''] @
               (if py_truthy (af_year af) then [''article_publication_year''] else []))"

definition add_key :: "pyval list \<Rightarrow> pyval \<Rightarrow> pyval list" where
  "add_key ks k = (if k \<in> set ks then ks else ks @ [k])"

definition merge_base :: "pydict \<Rightarrow> pystr \<Rightarrow> pystr \<Rightarrow> article_fields \<Rightarrow> pydict" where
  "merge_base d t now af =
     dict_set (dict_set (dict_set (dict_set (dict_set (dict_set
       (dict_setdefault (dict_setdefault
          (dict_set (dict_set d (PStr ''title'') (PStr t)) (PStr ''type'') (PStr ''articles''))
          (PStr ''draft'') (PBool False)) (PStr ''date'') (PStr now))
       (PStr ''article_doi'') (af_doi af))
       (PStr ''article_oaurl'') (py_or (af_oa af) (PStr '''')))
       (PStr ''article_topics'') (PList (af_topics af)))
       (PStr ''article_article_authors'') (PList (af_authors af)))
       (PStr ''article_title'') (af_title af))
       (PStr ''article_venue'') (py_or (af_venue af) (PStr ''''))"

text \<open>The fields of the example used by the witnesses.\<close>

definition example_fields :: article_fields where
  "example_fields =
     \<lparr>af_title = PStr ''a'', af_year = PNone, af_venue = PStr ''?'', af_authors = [], af_topics = [],
      af_oa = PStr '''', af_doi = PStr ''x''\<rparr>"

subsection \<open>The merge against its specification\<close>

lemma foldl_add_key:
  "distinct kl \<Longrightarrow> foldl add_key ks kl = ks @ filter (\<lambda>k. k \<notin> set ks) kl"
proof (induction kl arbitrary: ks rule: rev_induct)
  case Nil
  then show ?case by simp
next
  case (snoc k kl)
  then show ?case by (auto simp: add_key_def)
qed

lemma key_steps:
  "map fst (dict_set d k v) = add_key (map fst d) k"
  "map fst (dict_setdefault d k v) = add_key (map fst d) k"
  by (simp_all add: add_key_def dict_set_keys dict_setdefault_keys)

lemma dict_set_new: "k \<notin> set (map fst d) \<Longrightarrow> dict_set d k v = d @ [(k, v)]"
  by (induction d k v rule: dict_set.induct) auto

lemma setdefault_as_test:
  "(if PStr k \<in> fst ` set d then Inr (PDict d) else py_setitem (PDict d) k v) =
   Inr (PDict (dict_setdefault d (PStr k) v))"
  "(if PStr k \<notin> fst ` set d then py_setitem (PDict d) k v else Inr (PDict d)) =
   Inr (PDict (dict_setdefault d (PStr k) v))"
  by (simp_all add: dict_setdefault_def dict_set_new)

lemma map_of_setdefault_upd:
  "map_of (dict_setdefault d k v) = (map_of d)(k \<mapsto> (case map_of d k of None \<Rightarrow> v | Some x \<Rightarrow> x))"
  by (auto simp: fun_eq_iff dom_def split: option.splits)

lemma py_or_list: "py_or (PList xs) (PList []) = PList xs"
  by (simp add: py_or_def)

lemma merge_front_matter_dict:
  "merge_front_matter (PDict d) t now af =
     (if py_truthy (af_year af)
      then bindE (py_int (af_year af))
             (\<lambda>y. Inr (PDict (dict_set (merge_base d t now af) (PStr ''article_publication_year'') (PInt y))))
      else Inr (PDict (merge_base d t now af)))"
  by (simp add: merge_front_matter_def merge_base_def py_or_list setdefault_as_test)

lemma merge_base_spec:
  "map_of (merge_base d t now af) =
     (map_of d)(PStr ''title'' \<mapsto> PStr t,
        PStr ''type'' \<mapsto> PStr ''articles'',
        PStr ''draft'' \<mapsto> (case map_of d (PStr ''draft'') of None \<Rightarrow> PBool False | Some v \<Rightarrow> v),
        PStr ''date'' \<mapsto> (case map_of d (PStr ''date'') of None \<Rightarrow> PStr now | Some v \<Rightarrow> v),
        PStr ''article_doi'' \<mapsto> af_doi af,
        PStr ''article_oaurl'' \<mapsto> py_or (af_oa af) (PStr ''''),
        PStr ''article_topics'' \<mapsto> PList (af_topics af),
        PStr ''article_article_authors'' \<mapsto> PList (af_authors af),
        PStr ''article_title'' \<mapsto> af_title af,
        PStr ''article_venue'' \<mapsto> py_or (af_venue af) (PStr ''''))"
  by (simp add: merge_base_def map_of_setdefault_upd del: dict_setdefault_map_of)

lemma merge_base_keys:
  "map fst (merge_base d t now af) =
     foldl add_key (map fst d) (map PStr [''title'', ''type'', ''draft'', ''date'', ''article_doi'',
       ''article_oaurl'', ''article_topics'', ''article_article_authors'', ''article_title'', ''article_venue''])"
  by (simp add: merge_base_def key_steps)

lemma merge_dict_Inr:
  assumes "merge_front_matter (PDict d) t now af = Inr fm'"
  shows "\<exists>d'. fm' = PDict d' \<and> map_of d' = merge_spec (map_of d) t now af \<and>
         map fst d' = foldl add_key (map fst d) (merge_keys af)"
proof (cases "py_truthy (af_year af)")
  case True
  with assms obtain y where y: "py_int (af_year af) = Inr y"
    and fm': "fm' = PDict (dict_set (merge_base d t now af) (PStr ''article_publication_year'') (PInt y))"
    by (auto simp: merge_front_matter_dict bindE_eq_Inr_iff)
  show ?thesis
    using True y by (simp add: fm' merge_spec_def merge_base_spec merge_keys_def key_steps merge_base_keys
        map_add_upd del: dict_setdefault_map_of)
next
  case False
  with assms have fm': "fm' = PDict (merge_base d t now af)" by (simp add: merge_front_matter_dict)
  show ?thesis
    using False by (simp add: fm' merge_spec_def merge_base_spec merge_keys_def merge_base_keys
        del: dict_setdefault_map_of)
qed


lemma merge_keys_distinct: "distinct (merge_keys af)"
  by (simp add: merge_keys_def)

lemma merge_not_dict: "\<not> is_dict fm \<Longrightarrow> merge_front_matter fm t now af = Inl TypeError"
  by (cases fm) (simp_all add: merge_front_matter_def)

lemma ex_merge:
  "merge_front_matter (PDict [(PStr ''draft'', PBool True)]) ''a'' ''2024-01-01T00:00:00'' example_fields =
   Inr (PDict [(PStr ''draft'', PBool True), (PStr ''title'', PStr ''a''), (PStr ''type'', PStr ''articles''),
     (PStr ''date'', PStr ''2024-01-01T00:00:00''), (PStr ''article_doi'', PStr ''x''),
     (PStr ''article_oaurl'', PStr ''''), (PStr ''article_topics'', PList []),
     (PStr ''article_article_authors'', PList []), (PStr ''article_title'', PStr ''a''),
     (PStr ''article_venue'', PStr ''?'')])"
  by (simp add: merge_front_matter_dict merge_base_def example_fields_def dict_setdefault_def py_or_def)



subsection \<open>Properties of the merge\<close>

text \<open>C26: the merge refines its specification \<open>merge_spec\<close> on the abstraction
  \<open>map_of\<close>: \<open>title\<close>, \<open>type\<close> and the \<open>article_*\<close> keys get the new values, overwriting
  old ones; \<open>draft\<close> and \<open>date\<close> keep a value they have and get \<open>False\<close> and the
  time stamp otherwise; every other key keeps its value; the publication year is
  set, as an int, only when truthy.\<close>

theorem merge_refines_spec:
  "merge_front_matter (PDict d) t now af = Inr fm' \<Longrightarrow>
   \<exists>d'. fm' = PDict d' \<and> map_of d' = merge_spec (map_of d) t now af"
  using merge_dict_Inr by blast

theorem merge_refines_spec_witness:
  "merge_front_matter (PDict [(PStr ''draft'', PBool True)]) ''a'' ''2024-01-01T00:00:00'' example_fields =
   Inr (PDict [(PStr ''draft'', PBool True), (PStr ''title'', PStr ''a''), (PStr ''type'', PStr ''articles''),
     (PStr ''date'', PStr ''2024-01-01T00:00:00''), (PStr ''article_doi'', PStr ''x''),
     (PStr ''article_oaurl'', PStr ''''), (PStr ''article_topics'', PList []),
     (PStr ''article_article_authors'', PList []), (PStr ''article_title'', PStr ''a''),
     (PStr ''article_venue'', PStr ''?'')]) \<and>
   (\<exists>d'. PDict [(PStr ''draft'', PBool True), (PStr ''title'', PStr ''a''), (PStr ''type'', PStr ''articles''),
     (PStr ''date'', PStr ''2024-01-01T00:00:00''), (PStr ''article_doi'', PStr ''x''),
     (PStr ''article_oaurl'', PStr ''''), (PStr ''article_topics'', PList []),
     (PStr ''article_article_authors'', PList []), (PStr ''article_title'', PStr ''a''),
     (PStr ''article_venue'', PStr ''?'')] = PDict d' \<and>
     map_of d' = merge_spec (map_of [(PStr ''draft'', PBool True)]) ''a'' ''2024-01-01T00:00:00'' example_fields)"
  using ex_merge merge_refines_spec [OF ex_merge] by blast

text \<open>C27: the keys of the merged front matter are its old keys in their old order,
  followed by the merge keys it did not have, in the order of lines 166--179.\<close>

theorem merge_key_order:
  "merge_front_matter (PDict d) t now af = Inr fm' \<Longrightarrow>
   \<exists>d'. fm' = PDict d' \<and> map fst d' = map fst d @ filter (\<lambda>k. k \<notin> set (map fst d)) (merge_keys af)"
  using merge_dict_Inr foldl_add_key [OF merge_keys_distinct] by metis

theorem merge_key_order_witness:
  "merge_front_matter (PDict [(PStr ''draft'', PBool True)]) ''a'' ''2024-01-01T00:00:00'' example_fields =
   Inr (PDict [(PStr ''draft'', PBool True), (PStr ''title'', PStr ''a''), (PStr ''type'', PStr ''articles''),
     (PStr ''date'', PStr ''2024-01-01T00:00:00''), (PStr ''article_doi'', PStr ''x''),
     (PStr ''article_oaurl'', PStr ''''), (PStr ''article_topics'', PList []),
     (PStr ''article_article_authors'', PList []), (PStr ''article_title'', PStr ''a''),
     (PStr ''article_venue'', PStr ''?'')]) \<and>
   (\<exists>d'. PDict [(PStr ''draft'', PBool True), (PStr ''title'', PStr ''a''), (PStr ''type'', PStr ''articles''),
     (PStr ''date'', PStr ''2024-01-01T00:00:00''), (PStr ''article_doi'', PStr ''x''),
     (PStr ''article_oaurl'', PStr ''''), (PStr ''article_topics'', PList []),
     (PStr ''article_article_authors'', PList []), (PStr ''article_title'', PStr ''a''),
     (PStr ''article_venue'', PStr ''?'')] = PDict d' \<and>
     map fst d' = map fst [(PStr ''draft'', PBool True)] @
       filter (\<lambda>k. k \<notin> set (map fst [(PStr ''draft'', PBool True)])) (merge_keys example_fields))"
  using ex_merge merge_key_order [OF ex_merge] by blast

end
