(* ===== verification/FrontMatter.thy ===== *)
theory FrontMatter
  imports PyValue
begin

text \<open>
  The front matter of a Hugo page: \<open>read_front_matter\<close> (lines 72--111 of
  \<open>src/scripts/openalex_to_hugo.py\<close>) and \<open>write_front_matter\<close> (lines 114--125).
  Both open the file in text mode. Reading in text mode turns every \<open>\r\n\<close> and
  every lone \<open>\r\<close> into \<open>\n\<close> (\<open>universal_newlines\<close>); writing on a POSIX
  system writes the text as it is. The file store holds the decoded text; the
  YAML library enters as two parameters, \<open>load\<close> for \<open>yaml.safe_load\<close> (which
  may raise) and \<open>dump\<close> for \<open>yaml.safe_dump(..., sort_keys=False,
  allow_unicode=True, default_flow_style=False)\<close>, so every lemma holds for any
  YAML implementation that meets its stated hypotheses.
\<close>

abbreviation LF :: char where "LF \<equiv> CHR 0x0A"
abbreviation CR :: char where "CR \<equiv> CHR 0x0D"

fun universal_newlines :: "pystr \<Rightarrow> pystr" where
  "universal_newlines [] = []"
| "universal_newlines (c # s) =
     (if c = CR then LF # universal_newlines (if take 1 s = [LF] then drop 1 s else s)
      else c # universal_newlines s)"

subsection \<open>read_front_matter\<close>

text \<open>Lines 80--81: the first line, without its \<open>\n\<close>, or the whole text.\<close>

definition first_line :: "pystr \<Rightarrow> pystr" where
  "first_line text =
     (let first_line_end = py_find text [LF] in
      if first_line_end \<noteq> -1 then take (nat first_line_end) text else text)"

text \<open>Lines 82--88: the delimiter the first line starts with.\<close>

definition detect_delim :: "pystr \<Rightarrow> pystr option" where
  "detect_delim fl =
     (if py_startswith fl ''---'' then Some ''---''
      else if py_startswith fl ''+++'' then Some ''+++''
      else None)"

text \<open>Lines 96--100: the index of the first line after the first that starts with
  the delimiter.\<close>

fun find_close_from :: "pystr \<Rightarrow> pystr list \<Rightarrow> nat \<Rightarrow> nat option" where
  "find_close_from delim [] i = None"
| "find_close_from delim (l # ls) i =
     (if py_startswith l delim then Some i else find_close_from delim ls (Suc i))"

definition find_close :: "pystr \<Rightarrow> pystr list \<Rightarrow> nat option" where
  "find_close delim lines = find_close_from delim (drop 1 lines) 1"

definition read_front_matter :: "(pystr \<Rightarrow> pyval py) \<Rightarrow> pystr \<Rightarrow> (pyval \<times> pystr) py" where
  "read_front_matter load text =
     (if text = [] then Inr (PDict [], [])
      else case detect_delim (first_line text) of
        None \<Rightarrow> Inr (PDict [], text)
      | Some delim \<Rightarrow>
          (let lines = py_splitlines text in
           if lines = [] \<or> \<not> py_startswith (hd lines) delim then Inr (PDict [], text)
           else case find_close delim lines of
             None \<Rightarrow> Inr (PDict [], text)
           | Some close_idx \<Rightarrow>
               (let fm_text = concat (take (close_idx - 1) (drop 1 lines));
                    body = concat (drop (close_idx + 1) lines)
                in bindE (load fm_text) (\<lambda>data. Inr (py_or data (PDict []), body)))))"

subsection \<open>write_front_matter\<close>

definition write_front_matter :: "(pyval \<Rightarrow> pystr) \<Rightarrow> pyval \<Rightarrow> pystr \<Rightarrow> pystr" where
  "write_front_matter dump data body =
     ''---'' @ [LF] @ dump data @ ''---'' @
     (if body \<noteq> [] \<and> (py_startswith body [LF] \<or> py_startswith body [CR, LF]) then body
      else [LF] @ body)"

text \<open>A YAML dumper and loader for one mapping, used by the witnesses.\<close>

definition toy_dump :: "pyval \<Rightarrow> pystr" where
  "toy_dump v = ''title: x'' @ [CHR 0x0A]"

definition toy_load :: "pystr \<Rightarrow> pyval py" where
  "toy_load s = Inr (PDict [(PStr ''title'', PStr ''x'')])"

subsection \<open>Lines, and reading what was written\<close>

lemma concat_py_splitlines: "concat (py_splitlines s) = s"
proof (induction s rule: py_splitlines.induct)
  case (1 s)
  show ?case
  proof (cases "s = []")
    case True
    then show ?thesis by (simp add: py_splitlines.simps)
  next
    case False
    obtain l r where lr: "take_line s = (l, r)" by fastforce
    with False "1.IH" have "concat (py_splitlines r) = r" by simp
    with lr False show ?thesis
      by (simp add: py_splitlines.simps [of s] take_line_append)
  qed
qed

lemma take_line_append_LF:
  "A \<noteq> [] \<Longrightarrow> last A = CHR 0x0A \<Longrightarrow> take_line A = (l, r) \<Longrightarrow> take_line (A @ B) = (l, r @ B)"
proof (induction A arbitrary: l r)
  case Nil
  then show ?case by simp
next
  case (Cons c A)
  show ?case
  proof (cases "c = CHR 0x0D \<and> take 1 A = [CHR 0x0A]")
    case True
    then have "A \<noteq> []" by auto
    with True Cons.prems show ?thesis by auto
  next
    case F: False
    show ?thesis
    proof (cases "py_is_linebreak c")
      case True
      with F Cons.prems show ?thesis by (cases A) auto
    next
      case False
      then have "c \<noteq> CHR 0x0A" by (auto simp: py_is_linebreak_def)
      with Cons.prems have ne: "A \<noteq> []" and la: "last A = CHR 0x0A" by (cases A; auto)+
      obtain l' r' where lr: "take_line A = (l', r')" by fastforce
      with F False Cons.prems have "l = c # l'" "r = r'" by auto
      have t1: "take 1 (A @ B) = take 1 A" using ne by (cases A) auto
      have notcr: "\<not> (c = CHR 0x0D \<and> take 1 (A @ B) = [CHR 0x0A])"
        unfolding t1 by (rule F)
      have "take_line (A @ B) = (l', r' @ B)" by (rule Cons.IH [OF ne la lr])
      moreover have "take_line (c # (A @ B)) = (case take_line (A @ B) of (x, y) \<Rightarrow> (c # x, y))"
        by (simp only: take_line.simps(2) if_not_P [OF notcr] if_not_P [OF False])
      ultimately show ?thesis using \<open>l = c # l'\<close> \<open>r = r'\<close> by simp
    qed
  qed
qed

lemma py_splitlines_append:
  "A = [] \<or> last A = CHR 0x0A \<Longrightarrow> py_splitlines (A @ B) = py_splitlines A @ py_splitlines B"
proof (induction A rule: py_splitlines.induct)
  case (1 A)
  show ?case
  proof (cases "A = []")
    case True
    then show ?thesis by (simp add: py_splitlines.simps [of "[]"])
  next
    case False
    with "1.prems" have la: "last A = CHR 0x0A" by simp
    obtain l r where lr: "take_line A = (l, r)" by fastforce
    have A: "A = l @ r" using take_line_append [OF lr] by simp
    have "r = [] \<or> last r = CHR 0x0A" using A la by (cases "r = []") auto
    then have IH: "py_splitlines (r @ B) = py_splitlines r @ py_splitlines B"
      using "1.IH" [OF False lr [symmetric]] by simp
    have "take_line (A @ B) = (l, r @ B)" by (rule take_line_append_LF [OF False la lr])
    moreover have "A @ B \<noteq> []" using False by simp
    ultimately show ?thesis
      using False lr IH by (simp add: py_splitlines.simps [of "A @ B"] py_splitlines.simps [of A])
  qed
qed

lemma take_line_single:
  "list_all (\<lambda>c. \<not> py_is_linebreak c) l \<Longrightarrow> take_line (l @ [CHR 0x0A]) = (l @ [CHR 0x0A], [])"
proof (induction l)
  case Nil
  then show ?case by (simp add: py_is_linebreak_def)
next
  case (Cons c l)
  then have "c \<noteq> CHR 0x0D" by (auto simp: py_is_linebreak_def)
  with Cons show ?case by simp
qed

lemma py_splitlines_single:
  "list_all (\<lambda>c. \<not> py_is_linebreak c) l \<Longrightarrow> py_splitlines (l @ [CHR 0x0A]) = [l @ [CHR 0x0A]]"
  by (simp add: py_splitlines.simps [of "l @ [CHR 0x0A]"] take_line_single py_splitlines.simps [of "[]"])

lemma find_close_from_skip:
  "list_all (\<lambda>l. \<not> py_startswith l delim) xs \<Longrightarrow> py_startswith y delim \<Longrightarrow>
   find_close_from delim (xs @ y # ys) i = Some (i + length xs)"
  by (induction xs arbitrary: i) auto

lemma find_close_from_none:
  "list_all (\<lambda>l. \<not> py_startswith l delim) xs \<Longrightarrow> find_close_from delim xs i = None"
  by (induction xs arbitrary: i) auto

lemma read_front_matter_delimited:
  assumes delim: "delim = ''---'' \<or> delim = ''+++''"
    and D: "D \<noteq> []" "last D = CHR 0x0A"
    and nd: "list_all (\<lambda>l. \<not> py_startswith l delim) (py_splitlines D)"
  shows "read_front_matter load (delim @ [CHR 0x0A] @ D @ delim @ [CHR 0x0A] @ rest) =
         bindE (load D) (\<lambda>x. Inr (py_or x (PDict []), rest))"
proof -
  define dl where "dl = delim @ [CHR 0x0A]"
  have W: "delim @ [CHR 0x0A] @ D @ delim @ [CHR 0x0A] @ rest = dl @ D @ dl @ rest"
    by (simp add: dl_def)
  have dl_last: "last dl = CHR 0x0A" and dl_ne: "dl \<noteq> []" by (simp_all add: dl_def)
  have dl_lines: "py_splitlines dl = [dl]"
    unfolding dl_def using delim by (auto intro: py_splitlines_single simp: py_is_linebreak_def)
  have lines: "py_splitlines (dl @ D @ dl @ rest) = dl # py_splitlines D @ dl # py_splitlines rest"
  proof -
    have "py_splitlines (dl @ D @ dl @ rest) = py_splitlines dl @ py_splitlines (D @ dl @ rest)"
      using dl_last by (rule py_splitlines_append [OF disjI2])
    also have "py_splitlines (D @ dl @ rest) = py_splitlines D @ py_splitlines (dl @ rest)"
      using D(2) by (rule py_splitlines_append [OF disjI2])
    also have "py_splitlines (dl @ rest) = py_splitlines dl @ py_splitlines rest"
      using dl_last by (rule py_splitlines_append [OF disjI2])
    finally show ?thesis by (simp add: dl_lines)
  qed
  have fl: "first_line (dl @ D @ dl @ rest) = delim"
    using delim by (auto simp: dl_def first_line_def py_find_def py_startswith_def)
  have dd: "py_startswith dl delim" by (simp add: dl_def py_startswith_def)
  have close: "find_close delim (dl # py_splitlines D @ dl # py_splitlines rest) =
      Some (1 + length (py_splitlines D))"
    using find_close_from_skip [OF nd dd] by (simp add: find_close_def)
  have ne: "dl @ D @ dl @ rest \<noteq> []" using dl_ne by simp
  have det: "detect_delim (first_line (dl @ D @ dl @ rest)) = Some delim"
    using delim by (auto simp: fl detect_delim_def py_startswith_def)
  have fm: "concat (take (1 + length (py_splitlines D) - 1)
      (drop 1 (dl # py_splitlines D @ dl # py_splitlines rest))) = D"
    by (simp add: concat_py_splitlines)
  have body: "concat (drop (1 + length (py_splitlines D) + 1)
      (dl # py_splitlines D @ dl # py_splitlines rest)) = rest"
    by (simp add: concat_py_splitlines)
  show ?thesis
    unfolding W read_front_matter_def
    by (simp only: ne if_False det option.case Let_def lines close fm body) (simp add: dd)
qed

lemma universal_newlines_id: "CHR 0x0D \<notin> set s \<Longrightarrow> universal_newlines s = s"
  by (induction s) auto

lemma universal_newlines_no_CR: "CHR 0x0D \<notin> set (universal_newlines s)"
  by (induction s rule: universal_newlines.induct) auto

lemma write_front_matter_shape:
  "CHR 0x0D \<notin> set body \<Longrightarrow>
   write_front_matter dump data body =
     ''---'' @ [CHR 0x0A] @ dump data @ ''---'' @ [CHR 0x0A] @
     (if py_startswith body [CHR 0x0A] then tl body else body)"
  by (cases body) (auto simp: write_front_matter_def py_startswith_def)

lemma read_write_front_matter:
  assumes "dump d \<noteq> []" "last (dump d) = CHR 0x0A"
    and "list_all (\<lambda>l. \<not> py_startswith l ''---'') (py_splitlines (dump d))"
    and "CHR 0x0D \<notin> set (dump d)" "CHR 0x0D \<notin> set b"
  shows "read_front_matter load (universal_newlines (write_front_matter dump d b)) =
         bindE (load (dump d))
           (\<lambda>x. Inr (py_or x (PDict []), if py_startswith b [CHR 0x0A] then tl b else b))"
proof -
  have nocr: "CHR 0x0D \<notin> set (write_front_matter dump d b)"
    using assms(4,5) by (auto simp: write_front_matter_def)
  have w: "universal_newlines (write_front_matter dump d b) =
      ''---'' @ [CHR 0x0A] @ dump d @ ''---'' @ [CHR 0x0A] @
      (if py_startswith b [CHR 0x0A] then tl b else b)"
    unfolding universal_newlines_id [OF nocr] by (rule write_front_matter_shape [OF assms(5)])
  show ?thesis
    unfolding w by (rule read_front_matter_delimited) (simp_all add: assms)
qed

lemma py_or_dict_empty: "py_or (PDict fm) (PDict []) = PDict fm"
  by (cases fm) (simp_all add: py_or_def)

lemma take_line_prefix:
  "list_all (\<lambda>c. \<not> py_is_linebreak c) p \<Longrightarrow>
   take_line (p @ s) = (p @ fst (take_line s), snd (take_line s))"
proof (induction p)
  case Nil
  then show ?case by simp
next
  case (Cons c p)
  then have "c \<noteq> CHR 0x0D" "\<not> py_is_linebreak c" by (auto simp: py_is_linebreak_def)
  with Cons show ?case by (simp split: prod.splits)
qed

lemma py_splitlines_hd_prefix:
  assumes "p \<noteq> []" "list_all (\<lambda>c. \<not> py_is_linebreak c) p"
  shows "py_splitlines (p @ s) \<noteq> [] \<and> py_startswith (hd (py_splitlines (p @ s))) p"
proof -
  have "p @ s \<noteq> []" using assms(1) by simp
  then show ?thesis
    using take_line_prefix [OF assms(2), of s]
    by (simp add: py_splitlines.simps [of "p @ s"] py_startswith_def split: prod.splits)
qed

lemma first_line_startswith: "py_startswith (first_line t) p \<Longrightarrow> py_startswith t p"
  by (auto simp: first_line_def py_startswith_def Let_def min_def split: if_splits)

lemma detect_delim_Some:
  "detect_delim fl = Some delim \<Longrightarrow>
   (delim = ''---'' \<or> delim = ''+++'') \<and> py_startswith fl delim"
  by (auto simp: detect_delim_def split: if_splits)

lemma delim_no_linebreak:
  "delim = ''---'' \<or> delim = ''+++'' \<Longrightarrow> delim \<noteq> [] \<and> list_all (\<lambda>c. \<not> py_is_linebreak c) delim"
  by (auto simp: py_is_linebreak_def)

lemma set_concat_drop_py_splitlines: "set (concat (drop k (py_splitlines t))) \<subseteq> set t"
proof -
  have "set (concat (drop k (py_splitlines t))) \<subseteq> set (concat (py_splitlines t))"
    by (auto dest: in_set_dropD)
  then show ?thesis by (simp add: concat_py_splitlines)
qed

lemma read_front_matter_body_subset:
  "read_front_matter load text = Inr (fm, b) \<Longrightarrow> set b \<subseteq> set text"
  unfolding read_front_matter_def
  using set_concat_drop_py_splitlines [THEN subsetD, simplified]
  by (auto simp: Let_def bindE_eq_Inr_iff split: if_splits option.splits)

subsection \<open>Properties of the front matter functions\<close>

text \<open>C12: the round trip of spec section 8. Let the dumper end its output with a
  newline, never start a line with \<open>---\<close> and emit no carriage return, and let the
  loader read back what the dumper wrote. Then writing a front matter mapping with a
  body that has no carriage return and does not start with a newline, and reading
  the file back in text mode, gives the same mapping and the same body.\<close>

theorem front_matter_roundtrip:
  assumes "dump (PDict fm) \<noteq> []" "last (dump (PDict fm)) = CHR 0x0A"
    and "list_all (\<lambda>l. \<not> py_startswith l ''---'') (py_splitlines (dump (PDict fm)))"
    and "CHR 0x0D \<notin> set (dump (PDict fm))" "CHR 0x0D \<notin> set b"
    and "\<not> py_startswith b [CHR 0x0A]"
    and "load (dump (PDict fm)) = Inr (PDict fm)"
  shows "read_front_matter load (universal_newlines (write_front_matter dump (PDict fm) b)) =
         Inr (PDict fm, b)"
  using read_write_front_matter [where dump = dump and d = "PDict fm" and b = b and load = load,
    OF assms(1-5)] assms(6,7)
  by (simp add: py_or_dict_empty)

lemmas toy_yaml = toy_dump_def toy_load_def py_splitlines.simps py_is_linebreak_def py_startswith_def

theorem front_matter_roundtrip_witness:
  "toy_dump (PDict [(PStr ''title'', PStr ''x'')]) \<noteq> [] \<and>
   last (toy_dump (PDict [(PStr ''title'', PStr ''x'')])) = CHR 0x0A \<and>
   list_all (\<lambda>l. \<not> py_startswith l ''---'') (py_splitlines (toy_dump (PDict [(PStr ''title'', PStr ''x'')]))) \<and>
   CHR 0x0D \<notin> set (toy_dump (PDict [(PStr ''title'', PStr ''x'')])) \<and> CHR 0x0D \<notin> set ''Body'' \<and>
   \<not> py_startswith ''Body'' [CHR 0x0A] \<and>
   toy_load (toy_dump (PDict [(PStr ''title'', PStr ''x'')])) = Inr (PDict [(PStr ''title'', PStr ''x'')]) \<and>
   read_front_matter toy_load (universal_newlines (write_front_matter toy_dump (PDict [(PStr ''title'', PStr ''x'')]) ''Body'')) =
     Inr (PDict [(PStr ''title'', PStr ''x'')], ''Body'')"
proof -
  have h1: "toy_dump (PDict [(PStr ''title'', PStr ''x'')]) \<noteq> []"
    and h2: "last (toy_dump (PDict [(PStr ''title'', PStr ''x'')])) = CHR 0x0A"
    and h3: "list_all (\<lambda>l. \<not> py_startswith l ''---'') (py_splitlines (toy_dump (PDict [(PStr ''title'', PStr ''x'')])))"
    and h4: "CHR 0x0D \<notin> set (toy_dump (PDict [(PStr ''title'', PStr ''x'')]))"
    and h5: "CHR 0x0D \<notin> set ''Body''"
    and h6: "\<not> py_startswith ''Body'' [CHR 0x0A]"
    and h7: "toy_load (toy_dump (PDict [(PStr ''title'', PStr ''x'')])) = Inr (PDict [(PStr ''title'', PStr ''x'')])"
    by (simp_all add: toy_yaml)
  show ?thesis using h1 h2 h3 h4 h5 h6 h7 front_matter_roundtrip [where dump = toy_dump and fm = "[(PStr ''title'', PStr ''x'')]" and b = "''Body''"
      and load = toy_load, OF h1 h2 h3 h4 h5 h6 h7] by blast
qed

text \<open>C13: under the same conditions, a body that starts with a newline comes back
  without it. \<open>read_front_matter\<close> returns the body after the closing delimiter's
  line, so the body of a page with a blank line after its front matter starts with
  \<open>\n\<close>; \<open>write_front_matter\<close> then writes it right after \<open>---\<close>, where that
  newline ends the delimiter line. Each read-write cycle removes one leading blank
  line of the body.\<close>

theorem front_matter_leading_newline_lost:
  assumes "dump (PDict fm) \<noteq> []" "last (dump (PDict fm)) = CHR 0x0A"
    and "list_all (\<lambda>l. \<not> py_startswith l ''---'') (py_splitlines (dump (PDict fm)))"
    and "CHR 0x0D \<notin> set (dump (PDict fm))" "CHR 0x0D \<notin> set b"
    and "load (dump (PDict fm)) = Inr (PDict fm)"
  shows "read_front_matter load (universal_newlines (write_front_matter dump (PDict fm) (CHR 0x0A # b))) =
         Inr (PDict fm, b)"
proof -
  have "CHR 0x0D \<notin> set (CHR 0x0A # b)" using assms(5) by simp
  from read_write_front_matter [where dump = dump and d = "PDict fm" and b = "CHR 0x0A # b"
    and load = load, OF assms(1-4) this] assms(6) show ?thesis
    by (simp add: py_or_dict_empty py_startswith_def)
qed

theorem front_matter_leading_newline_lost_witness:
  "toy_dump (PDict [(PStr ''title'', PStr ''x'')]) \<noteq> [] \<and>
   last (toy_dump (PDict [(PStr ''title'', PStr ''x'')])) = CHR 0x0A \<and>
   list_all (\<lambda>l. \<not> py_startswith l ''---'') (py_splitlines (toy_dump (PDict [(PStr ''title'', PStr ''x'')]))) \<and>
   CHR 0x0D \<notin> set (toy_dump (PDict [(PStr ''title'', PStr ''x'')])) \<and> CHR 0x0D \<notin> set ''Body'' \<and>
   toy_load (toy_dump (PDict [(PStr ''title'', PStr ''x'')])) = Inr (PDict [(PStr ''title'', PStr ''x'')]) \<and>
   read_front_matter toy_load (universal_newlines (write_front_matter toy_dump (PDict [(PStr ''title'', PStr ''x'')]) (CHR 0x0A # ''Body''))) =
     Inr (PDict [(PStr ''title'', PStr ''x'')], ''Body'')"
proof -
  have h1: "toy_dump (PDict [(PStr ''title'', PStr ''x'')]) \<noteq> []"
    and h2: "last (toy_dump (PDict [(PStr ''title'', PStr ''x'')])) = CHR 0x0A"
    and h3: "list_all (\<lambda>l. \<not> py_startswith l ''---'') (py_splitlines (toy_dump (PDict [(PStr ''title'', PStr ''x'')])))"
    and h4: "CHR 0x0D \<notin> set (toy_dump (PDict [(PStr ''title'', PStr ''x'')]))"
    and h5: "CHR 0x0D \<notin> set ''Body''"
    and h6: "toy_load (toy_dump (PDict [(PStr ''title'', PStr ''x'')])) = Inr (PDict [(PStr ''title'', PStr ''x'')])"
    by (simp_all add: toy_yaml)
  show ?thesis using h1 h2 h3 h4 h5 h6 front_matter_leading_newline_lost [where dump = toy_dump and fm = "[(PStr ''title'', PStr ''x'')]" and b = "''Body''"
      and load = toy_load, OF h1 h2 h3 h4 h5 h6] by blast
qed

text \<open>C14: a page whose first line starts with a delimiter but which has no later line
  starting with the same delimiter is read as an empty front matter and the whole
  text as body (lines 102--104), whatever the YAML loader would do.\<close>

theorem read_front_matter_unclosed:
  "detect_delim (first_line text) = Some delim \<Longrightarrow>
   list_all (\<lambda>l. \<not> py_startswith l delim) (drop 1 (py_splitlines text)) \<Longrightarrow>
   read_front_matter load text = Inr (PDict [], text)"
  by (auto simp: read_front_matter_def find_close_def find_close_from_none Let_def
      split: option.splits)

theorem read_front_matter_unclosed_witness:
  "detect_delim (first_line (''---'' @ [CHR 0x0A] @ ''t: x'')) = Some ''---'' \<and>
   list_all (\<lambda>l. \<not> py_startswith l ''---'') (drop 1 (py_splitlines (''---'' @ [CHR 0x0A] @ ''t: x''))) \<and>
   read_front_matter toy_load (''---'' @ [CHR 0x0A] @ ''t: x'') = Inr (PDict [], ''---'' @ [CHR 0x0A] @ ''t: x'')"
proof -
  have h1: "detect_delim (first_line (''---'' @ [CHR 0x0A] @ ''t: x'')) = Some ''---''"
    by (simp add: detect_delim_def first_line_def py_find_def py_startswith_def)
  have h2: "list_all (\<lambda>l. \<not> py_startswith l ''---'') (drop 1 (py_splitlines (''---'' @ [CHR 0x0A] @ ''t: x'')))"
    by (simp add: toy_yaml)
  show ?thesis using h1 h2 read_front_matter_unclosed [OF h1 h2] by blast
qed

text \<open>C15: the test of line 93 never fires. When the first line (up to the first
  \<open>\n\<close>) starts with a delimiter, \<open>splitlines\<close> yields at least one line and the
  first line it yields starts with the same delimiter, since a delimiter holds no
  line break; the branch \<open>return {}, text\<close> of line 94 is dead code.\<close>

theorem read_front_matter_guard_dead:
  "detect_delim (first_line text) = Some delim \<Longrightarrow>
   py_splitlines text \<noteq> [] \<and> py_startswith (hd (py_splitlines text)) delim"
proof -
  assume a: "detect_delim (first_line text) = Some delim"
  then have d: "delim = ''---'' \<or> delim = ''+++''" and "py_startswith (first_line text) delim"
    by (simp_all add: detect_delim_Some)
  then have "text = delim @ drop (length delim) text"
    by (metis append_take_drop_id first_line_startswith py_startswith_def)
  moreover have "delim \<noteq> [] \<and> list_all (\<lambda>c. \<not> py_is_linebreak c) delim"
    using d by (rule delim_no_linebreak)
  ultimately show ?thesis
    by (metis py_splitlines_hd_prefix)
qed

theorem read_front_matter_guard_dead_witness:
  "detect_delim (first_line (''+++'' @ [CHR 0x0A] @ ''a'')) = Some ''+++'' \<and>
   py_splitlines (''+++'' @ [CHR 0x0A] @ ''a'') \<noteq> [] \<and>
   py_startswith (hd (py_splitlines (''+++'' @ [CHR 0x0A] @ ''a''))) ''+++''"
proof -
  have h: "detect_delim (first_line (''+++'' @ [CHR 0x0A] @ ''a'')) = Some ''+++''"
    by (simp add: detect_delim_def first_line_def py_find_def py_startswith_def)
  show ?thesis using h read_front_matter_guard_dead [OF h] by blast
qed

text \<open>A page with CRLF line ends, as read in text mode: the header is recognised
  and the body has LF line ends.\<close>

lemma ex_read_crlf:
  "read_front_matter toy_load (universal_newlines
     (''---'' @ [CHR 0x0D, CHR 0x0A] @ ''t: x'' @ [CHR 0x0D, CHR 0x0A] @ ''---'' @ [CHR 0x0D, CHR 0x0A] @ ''B'' @ [CHR 0x0D, CHR 0x0A])) =
     Inr (PDict [(PStr ''title'', PStr ''x'')], ''B'' @ [CHR 0x0A])"
proof -
  have u: "universal_newlines
     (''---'' @ [CHR 0x0D, CHR 0x0A] @ ''t: x'' @ [CHR 0x0D, CHR 0x0A] @ ''---'' @ [CHR 0x0D, CHR 0x0A] @ ''B'' @ [CHR 0x0D, CHR 0x0A]) =
     ''---'' @ [CHR 0x0A] @ (''t: x'' @ [CHR 0x0A]) @ ''---'' @ [CHR 0x0A] @ (''B'' @ [CHR 0x0A])"
    by simp
  have r: "read_front_matter toy_load (''---'' @ [CHR 0x0A] @ (''t: x'' @ [CHR 0x0A]) @ ''---'' @ [CHR 0x0A] @ (''B'' @ [CHR 0x0A])) =
     Inr (PDict [(PStr ''title'', PStr ''x'')], ''B'' @ [CHR 0x0A])"
    by (subst read_front_matter_delimited) (simp_all add: toy_yaml py_or_def)
  show ?thesis by (simp only: u r)
qed

end
