(* ===== verification/FileSystem.thy ===== *)
theory FileSystem
  imports FrontMatter
begin

text \<open>
  The file system as the script uses it: \<open>os.path.join\<close>, \<open>os.path.exists\<close>,
  \<open>os.makedirs(path, exist_ok=True)\<close> (\<open>ensure_dirs\<close>, lines 64--65), and
  \<open>open\<close> in text mode for reading and writing (lines 73--74 and 114--115).
  A world holds regular files (a path to the decoded text) and directories (a set of
  paths). Paths are strings; the ancestors of a path are its proper prefixes that end
  right before a slash, so \<open>/a/b/c\<close> has the ancestors \<open>/a\<close> and \<open>/a/b\<close> (the
  root \<open>/\<close> always exists and is left implicit). A well-formed world
  (\<open>wf_world\<close>) has no path that is both a file and a directory, and every
  ancestor of a file or directory is a directory.
\<close>

definition py_path_join :: "string \<Rightarrow> string \<Rightarrow> string" where
  "py_path_join a b =
     (if py_startswith b ''/'' then b
      else if a = [] \<or> py_startswith (rev a) ''/'' then a @ b
      else a @ ''/'' @ b)"

definition ancestors :: "string \<Rightarrow> string list" where
  "ancestors p = map (\<lambda>i. take i p) (filter (\<lambda>i. 0 < i \<and> p ! i = CHR ''/'') [0..<length p])"

definition is_file :: "world \<Rightarrow> string \<Rightarrow> bool" where
  "is_file w p \<longleftrightarrow> files w p \<noteq> None"

text \<open>\<open>os.path.exists(p)\<close>: a file or a directory.\<close>

definition path_exists :: "string \<Rightarrow> bool io" where
  "path_exists p = (\<lambda>w. (Inr (is_file w p \<or> p \<in> dirs w), w))"

text \<open>\<open>os.makedirs(p, exist_ok=True)\<close>: nothing to do for an existing directory;
  \<open>FileExistsError\<close> when \<open>p\<close> is a file; \<open>NotADirectoryError\<close> when one of its
  ancestors is a file (the \<open>mkdir\<close> below it fails and the error is re-raised since
  \<open>p\<close> is no directory); otherwise \<open>p\<close> and every missing ancestor are created.\<close>

definition os_makedirs :: "string \<Rightarrow> unit io" where
  "os_makedirs p =
     (\<lambda>w. if p \<in> dirs w then (Inr (), w)
          else if is_file w p then (Inl FileExistsError, w)
          else if list_ex (is_file w) (ancestors p) then (Inl NotADirectoryError, w)
          else (Inr (), w\<lparr>dirs := dirs w \<union> set (ancestors p) \<union> {p}\<rparr>))"

text \<open>\<open>open(p, "r", encoding="utf-8").read()\<close>: the text of the file with its line
  ends translated (\<open>universal_newlines\<close>); \<open>IsADirectoryError\<close> on a directory,
  \<open>NotADirectoryError\<close> when an ancestor is a file, \<open>FileNotFoundError\<close>
  otherwise.\<close>

definition read_text :: "string \<Rightarrow> string io" where
  "read_text p =
     (\<lambda>w. case files w p of
            Some t \<Rightarrow> (Inr (universal_newlines t), w)
          | None \<Rightarrow>
              if p \<in> dirs w then (Inl IsADirectoryError, w)
              else if list_ex (is_file w) (ancestors p) then (Inl NotADirectoryError, w)
              else (Inl FileNotFoundError, w))"

text \<open>\<open>open(p, "w", encoding="utf-8")\<close> followed by the writes: the file gets the
  text (on POSIX nothing is translated); the same errors as for reading, except
  that a missing file is created when its parent directory exists.\<close>

definition write_text :: "string \<Rightarrow> string \<Rightarrow> unit io" where
  "write_text p t =
     (\<lambda>w. if p \<in> dirs w then (Inl IsADirectoryError, w)
          else if list_ex (is_file w) (ancestors p) then (Inl NotADirectoryError, w)
          else if \<not> list_all (\<lambda>a. a \<in> dirs w) (ancestors p) then (Inl FileNotFoundError, w)
          else (Inr (), w\<lparr>files := (files w)(p \<mapsto> t)\<rparr>))"

definition wf_world :: "world \<Rightarrow> bool" where
  "wf_world w \<longleftrightarrow>
     (\<forall>p. is_file w p \<longrightarrow> p \<notin> dirs w \<and> set (ancestors p) \<subseteq> dirs w) \<and>
     (\<forall>d \<in> dirs w. set (ancestors d) \<subseteq> dirs w)"

definition keeps_wf :: "'a io \<Rightarrow> bool" where
  "keeps_wf m \<longleftrightarrow> (\<forall>w. wf_world w \<longrightarrow> wf_world (snd (m w)))"

named_theorems keeps_wf_intros "statements that keep the world well-formed"

subsection \<open>Ancestors\<close>

lemma ancestors_iff:
  "a \<in> set (ancestors p) \<longleftrightarrow> (\<exists>i. 0 < i \<and> i < length p \<and> p ! i = CHR ''/'' \<and> a = take i p)"
  by (auto simp: ancestors_def)

lemma ancestors_trans: "a \<in> set (ancestors p) \<Longrightarrow> set (ancestors a) \<subseteq> set (ancestors p)"
proof
  fix b assume a: "a \<in> set (ancestors p)" and b: "b \<in> set (ancestors a)"
  from a obtain i where i: "i < length p" "a = take i p" by (auto simp: ancestors_iff)
  from b i obtain j where j: "0 < j" "j < i" "p ! j = CHR ''/''" "b = take j p"
    by (auto simp: ancestors_iff)
  then show "b \<in> set (ancestors p)" using i by (auto simp: ancestors_iff intro!: exI [of _ j])
qed

lemma ancestor_shorter: "a \<in> set (ancestors p) \<Longrightarrow> length a < length p"
  by (auto simp: ancestors_iff)

lemma ancestors_append_slash:
  assumes "c \<noteq> []" "CHR ''/'' \<notin> set x"
  shows "set (ancestors (c @ ''/'' @ x)) = set (ancestors c) \<union> {c}"
proof -
  have "a \<in> set (ancestors (c @ ''/'' @ x)) \<longleftrightarrow> a \<in> set (ancestors c) \<or> a = c" for a
  proof
    assume "a \<in> set (ancestors (c @ ''/'' @ x))"
    then obtain i where i: "0 < i" "i < length (c @ ''/'' @ x)" "(c @ ''/'' @ x) ! i = CHR ''/''"
      and a: "a = take i (c @ ''/'' @ x)" by (auto simp: ancestors_iff)
    consider "i < length c" | "i = length c" | "length c < i" by linarith
    then show "a \<in> set (ancestors c) \<or> a = c"
    proof cases
      case 1
      then show ?thesis using i a by (auto simp: ancestors_iff nth_append)
    next
      case 2
      then show ?thesis using a by simp
    next
      case 3
      then have "x ! (i - length c - 1) = CHR ''/''" "i - length c - 1 < length x"
        using i by (auto simp: nth_append split: if_splits)
      then show ?thesis using assms(2) by (metis nth_mem)
    qed
  next
    assume "a \<in> set (ancestors c) \<or> a = c"
    then show "a \<in> set (ancestors (c @ ''/'' @ x))"
    proof
      assume "a \<in> set (ancestors c)"
      then obtain i where "0 < i" "i < length c" "c ! i = CHR ''/''" "a = take i c"
        by (auto simp: ancestors_iff)
      then show ?thesis by (auto simp: ancestors_iff nth_append intro!: exI [of _ i])
    next
      assume "a = c"
      then show ?thesis using assms(1)
        by (auto simp: ancestors_iff nth_append intro!: exI [of _ "length c"])
    qed
  qed
  then show ?thesis by blast
qed


subsection \<open>Well-formed worlds\<close>

lemma wf_world_streams [simp]:
  "wf_world (w\<lparr>stdout := x\<rparr>) \<longleftrightarrow> wf_world w" "wf_world (w\<lparr>stderr := x\<rparr>) \<longleftrightarrow> wf_world w"
  by (simp_all add: wf_world_def is_file_def)

lemma keeps_wf_bindIO [keeps_wf_intros]:
  assumes m: "keeps_wf m" and f: "\<And>a. keeps_wf (f a)"
  shows "keeps_wf (bindIO m f)"
  unfolding keeps_wf_def
proof (intro allI impI)
  fix w assume w: "wf_world w"
  obtain r w' where mw: "m w = (r, w')" by fastforce
  have "wf_world w'" using m w mw unfolding keeps_wf_def by (metis snd_conv)
  then show "wf_world (snd (bindIO m f w))"
    using f unfolding keeps_wf_def by (cases r) (simp_all add: bindIO_def mw)
qed

lemma keeps_wf_case_prod [keeps_wf_intros]:
  "(\<And>x y. keeps_wf (f x y)) \<Longrightarrow> keeps_wf (case_prod f a)"
  by (cases a) simp

lemma keeps_wf_if [keeps_wf_intros]:
  "keeps_wf m1 \<Longrightarrow> keeps_wf m2 \<Longrightarrow> keeps_wf (if b then m1 else m2)"
  by simp

lemma keeps_wf_basic [keeps_wf_intros]:
  "keeps_wf (returnIO x)" "keeps_wf (liftIO r)" "keeps_wf (write_stderr s)"
  "keeps_wf (write_stdout s)" "keeps_wf (sys_exit n)" "keeps_wf (path_exists p)"
  "keeps_wf (read_text p)"
  by (auto simp: keeps_wf_def path_exists_def read_text_def split: option.splits)

lemma keeps_wf_makedirs [keeps_wf_intros]: "keeps_wf (os_makedirs p)"
  unfolding keeps_wf_def
proof (intro allI impI)
  fix w assume wf: "wf_world w"
  show "wf_world (snd (os_makedirs p w))"
  proof (cases "p \<in> dirs w \<or> is_file w p \<or> list_ex (is_file w) (ancestors p)")
    case True
    with wf show ?thesis by (auto simp: os_makedirs_def)
  next
    case False
    let ?D = "dirs w \<union> set (ancestors p) \<union> {p}"
    have new: "snd (os_makedirs p w) = w\<lparr>dirs := ?D\<rparr>" using False by (simp add: os_makedirs_def)
    have files: "is_file w q \<Longrightarrow> q \<notin> ?D \<and> set (ancestors q) \<subseteq> ?D" for q
      using False wf by (auto simp: wf_world_def list_ex_iff)
    have dirs: "d \<in> ?D \<Longrightarrow> set (ancestors d) \<subseteq> ?D" for d
      using wf ancestors_trans [of d p] by (auto simp: wf_world_def)
    show ?thesis unfolding new using files dirs by (simp add: wf_world_def is_file_def)
  qed
qed

lemma keeps_wf_write_text [keeps_wf_intros]: "keeps_wf (write_text p t)"
  unfolding keeps_wf_def
proof (intro allI impI)
  fix w assume wf: "wf_world w"
  show "wf_world (snd (write_text p t w))"
  proof (cases "p \<in> dirs w \<or> list_ex (is_file w) (ancestors p) \<or> \<not> list_all (\<lambda>a. a \<in> dirs w) (ancestors p)")
    case True
    with wf show ?thesis by (auto simp: write_text_def)
  next
    case False
    then have "snd (write_text p t w) = w\<lparr>files := (files w)(p \<mapsto> t)\<rparr>"
      by (auto simp: write_text_def)
    with False wf show ?thesis by (auto simp: wf_world_def is_file_def list_all_iff)
  qed
qed

lemma makedirs_Inr:
  assumes "wf_world w" "os_makedirs p w = (Inr (), w')"
  shows "p \<in> dirs w' \<and> set (ancestors p) \<subseteq> dirs w' \<and> files w' = files w \<and> dirs w \<subseteq> dirs w'"
  using assms by (auto simp: os_makedirs_def wf_world_def split: if_splits)

end
