(* ===== verification/Fetch.thy ===== *)
theory Fetch
  imports PyValue
begin

text \<open>
  \<open>fetch_openalex_by_doi\<close> (lines 29--38 of \<open>src/scripts/openalex_to_hugo.py\<close>)
  and the library function it uses to build the request URL,
  \<open>urllib.parse.quote(q, safe=':')\<close>. \<open>quote\<close> encodes the string in UTF-8 and
  keeps a byte when it is an ASCII letter or digit, one of \<open>_.-~\<close>, or the colon
  given as \<open>safe\<close>; every other byte becomes \<open>%XX\<close> with upper-case hex digits.
  Characters are Latin-1 code points (see \<open>PyStr\<close>), so a character takes one or
  two UTF-8 bytes. The HTTP client \<open>requests.get(url, timeout=20)\<close> is the
  parameter \<open>http\<close>: it returns the response or raises (\<open>RequestError\<close> for a
  connection failure or the timeout); a response is its status code and what
  \<open>r.json()\<close> gives, the decoded JSON value or \<open>JSONDecodeError\<close>.
  \<open>r.raise_for_status()\<close> raises exactly for the codes 400 to 599, as in
  \<open>requests.models.Response.raise_for_status\<close>.
\<close>

subsection \<open>urllib.parse.quote\<close>

definition quote_always_safe :: "nat \<Rightarrow> bool" where
  "quote_always_safe b \<longleftrightarrow>
     (65 \<le> b \<and> b \<le> 90) \<or> (97 \<le> b \<and> b \<le> 122) \<or> (48 \<le> b \<and> b \<le> 57) \<or>
     b = 95 \<or> b = 46 \<or> b = 45 \<or> b = 126"

definition quote_safe :: "nat \<Rightarrow> bool" where
  "quote_safe b \<longleftrightarrow> quote_always_safe b \<or> b = 58"

definition utf8_encode :: "char \<Rightarrow> nat list" where
  "utf8_encode c =
     (let n = of_char c :: nat in if n < 128 then [n] else [192 + n div 64, 128 + n mod 64])"

definition hex_digit :: "nat \<Rightarrow> char" where
  "hex_digit d = (if d < 10 then char_of (48 + d) else char_of (55 + d))"

definition quote_byte :: "nat \<Rightarrow> pystr" where
  "quote_byte b =
     (if quote_safe b then [char_of b] else [CHR ''%'', hex_digit (b div 16), hex_digit (b mod 16)])"

definition py_quote :: "pystr \<Rightarrow> pystr" where
  "py_quote s = concat (map quote_byte (concat (map utf8_encode s)))"

text \<open>The inverse direction, used only to state what \<open>quote\<close> preserves: percent
  decoding to bytes, and UTF-8 decoding of two-byte sequences.\<close>

subsection \<open>fetch_openalex_by_doi\<close>

record response =
  status_code :: int
  json_result :: "pyval py"

definition raise_for_status :: "response \<Rightarrow> unit py" where
  "raise_for_status r =
     (if 400 \<le> status_code r \<and> status_code r < 600 then Inl HTTPError else Inr ())"

definition not_found_msg :: pystr where
  "not_found_msg = ''OpenAlex: work not found for DOI'' @ [CHR 0x0A]"

definition fetch_openalex_by_doi :: "(pystr \<Rightarrow> response py) \<Rightarrow> pystr \<Rightarrow> pyval io" where
  "fetch_openalex_by_doi http doi =
     (let q = ''doi:'' @ doi;
          url = ''https://api.openalex.org/works/'' @ py_quote q
      in bindIO (liftIO (http url)) (\<lambda>r.
           if status_code r = 404
           then bindIO (write_stderr not_found_msg) (\<lambda>_. sys_exit 2)
           else bindIO (liftIO (raise_for_status r)) (\<lambda>_. liftIO (json_result r))))"

text \<open>An empty world, used by the witnesses.\<close>

definition example_world :: world where
  "example_world = \<lparr>files = Map.empty, dirs = {}, stdout = [], stderr = []\<rparr>"

subsection \<open>The alphabet of quote\<close>

lemma quote_safe_lt: "quote_safe b \<Longrightarrow> b < 256 \<and> b \<noteq> 37"
  by (auto simp: quote_safe_def quote_always_safe_def)

lemma hex_digit_safe: "d < 16 \<Longrightarrow> quote_safe (of_char (hex_digit d))"
  by (auto simp: hex_digit_def quote_safe_def quote_always_safe_def)

lemma utf8_encode_bytes: "list_all (\<lambda>b. b < 256) (utf8_encode c)"
proof -
  have "of_char c < (256::nat)" by (rule nat_of_char_less_256)
  then have "(of_char c :: nat) div 64 < 64" "(of_char c :: nat) mod 64 < 128" by linarith simp
  then show ?thesis by (simp add: utf8_encode_def Let_def)
qed

lemma py_quote_append: "py_quote (a @ b) = py_quote a @ py_quote b"
  by (simp add: py_quote_def)

lemma quote_byte_chars: "b < 256 \<Longrightarrow> list_all (\<lambda>c. quote_safe (of_char c) \<or> c = CHR ''%'') (quote_byte b)"
  by (auto simp: quote_byte_def hex_digit_safe quote_safe_lt less_mult_imp_div_less)

lemma py_quote_doi_prefix: "py_quote (''doi:'' @ doi) = ''doi:'' @ py_quote doi"
  by (simp add: py_quote_append)
     (simp add: py_quote_def utf8_encode_def quote_byte_def quote_safe_def quote_always_safe_def
      char_of_eq_iff_nat)

lemma fetch_openalex_by_doi_apply:
  "http (''https://api.openalex.org/works/doi:'' @ py_quote doi) = Inr r \<Longrightarrow>
   fetch_openalex_by_doi http doi w =
     (if status_code r = 404 then (Inl (SystemExit 2), w\<lparr>stderr := stderr w @ not_found_msg\<rparr>)
      else (case raise_for_status r of Inl e \<Rightarrow> (Inl e, w) | Inr _ \<Rightarrow> (json_result r, w)))"
proof -
  assume h: "http (''https://api.openalex.org/works/doi:'' @ py_quote doi) = Inr r"
  have u: "''https://api.openalex.org/works/'' @ py_quote (''doi:'' @ doi) =
      ''https://api.openalex.org/works/doi:'' @ py_quote doi"
    unfolding py_quote_doi_prefix by simp
  show ?thesis
    unfolding fetch_openalex_by_doi_def Let_def u h
    by (simp add: bindIO_def split: sum.splits)
qed

subsection \<open>Properties of the fetch\<close>

text \<open>C16: the fetch requests \<open>https://api.openalex.org/works/doi:\<close> followed by the
  percent-encoded DOI, the colon kept literally (spec section 4.4); a response whose
  status is not an error status of \<open>raise_for_status\<close> (400 to 599) is decoded
  as JSON and returned, and the world is unchanged.\<close>

theorem fetch_ok:
  "http (''https://api.openalex.org/works/doi:'' @ py_quote doi) = Inr r \<Longrightarrow>
   \<not> (400 \<le> status_code r \<and> status_code r < 600) \<Longrightarrow>
   fetch_openalex_by_doi http doi w = (json_result r, w)"
  by (auto simp: fetch_openalex_by_doi_apply raise_for_status_def)

theorem fetch_ok_witness:
  "(\<lambda>u. Inr \<lparr>status_code = 200, json_result = Inr (PDict [])\<rparr>)
     (''https://api.openalex.org/works/doi:'' @ py_quote ''10.1/x'') =
     Inr \<lparr>status_code = 200, json_result = Inr (PDict [])\<rparr> \<and>
   \<not> (400 \<le> status_code \<lparr>status_code = 200, json_result = Inr (PDict [])\<rparr> \<and>
      status_code \<lparr>status_code = 200, json_result = Inr (PDict [])\<rparr> < 600) \<and>
   fetch_openalex_by_doi (\<lambda>u. Inr \<lparr>status_code = 200, json_result = Inr (PDict [])\<rparr>) ''10.1/x''
     example_world = (Inr (PDict []), example_world)"
proof -
  have h1: "(\<lambda>u. Inr \<lparr>status_code = 200, json_result = Inr (PDict [])\<rparr>)
     (''https://api.openalex.org/works/doi:'' @ py_quote ''10.1/x'') =
     (Inr \<lparr>status_code = 200, json_result = Inr (PDict [])\<rparr> :: response py)" by simp
  have h2: "\<not> (400 \<le> status_code \<lparr>status_code = 200, json_result = Inr (PDict [])\<rparr> \<and>
      status_code \<lparr>status_code = 200, json_result = Inr (PDict [])\<rparr> < 600)" by simp
  show ?thesis using h1 h2 fetch_ok [where w = example_world, OF h1 h2] by simp
qed

text \<open>C17: a 404 response ends the run with exit status 2 after writing the
  not-found message to standard error; nothing else of the world changes.\<close>

theorem fetch_not_found:
  "http (''https://api.openalex.org/works/doi:'' @ py_quote doi) = Inr r \<Longrightarrow>
   status_code r = 404 \<Longrightarrow>
   fetch_openalex_by_doi http doi w =
     (Inl (SystemExit 2), w\<lparr>stderr := stderr w @ ''OpenAlex: work not found for DOI'' @ [CHR 0x0A]\<rparr>)"
  by (simp add: fetch_openalex_by_doi_apply not_found_msg_def)

theorem fetch_not_found_witness:
  "(\<lambda>u. Inr \<lparr>status_code = 404, json_result = Inl JSONDecodeError\<rparr>)
     (''https://api.openalex.org/works/doi:'' @ py_quote ''10.1/x'') =
     Inr \<lparr>status_code = 404, json_result = Inl JSONDecodeError\<rparr> \<and>
   status_code \<lparr>status_code = 404, json_result = Inl JSONDecodeError\<rparr> = 404 \<and>
   fetch_openalex_by_doi (\<lambda>u. Inr \<lparr>status_code = 404, json_result = Inl JSONDecodeError\<rparr>) ''10.1/x''
     example_world =
     (Inl (SystemExit 2), example_world\<lparr>stderr := ''OpenAlex: work not found for DOI'' @ [CHR 0x0A]\<rparr>)"
proof -
  have h1: "(\<lambda>u. Inr \<lparr>status_code = 404, json_result = Inl JSONDecodeError\<rparr>)
     (''https://api.openalex.org/works/doi:'' @ py_quote ''10.1/x'') =
     (Inr \<lparr>status_code = 404, json_result = Inl JSONDecodeError\<rparr> :: response py)" by simp
  have h2: "status_code \<lparr>status_code = 404, json_result = Inl JSONDecodeError\<rparr> = 404" by simp
  show ?thesis using h1 h2 fetch_not_found [where w = example_world, OF h1 h2]
    by (simp add: example_world_def)
qed

text \<open>C18: any other status from 400 to 599 raises \<open>HTTPError\<close> from
  \<open>raise_for_status\<close>, uncaught, without touching the world.\<close>

theorem fetch_http_error:
  "http (''https://api.openalex.org/works/doi:'' @ py_quote doi) = Inr r \<Longrightarrow>
   400 \<le> status_code r \<Longrightarrow> status_code r < 600 \<Longrightarrow> status_code r \<noteq> 404 \<Longrightarrow>
   fetch_openalex_by_doi http doi w = (Inl HTTPError, w)"
  by (simp add: fetch_openalex_by_doi_apply raise_for_status_def)

theorem fetch_http_error_witness:
  "(\<lambda>u. Inr \<lparr>status_code = 500, json_result = Inr PNone\<rparr>)
     (''https://api.openalex.org/works/doi:'' @ py_quote ''10.1/x'') =
     Inr \<lparr>status_code = 500, json_result = Inr PNone\<rparr> \<and>
   400 \<le> status_code \<lparr>status_code = 500, json_result = Inr PNone\<rparr> \<and>
   status_code \<lparr>status_code = 500, json_result = Inr PNone\<rparr> < 600 \<and>
   status_code \<lparr>status_code = 500, json_result = Inr PNone\<rparr> \<noteq> 404 \<and>
   fetch_openalex_by_doi (\<lambda>u. Inr \<lparr>status_code = 500, json_result = Inr PNone\<rparr>) ''10.1/x''
     example_world = (Inl HTTPError, example_world)"
proof -
  have h1: "(\<lambda>u. Inr \<lparr>status_code = 500, json_result = Inr PNone\<rparr>)
     (''https://api.openalex.org/works/doi:'' @ py_quote ''10.1/x'') =
     (Inr \<lparr>status_code = 500, json_result = Inr PNone\<rparr> :: response py)" by simp
  have h2: "400 \<le> status_code \<lparr>status_code = 500, json_result = Inr PNone\<rparr>"
    and h3: "status_code \<lparr>status_code = 500, json_result = Inr PNone\<rparr> < 600"
    and h4: "status_code \<lparr>status_code = 500, json_result = Inr PNone\<rparr> \<noteq> 404" by simp_all
  show ?thesis using h1 h2 h3 h4 fetch_http_error [where w = example_world, OF h1 h2 h3 h4] by simp
qed

text \<open>C19: every character of the quoted string is an unreserved character, the
  colon, or a percent sign starting an escape; in particular it has no slash,
  question mark or hash, so the DOI stays one path segment of the request URL and
  adds no query or fragment.\<close>

theorem quote_alphabet:
  "list_all (\<lambda>c. quote_safe (of_char c) \<or> c = CHR ''%'') (py_quote s) \<and>
   CHR ''/'' \<notin> set (py_quote s) \<and> CHR ''?'' \<notin> set (py_quote s) \<and> CHR ''#'' \<notin> set (py_quote s)"
proof -
  have all: "list_all (\<lambda>c. quote_safe (of_char c) \<or> c = CHR ''%'') (py_quote s)"
    unfolding py_quote_def
    using utf8_encode_bytes quote_byte_chars by (fastforce simp: list_all_iff)
  moreover have "\<not> (quote_safe (of_char c) \<or> c = CHR ''%'')"
    if "c \<in> {CHR ''/'', CHR ''?'', CHR ''#''}" for c
    using that by (auto simp: quote_safe_def quote_always_safe_def)
  ultimately show ?thesis by (fastforce simp: list_all_iff)
qed

end
