(* ===== verification/Pipeline.thy ===== *)
theory Pipeline
  imports Slugify ExtractDoi Merge FileSystem Fetch
begin

text \<open>
  \<open>main\<close> (lines 127--183 of \<open>src/scripts/openalex_to_hugo.py\<close>) with the helpers it
  calls for their effects: \<open>ensure_dirs\<close> (64--65), \<open>hugo_new\<close> (67--70), the file
  read of \<open>read_front_matter\<close> (72--74) and the file write of \<open>write_front_matter\<close>
  (114--115). One run is a statement of the IO model of \<open>Prelude\<close>: it maps the world
  (files, directories, stdout, stderr) to its outcome and the new world. What the run does
  not control is a parameter, collected in \<open>env\<close>: the site root (\<open>SITE_ROOT\<close>,
  computed from the script's own location), the \<open>hugo new\<close> command (it creates the
  page from the archetype and gives its text, or fails with \<open>CalledProcessError\<close>),
  the HTTP client, the YAML loader and dumper, and the time stamp
  \<open>datetime.now().isoformat()\<close>.
\<close>

record env =
  site_root :: pystr
  hugo :: "pystr \<Rightarrow> pystr py"
  http :: "pystr \<Rightarrow> response py"
  yaml_load :: "pystr \<Rightarrow> pyval py"
  yaml_dump :: "pyval \<Rightarrow> pystr"
  now_iso :: pystr

subsection \<open>The file system steps of a run\<close>

definition content_dir :: "env \<Rightarrow> pystr" where
  "content_dir e = py_path_join (py_path_join (site_root e) ''content'') ''articles''"

text \<open>\<open>ensure_dirs\<close>: \<open>os.makedirs(CONTENT_DIR, exist_ok=True)\<close>.\<close>

definition ensure_dirs :: "env \<Rightarrow> unit io" where
  "ensure_dirs e = os_makedirs (content_dir e)"

text \<open>\<open>hugo new --kind articles rel\<close> run in the site root creates
  \<open>content/rel\<close> there with the archetype's text, and the directories above it;
  it fails, and \<open>check=True\<close> turns the failure into \<open>CalledProcessError\<close>, when
  the command fails or the target or one of its ancestors is in the way.\<close>

definition hugo_new :: "env \<Rightarrow> pystr \<Rightarrow> unit io" where
  "hugo_new e relpath =
     (\<lambda>w. case hugo e relpath of
            Inl err \<Rightarrow> (Inl err, w)
          | Inr text \<Rightarrow>
              (let p = py_path_join (py_path_join (site_root e) ''content'') relpath in
               if p \<in> dirs w \<or> is_file w p \<or> list_ex (is_file w) (ancestors p)
               then (Inl CalledProcessError, w)
               else (Inr (), w\<lparr>files := (files w)(p \<mapsto> text), dirs := dirs w \<union> set (ancestors p)\<rparr>)))"

definition read_front_matter_at :: "env \<Rightarrow> pystr \<Rightarrow> (pyval \<times> pystr) io" where
  "read_front_matter_at e p = bindIO (read_text p) (\<lambda>text. liftIO (read_front_matter (yaml_load e) text))"

definition write_front_matter_at :: "env \<Rightarrow> pystr \<Rightarrow> pyval \<Rightarrow> pystr \<Rightarrow> unit io" where
  "write_front_matter_at e p data body = write_text p (write_front_matter (yaml_dump e) data body)"

subsection \<open>main\<close>

definition usage_msg :: pystr where
  "usage_msg = ''Usage: openalex_to_hugo.py \"Custom Title\" https://doi.org/10.xxxx'' @ [CHR 0x0A]"

definition rel_md_path :: "pystr \<Rightarrow> pystr" where
  "rel_md_path page_title = py_path_join ''articles'' (slugify page_title @ ''.md'')"

definition abs_md_path :: "env \<Rightarrow> pystr \<Rightarrow> pystr" where
  "abs_md_path e page_title =
     py_path_join (py_path_join (site_root e) ''content'') (rel_md_path page_title)"

definition main :: "env \<Rightarrow> pystr list \<Rightarrow> unit io" where
  "main e argv =
     (if length argv \<noteq> 3 then bindIO (write_stderr usage_msg) (\<lambda>_. sys_exit 2)
      else
        let page_title = argv ! 1; doi_input = argv ! 2 in
        bindIO (liftIO (extract_doi doi_input)) (\<lambda>doi.
        bindIO (ensure_dirs e) (\<lambda>_.
        let rel = rel_md_path page_title; path = abs_md_path e page_title in
        bindIO (path_exists path) (\<lambda>ex.
        if ex then bindIO (write_stderr (''File exists: '' @ path @ [CHR 0x0A])) (\<lambda>_. sys_exit 3)
        else
        bindIO (hugo_new e rel) (\<lambda>_.
        bindIO (fetch_openalex_by_doi (http e) doi) (\<lambda>meta.
        bindIO (liftIO (map_fields meta page_title doi)) (\<lambda>af.
        bindIO (read_front_matter_at e path) (\<lambda>(fm, body).
        bindIO (liftIO (merge_front_matter fm page_title (now_iso e) af)) (\<lambda>fm.
        bindIO (write_front_matter_at e path fm body) (\<lambda>_.
        write_stdout (path @ [CHR 0x0A])))))))))))"

subsection \<open>A concrete environment\<close>

text \<open>Used by the witnesses: a site at \<open>/site\<close> whose archetype has a YAML front
  matter, a server answering every request with the response \<open>r\<close>, a loader that
  reads that front matter, and a fixed time stamp; and a TOML archetype with the
  string a YAML loader makes of it.\<close>

definition example_skeleton :: pystr where
  "example_skeleton = ''---'' @ [CHR 0x0A] @ ''draft: true'' @ [CHR 0x0A] @ ''---'' @ [CHR 0x0A]"

definition example_load :: "pystr \<Rightarrow> pyval py" where
  "example_load s = Inr (PDict [(PStr ''draft'', PBool True)])"

definition example_env :: "pystr \<Rightarrow> response \<Rightarrow> (pystr \<Rightarrow> pyval py) \<Rightarrow> env" where
  "example_env skel r load =
     \<lparr>site_root = ''/site'', hugo = (\<lambda>rel. Inr skel), http = (\<lambda>url. Inr r),
      yaml_load = load, yaml_dump = (\<lambda>v. ''k: v'' @ [CHR 0x0A]), now_iso = ''2024-01-01T00:00:00''\<rparr>"

definition example_ok :: response where
  "example_ok = \<lparr>status_code = 200, json_result = Inr (PDict [])\<rparr>"

definition example_404 :: response where
  "example_404 = \<lparr>status_code = 404, json_result = Inl JSONDecodeError\<rparr>"

definition example_site :: world where
  "example_site = example_world\<lparr>dirs := {''/site'', ''/site/content'', ''/site/content/articles''}\<rparr>"

definition toml_skeleton :: pystr where
  "toml_skeleton = ''+++'' @ [CHR 0x0A] @ ''title = 1'' @ [CHR 0x0A] @ ''+++'' @ [CHR 0x0A]"

definition toml_load :: "pystr \<Rightarrow> pyval py" where
  "toml_load s = Inr (PStr (butlast s))"

subsection \<open>Specification vocabulary\<close>

text \<open>\<open>writes_only p m\<close>: running \<open>m\<close> changes no file but \<open>p\<close>.\<close>

definition writes_only :: "pystr \<Rightarrow> 'a io \<Rightarrow> bool" where
  "writes_only p m \<longleftrightarrow> (\<forall>w q. q \<noteq> p \<longrightarrow> files (snd (m w)) q = files w q)"

named_theorems writes_only_intros "statements that change no file but the given one"

text \<open>\<open>keeps_file p m\<close>: running \<open>m\<close> never removes the file at \<open>p\<close>.\<close>

definition keeps_file :: "pystr \<Rightarrow> 'a io \<Rightarrow> bool" where
  "keeps_file p m \<longleftrightarrow> (\<forall>w :: world. files w p \<noteq> None \<longrightarrow> files (snd (m w)) p \<noteq> None)"

named_theorems keeps_file_intros "statements that never remove the given file"

subsection \<open>Paths of a page\<close>

lemma hugo_path: "py_path_join (py_path_join (site_root e) ''content'') (rel_md_path t) = abs_md_path e t"
  by (simp add: abs_md_path_def)

lemma slugify_path_safe: "slugify t \<noteq> [] \<and> CHR ''/'' \<notin> set (slugify t) \<and> CHR ''.'' \<notin> set (slugify t)"
proof -
  have "is_slug (slugify t)" by (rule slugify_result_slug)
  then have ne: "slugify t \<noteq> []" and all: "list_all slug_char (slugify t)"
    by (simp_all add: is_slug_def)
  have "\<not> slug_char CHR ''/''" "\<not> slug_char CHR ''.''"
    by (simp_all add: slug_char_def py_isword_def)
  with ne all show ?thesis by (metis list_all_iff)
qed

lemma rel_md_path_eq: "rel_md_path t = ''articles/'' @ slugify t @ ''.md''"
proof -
  obtain c s where "slugify t = c # s" "c \<noteq> CHR ''/''"
    using slugify_path_safe [of t] by (cases "slugify t") auto
  then show ?thesis by (simp add: rel_md_path_def py_path_join_def py_startswith_def)
qed

lemma abs_md_path_content_dir: "abs_md_path e t = content_dir e @ ''/'' @ slugify t @ ''.md''"
  by (simp add: abs_md_path_def content_dir_def rel_md_path_eq py_path_join_def py_startswith_def)

lemma content_dir_ne: "content_dir e \<noteq> []"
  by (simp add: content_dir_def py_path_join_def)

lemma page_ancestors:
  "set (ancestors (abs_md_path e t)) = set (ancestors (content_dir e)) \<union> {content_dir e}"
proof -
  have "CHR ''/'' \<notin> set (slugify t @ ''.md'')" using slugify_path_safe [of t] by auto
  then show ?thesis
    unfolding abs_md_path_content_dir by (rule ancestors_append_slash [OF content_dir_ne])
qed

lemma page_longer: "length (content_dir e) < length (abs_md_path e t)"
  by (simp add: abs_md_path_content_dir)

lemma page_not_dir_created:
  "abs_md_path e t \<notin> set (ancestors (content_dir e)) \<union> {content_dir e}"
  using page_longer [of e t] ancestor_shorter [of "abs_md_path e t" "content_dir e"] by auto

subsection \<open>Evaluation of the steps\<close>

lemma ensure_dirs_frame:
  "ensure_dirs e w = (r, w1) \<Longrightarrow>
   files w1 = files w \<and> stdout w1 = stdout w \<and> stderr w1 = stderr w \<and>
   dirs w \<subseteq> dirs w1 \<and> dirs w1 \<subseteq> dirs w \<union> set (ancestors (content_dir e)) \<union> {content_dir e}"
  by (auto simp: ensure_dirs_def os_makedirs_def split: if_splits)

lemma ensure_dirs_Inr:
  assumes "wf_world w" "ensure_dirs e w = (Inr (), w1)"
  shows "wf_world w1 \<and> content_dir e \<in> dirs w1 \<and> set (ancestors (content_dir e)) \<subseteq> dirs w1"
proof -
  have "wf_world (snd (ensure_dirs e w))"
    using keeps_wf_makedirs assms(1) unfolding keeps_wf_def ensure_dirs_def by blast
  then show ?thesis
    using makedirs_Inr [OF assms(1)] assms(2) by (simp add: ensure_dirs_def)
qed

text \<open>What a page path needs to be written: its ancestors are directories and not
  files, and it is not a directory itself.\<close>

lemma ancestors_ready:
  "wf_world w \<Longrightarrow> content_dir e \<in> dirs w \<Longrightarrow> set (ancestors (content_dir e)) \<subseteq> dirs w \<Longrightarrow>
   list_all (\<lambda>a. a \<in> dirs w \<and> \<not> is_file w a) (ancestors (abs_md_path e t))"
  by (auto simp: list_all_iff page_ancestors wf_world_def)

lemma write_text_ready:
  "list_all (\<lambda>a. a \<in> dirs w \<and> \<not> is_file w a) (ancestors p) \<Longrightarrow> p \<notin> dirs w \<Longrightarrow>
   write_text p t w = (Inr (), w\<lparr>files := (files w)(p \<mapsto> t)\<rparr>)"
  by (auto simp: write_text_def list_all_iff list_ex_iff)

lemma hugo_new_ready:
  assumes "list_all (\<lambda>a. a \<in> dirs w \<and> \<not> is_file w a) (ancestors (abs_md_path e t))"
    and "\<not> is_file w (abs_md_path e t)" "abs_md_path e t \<notin> dirs w"
    and "hugo e (rel_md_path t) = Inr text"
  shows "hugo_new e (rel_md_path t) w = (Inr (), w\<lparr>files := (files w)(abs_md_path e t \<mapsto> text)\<rparr>)"
proof -
  have "dirs w \<union> set (ancestors (abs_md_path e t)) = dirs w" using assms(1) by (auto simp: list_all_iff)
  then show ?thesis using assms by (simp add: hugo_new_def hugo_path Let_def list_all_iff list_ex_iff)
qed

lemma read_text_file: "files w p = Some t \<Longrightarrow> read_text p w = (Inr (universal_newlines t), w)"
  by (simp add: read_text_def)

lemma read_front_matter_at_apply [py_simps]:
  "files w p = Some t \<Longrightarrow>
   read_front_matter_at e p w = (read_front_matter (yaml_load e) (universal_newlines t), w)"
  by (simp add: read_front_matter_at_def bindIO_def read_text_file)

lemma path_exists_apply: "path_exists p w = (Inr (is_file w p \<or> p \<in> dirs w), w)"
  by (simp add: path_exists_def)

text \<open>The run up to the existence test, for three arguments (the script name,
  the title and the DOI input), once \<open>ensure_dirs\<close> has returned.\<close>

lemma main_prefix:
  assumes "extract_doi d = Inr doi" "ensure_dirs e w = (Inr (), w1)"
  shows "main e [p, t, d] w =
    (if is_file w1 (abs_md_path e t) \<or> abs_md_path e t \<in> dirs w1
     then (Inl (SystemExit 3), w1\<lparr>stderr := stderr w1 @ ''File exists: '' @ abs_md_path e t @ [CHR 0x0A]\<rparr>)
     else bindIO (hugo_new e (rel_md_path t)) (\<lambda>_.
        bindIO (fetch_openalex_by_doi (http e) doi) (\<lambda>meta.
        bindIO (liftIO (map_fields meta t doi)) (\<lambda>af.
        bindIO (read_front_matter_at e (abs_md_path e t)) (\<lambda>(fm, body).
        bindIO (liftIO (merge_front_matter fm t (now_iso e) af)) (\<lambda>fm.
        bindIO (write_front_matter_at e (abs_md_path e t) fm body) (\<lambda>_.
        write_stdout (abs_md_path e t @ [CHR 0x0A]))))))) w1)"
  using assms by (simp add: main_def Let_def bindIO_def path_exists_apply)

text \<open>The state in which the page can be created: the world is well formed,
  \<open>ensure_dirs\<close> has returned, and nothing is at the page's path.\<close>

lemma page_free_after_ensure:
  assumes "wf_world w" "ensure_dirs e w = (Inr (), w1)"
    and "files w (abs_md_path e t) = None" "abs_md_path e t \<notin> dirs w"
  shows "\<not> is_file w1 (abs_md_path e t) \<and> abs_md_path e t \<notin> dirs w1 \<and>
         list_all (\<lambda>a. a \<in> dirs w1 \<and> \<not> is_file w1 a) (ancestors (abs_md_path e t)) \<and>
         files w1 = files w \<and> stdout w1 = stdout w"
proof -
  note fr = ensure_dirs_frame [OF assms(2)]
  note ok = ensure_dirs_Inr [OF assms(1,2)]
  have "abs_md_path e t \<notin> dirs w1" using fr assms(4) page_not_dir_created [of e t] by blast
  moreover have "list_all (\<lambda>a. a \<in> dirs w1 \<and> \<not> is_file w1 a) (ancestors (abs_md_path e t))"
    using ancestors_ready ok by blast
  ultimately show ?thesis using fr assms(3) by (simp add: is_file_def)
qed

lemma main_after_hugo:
  assumes "wf_world w" "extract_doi d = Inr doi" "ensure_dirs e w = (Inr (), w1)"
    and "files w (abs_md_path e t) = None" "abs_md_path e t \<notin> dirs w"
    and "hugo e (rel_md_path t) = Inr skel"
  shows "main e [p, t, d] w =
    bindIO (fetch_openalex_by_doi (http e) doi) (\<lambda>meta.
        bindIO (liftIO (map_fields meta t doi)) (\<lambda>af.
        bindIO (read_front_matter_at e (abs_md_path e t)) (\<lambda>(fm, body).
        bindIO (liftIO (merge_front_matter fm t (now_iso e) af)) (\<lambda>fm.
        bindIO (write_front_matter_at e (abs_md_path e t) fm body) (\<lambda>_.
        write_stdout (abs_md_path e t @ [CHR 0x0A]))))))
      (w1\<lparr>files := (files w1)(abs_md_path e t \<mapsto> skel)\<rparr>)"
proof -
  note free = page_free_after_ensure [OF assms(1,3,4,5)]
  show ?thesis
    using free assms(6) by (simp add: main_prefix [OF assms(2,3)] hugo_new_ready bindIO_def)
qed

lemma main_fetched:
  assumes "wf_world w" "extract_doi d = Inr doi" "ensure_dirs e w = (Inr (), w1)"
    and "files w (abs_md_path e t) = None" "abs_md_path e t \<notin> dirs w"
    and "hugo e (rel_md_path t) = Inr skel"
    and "http e (''https://api.openalex.org/works/doi:'' @ py_quote doi) = Inr r"
  shows "main e [p, t, d] w =
    (let w2 = w1\<lparr>files := (files w)(abs_md_path e t \<mapsto> skel)\<rparr> in
     if status_code r = 404 then (Inl (SystemExit 2), w2\<lparr>stderr := stderr w @ not_found_msg\<rparr>)
     else case raise_for_status r of Inl err \<Rightarrow> (Inl err, w2) | Inr _ \<Rightarrow>
       (case json_result r of Inl err \<Rightarrow> (Inl err, w2) | Inr meta \<Rightarrow>
        (case map_fields meta t doi of Inl err \<Rightarrow> (Inl err, w2) | Inr af \<Rightarrow>
         (case read_front_matter (yaml_load e) (universal_newlines skel) of
            Inl err \<Rightarrow> (Inl err, w2)
          | Inr (fm, body) \<Rightarrow>
            (case merge_front_matter fm t (now_iso e) af of
               Inl err \<Rightarrow> (Inl err, w2)
             | Inr fm' \<Rightarrow>
                (Inr (), w2\<lparr>files := (files w)(abs_md_path e t \<mapsto> write_front_matter (yaml_dump e) fm' body),
                            stdout := stdout w @ abs_md_path e t @ [CHR 0x0A]\<rparr>))))))"
proof -
  note free = page_free_after_ensure [OF assms(1,3,4,5)]
  note fr = ensure_dirs_frame [OF assms(3)]
  have wr: "write_front_matter_at e (abs_md_path e t) fm body
              (w1\<lparr>files := (files w)(abs_md_path e t \<mapsto> skel)\<rparr>) =
            (Inr (), w1\<lparr>files := (files w)(abs_md_path e t \<mapsto> write_front_matter (yaml_dump e) fm body)\<rparr>)"
    for fm body
    using free unfolding write_front_matter_at_def
    by (subst write_text_ready) (auto simp: list_all_iff is_file_def)
  show ?thesis
    using fr free
    by (simp add: main_after_hugo [OF assms(1-6)] fetch_openalex_by_doi_apply [where http = "http e" and doi = doi and r = r, OF assms(7)] bindIO_def
        Let_def wr read_front_matter_at_apply split: sum.splits prod.splits)
qed

subsection \<open>Which files a statement writes\<close>

lemma writes_only_bindIO [writes_only_intros]:
  assumes m: "writes_only p m" and f: "\<And>a. writes_only p (f a)"
  shows "writes_only p (bindIO m f)"
  unfolding writes_only_def
proof (intro allI impI)
  fix w q assume q: "q \<noteq> p"
  obtain r w' where mw: "m w = (r, w')" by fastforce
  have "files w' q = files w q" using m q mw unfolding writes_only_def by (metis snd_conv)
  moreover have "files (snd (f a w')) q = files w' q" for a
    using f q unfolding writes_only_def by blast
  ultimately show "files (snd (bindIO m f w)) q = files w q"
    by (cases r) (simp_all add: bindIO_def mw)
qed

lemma writes_only_case_prod [writes_only_intros]:
  "(\<And>x y. writes_only p (f x y)) \<Longrightarrow> writes_only p (case_prod f a)"
  by (cases a) simp

lemma writes_only_if [writes_only_intros]:
  "writes_only p m1 \<Longrightarrow> writes_only p m2 \<Longrightarrow> writes_only p (if b then m1 else m2)"
  by simp

lemma writes_only_basic [writes_only_intros]:
  "writes_only p (returnIO x)" "writes_only p (liftIO r)" "writes_only p (write_stderr s)"
  "writes_only p (write_stdout s)" "writes_only p (sys_exit n)" "writes_only p (ensure_dirs e)"
  "writes_only p (path_exists q)" "writes_only p (read_front_matter_at e q)"
  "writes_only p (write_front_matter_at e p d b)"
  "writes_only p (fetch_openalex_by_doi h doi)"
  by (auto simp: writes_only_def ensure_dirs_def os_makedirs_def path_exists_def read_front_matter_at_def
      read_text_def write_front_matter_at_def write_text_def fetch_openalex_by_doi_def bindIO_def Let_def
      split: option.splits prod.splits sum.splits)

lemma writes_only_hugo_new [writes_only_intros]:
  "writes_only (abs_md_path e t) (hugo_new e (rel_md_path t))"
  by (auto simp: writes_only_def hugo_new_def hugo_path Let_def split: sum.splits)

lemma main_writes_only: "writes_only (abs_md_path e (argv ! 1)) (main e argv)"
  unfolding main_def Let_def by (rule writes_only_intros)+

subsection \<open>No statement after \<open>hugo_new\<close> removes a file\<close>

lemma keeps_file_bindIO [keeps_file_intros]:
  assumes m: "keeps_file p m" and f: "\<And>a. keeps_file p (f a)"
  shows "keeps_file p (bindIO m f)"
  unfolding keeps_file_def
proof (intro allI impI)
  fix w :: world assume h: "files w p \<noteq> None"
  obtain r w' where mw: "m w = (r, w')" by fastforce
  have "files w' p \<noteq> None" using m h mw unfolding keeps_file_def by (metis snd_conv)
  moreover have "files w' p \<noteq> None \<Longrightarrow> files (snd (f a w')) p \<noteq> None" for a
    using f unfolding keeps_file_def by blast
  ultimately show "files (snd (bindIO m f w)) p \<noteq> None"
    by (cases r) (simp_all add: bindIO_def mw)
qed

lemma keeps_file_case_prod [keeps_file_intros]:
  "(\<And>x y. keeps_file p (f x y)) \<Longrightarrow> keeps_file p (case_prod f a)"
  by (cases a) simp

lemma keeps_file_basic [keeps_file_intros]:
  "keeps_file p (returnIO x)" "keeps_file p (liftIO r)" "keeps_file p (write_stderr s)"
  "keeps_file p (write_stdout s)" "keeps_file p (sys_exit n)" "keeps_file p (read_front_matter_at e q)"
  "keeps_file p (write_front_matter_at e q d b)" "keeps_file p (fetch_openalex_by_doi h doi)"
  by (auto simp: keeps_file_def read_front_matter_at_def read_text_def write_front_matter_at_def
      write_text_def fetch_openalex_by_doi_def bindIO_def Let_def
      split: option.splits prod.splits sum.splits)

lemma keeps_file_apply: "keeps_file p m \<Longrightarrow> files (w :: world) p \<noteq> None \<Longrightarrow> files (snd (m w)) p \<noteq> None"
  unfolding keeps_file_def by blast

text \<open>Once \<open>hugo_new\<close> has created the page, the run ends with a file at the
  page's path whatever the API, the YAML library and the merge do: the skeleton is
  never cleaned up.\<close>

lemma main_page_created:
  assumes "wf_world w" "extract_doi d = Inr doi" "ensure_dirs e w = (Inr (), w1)"
    and "files w (abs_md_path e t) = None" "abs_md_path e t \<notin> dirs w"
    and "hugo e (rel_md_path t) = Inr skel"
  shows "files (snd (main e [p, t, d] w)) (abs_md_path e t) \<noteq> None"
  unfolding main_after_hugo [OF assms]
  by (rule keeps_file_apply, (rule keeps_file_intros)+, simp)

subsection \<open>Runs keep the world well formed\<close>

lemma keeps_wf_hugo_new [keeps_wf_intros]: "keeps_wf (hugo_new e r)"
  unfolding keeps_wf_def
proof (intro allI impI)
  fix w assume wf: "wf_world w"
  let ?p = "py_path_join (py_path_join (site_root e) ''content'') r"
  show "wf_world (snd (hugo_new e r w))"
  proof (cases "hugo e r")
    case (Inl err)
    with wf show ?thesis by (simp add: hugo_new_def)
  next
    case (Inr skel)
    show ?thesis
    proof (cases "?p \<in> dirs w \<or> is_file w ?p \<or> list_ex (is_file w) (ancestors ?p)")
      case True
      with wf Inr show ?thesis by (auto simp: hugo_new_def Let_def)
    next
      case False
      let ?D = "dirs w \<union> set (ancestors ?p)"
      have new: "snd (hugo_new e r w) = w\<lparr>files := (files w)(?p \<mapsto> skel), dirs := ?D\<rparr>"
        using False Inr by (simp add: hugo_new_def Let_def)
      have p_not_anc: "?p \<notin> set (ancestors ?p)" using ancestor_shorter by blast
      have dirs: "d \<in> ?D \<Longrightarrow> set (ancestors d) \<subseteq> ?D" for d
        using wf ancestors_trans [of d ?p] by (auto simp: wf_world_def)
      have old: "is_file w q \<Longrightarrow> q \<notin> ?D \<and> set (ancestors q) \<subseteq> ?D" for q
        using False wf by (auto simp: wf_world_def list_ex_iff)
      show ?thesis unfolding new using False p_not_anc dirs old
        by (auto simp: wf_world_def is_file_def)
    qed
  qed
qed

lemma keeps_wf_steps [keeps_wf_intros]:
  "keeps_wf (ensure_dirs e)" "keeps_wf (read_front_matter_at e p)"
  "keeps_wf (write_front_matter_at e p d b)" "keeps_wf (fetch_openalex_by_doi h doi)"
  unfolding ensure_dirs_def read_front_matter_at_def write_front_matter_at_def
    fetch_openalex_by_doi_def Let_def
  by (rule keeps_wf_intros)+

lemma main_keeps_wf: "keeps_wf (main e argv)"
  unfolding main_def Let_def by (rule keeps_wf_intros)+

subsection \<open>Computations on the example\<close>

lemma ex_doi: "extract_doi ''x'' = Inr ''x''"
  by (simp add: extract_doi_def Let_def py_str_eval)

lemma ex_slug: "slugify ''a'' = ''a''"
  by (simp add: slugify_def py_str_eval slug_keep_def slug_sep_def py_isword_def py_strip_chars_def)

lemma ex_map_fields:
  "map_fields (PDict []) ''a'' ''x'' =
   Inr \<lparr>af_title = PStr ''a'', af_year = PNone, af_venue = PStr ''?'', af_authors = [], af_topics = [],
        af_oa = PStr '''', af_doi = PStr ''x''\<rparr>"
  by (simp add: map_fields_def pick_venue_def pick_authors_def pick_topics_def sort_by_score_desc_def
      py_or_def)

lemma ex_read:
  "read_front_matter example_load (universal_newlines example_skeleton) =
   Inr (PDict [(PStr ''draft'', PBool True)], [])"
proof -
  have "universal_newlines example_skeleton = ''---'' @ [CHR 0x0A] @ (''draft: true'' @ [CHR 0x0A]) @ ''---'' @ [CHR 0x0A] @ []"
    by (simp add: example_skeleton_def)
  then show ?thesis
    by (simp only:) (subst read_front_matter_delimited, simp_all add: toy_yaml example_load_def py_or_def)
qed

lemma ex_path: "abs_md_path (example_env skel r load) ''a'' = ''/site/content/articles/a.md''"
  by (simp add: abs_md_path_content_dir content_dir_def example_env_def py_path_join_def
      py_startswith_def ex_slug)

lemma ex_rel: "rel_md_path ''a'' = ''articles/a.md''"
  by (simp add: rel_md_path_eq ex_slug)

lemma ex_content_dir: "content_dir (example_env skel r load) = ''/site/content/articles''"
  by (simp add: content_dir_def example_env_def py_path_join_def py_startswith_def)

lemma ex_read_toml:
  "read_front_matter toml_load (universal_newlines toml_skeleton) = Inr (PStr ''title = 1'', [])"
proof -
  have "universal_newlines toml_skeleton = ''+++'' @ [CHR 0x0A] @ (''title = 1'' @ [CHR 0x0A]) @ ''+++'' @ [CHR 0x0A] @ []"
    by (simp add: toml_skeleton_def)
  then show ?thesis
    by (simp only:) (subst read_front_matter_delimited, simp_all add: toy_yaml toml_load_def py_or_def)
qed

lemma ex_ancestors:
  "ancestors ''/site'' = []" "ancestors ''/site/content'' = [''/site'']"
  "ancestors ''/site/content/articles'' = [''/site'', ''/site/content'']"
  by (simp_all add: ancestors_def upt_rec)

lemma ex_site_wf: "wf_world example_site"
  by (simp add: wf_world_def example_site_def example_world_def ex_ancestors is_file_def)

lemma ex_ensure: "ensure_dirs (example_env skel r load) example_site = (Inr (), example_site)"
  by (simp add: ensure_dirs_def os_makedirs_def ex_content_dir example_site_def)

lemma ex_page_free:
  "files example_site (abs_md_path (example_env skel r load) ''a'') = None \<and>
   abs_md_path (example_env skel r load) ''a'' \<notin> dirs example_site"
  by (simp add: ex_path example_site_def example_world_def)

lemma ex_fetch_inputs:
  "hugo (example_env skel r load) (rel_md_path ''a'') = Inr skel"
  "http (example_env skel r load) (''https://api.openalex.org/works/doi:'' @ py_quote ''x'') = Inr r"
  "yaml_load (example_env skel r load) = load"
  "now_iso (example_env skel r load) = ''2024-01-01T00:00:00''"
  by (simp_all add: example_env_def)

lemma ex_ok_status: "\<not> (400 \<le> status_code example_ok \<and> status_code example_ok < 600)"
  "json_result example_ok = Inr (PDict [])" "status_code example_404 = 404"
  by (simp_all add: example_ok_def example_404_def)

lemma ex_fields: "map_fields (PDict []) ''a'' ''x'' = Inr example_fields"
  by (simp add: ex_map_fields example_fields_def)

subsection \<open>Properties of a run\<close>

text \<open>C20: with any number of arguments but two (\<open>len(sys.argv) != 3\<close>), the run
  prints the usage line to standard error and exits with status 2, touching no file.\<close>

theorem main_usage:
  "length argv \<noteq> 3 \<Longrightarrow> main e argv w = (Inl (SystemExit 2), w\<lparr>stderr := stderr w @ usage_msg\<rparr>)"
  by (simp add: main_def)

theorem main_usage_witness:
  "length [''openalex_to_hugo.py''] \<noteq> 3 \<and>
   main (example_env example_skeleton example_ok example_load) [''openalex_to_hugo.py''] example_site =
     (Inl (SystemExit 2), example_site\<lparr>stderr := usage_msg\<rparr>)"
proof -
  have h: "length [''openalex_to_hugo.py''] \<noteq> 3" by simp
  show ?thesis
    using h main_usage [OF h, where e = "example_env example_skeleton example_ok example_load"
        and w = example_site]
    by (simp add: example_site_def example_world_def)
qed

text \<open>C21: when a file already exists at the page's path the run reports it on
  standard error and exits with status 3 before calling hugo or the API: the
  existing page is not overwritten and no file changes.\<close>

theorem main_exists:
  assumes "extract_doi d = Inr doi" "ensure_dirs e w = (Inr (), w1)"
    and "files w (abs_md_path e t) \<noteq> None"
  shows "fst (main e [p, t, d] w) = Inl (SystemExit 3) \<and> files (snd (main e [p, t, d] w)) = files w \<and>
         stderr (snd (main e [p, t, d] w)) = stderr w @ ''File exists: '' @ abs_md_path e t @ [CHR 0x0A]"
  using assms ensure_dirs_frame [OF assms(2)] by (simp add: main_prefix is_file_def)

theorem main_exists_witness:
  "extract_doi ''x'' = Inr ''x'' \<and>
   ensure_dirs (example_env example_skeleton example_ok example_load)
     (example_site\<lparr>files := [''/site/content/articles/a.md'' \<mapsto> ''old'']\<rparr>) =
     (Inr (), example_site\<lparr>files := [''/site/content/articles/a.md'' \<mapsto> ''old'']\<rparr>) \<and>
   files (example_site\<lparr>files := [''/site/content/articles/a.md'' \<mapsto> ''old'']\<rparr>)
     (abs_md_path (example_env example_skeleton example_ok example_load) ''a'') \<noteq> None \<and>
   fst (main (example_env example_skeleton example_ok example_load) [''p'', ''a'', ''x'']
     (example_site\<lparr>files := [''/site/content/articles/a.md'' \<mapsto> ''old'']\<rparr>)) = Inl (SystemExit 3)"
proof -
  let ?e = "example_env example_skeleton example_ok example_load"
  let ?w = "example_site\<lparr>files := [''/site/content/articles/a.md'' \<mapsto> ''old'']\<rparr>"
  have h1: "extract_doi ''x'' = Inr ''x''" by (rule ex_doi)
  have h2: "ensure_dirs ?e ?w = (Inr (), ?w)"
    by (simp add: ensure_dirs_def os_makedirs_def ex_content_dir example_site_def)
  have h3: "files ?w (abs_md_path ?e ''a'') \<noteq> None" by (simp add: ex_path)
  show ?thesis using h1 h2 h3 main_exists [OF h1 h2 h3, where p = "''p''"] by blast
qed

text \<open>C22: the run that succeeds. In a well-formed world with nothing at the page's
  path, once \<open>ensure_dirs\<close> has made the content directory, \<open>hugo new\<close> has created
  the page, the API has answered, the fields are mapped, the page's front matter is
  read and merged, the page holds the merged front matter and the body that was
  read, the absolute path is printed, and the exit status is 0. No other file
  changes.\<close>

theorem main_success:
  assumes "wf_world w" "extract_doi d = Inr doi" "ensure_dirs e w = (Inr (), w1)"
    and "files w (abs_md_path e t) = None" "abs_md_path e t \<notin> dirs w"
    and "hugo e (rel_md_path t) = Inr skel"
    and "http e (''https://api.openalex.org/works/doi:'' @ py_quote doi) = Inr r"
    and "\<not> (400 \<le> status_code r \<and> status_code r < 600)" "json_result r = Inr meta"
    and "map_fields meta t doi = Inr af"
    and "read_front_matter (yaml_load e) (universal_newlines skel) = Inr (fm, body)"
    and "merge_front_matter fm t (now_iso e) af = Inr fm'"
  shows "main e [p, t, d] w =
    (Inr (), w1\<lparr>files := (files w)(abs_md_path e t \<mapsto> write_front_matter (yaml_dump e) fm' body),
                stdout := stdout w @ abs_md_path e t @ [CHR 0x0A]\<rparr>)"
proof -
  have "status_code r \<noteq> 404" using assms(8) by auto
  with assms show ?thesis by (simp add: main_fetched [OF assms(1-7)] raise_for_status_def Let_def)
qed

theorem main_success_witness:
  "main (example_env example_skeleton example_ok example_load) [''p'', ''a'', ''x''] example_site =
    (Inr (), example_site\<lparr>files := [''/site/content/articles/a.md'' \<mapsto>
        write_front_matter (\<lambda>v. ''k: v'' @ [CHR 0x0A])
          (PDict [(PStr ''draft'', PBool True), (PStr ''title'', PStr ''a''), (PStr ''type'', PStr ''articles''),
            (PStr ''date'', PStr ''2024-01-01T00:00:00''), (PStr ''article_doi'', PStr ''x''),
            (PStr ''article_oaurl'', PStr ''''), (PStr ''article_topics'', PList []),
            (PStr ''article_article_authors'', PList []), (PStr ''article_title'', PStr ''a''),
            (PStr ''article_venue'', PStr ''?'')]) []],
      stdout := ''/site/content/articles/a.md'' @ [CHR 0x0A]\<rparr>)"
proof -
  let ?e = "example_env example_skeleton example_ok example_load"
  have h9: "read_front_matter (yaml_load ?e) (universal_newlines example_skeleton) =
      Inr (PDict [(PStr ''draft'', PBool True)], [])"
    by (simp add: ex_fetch_inputs ex_read)
  have h10: "merge_front_matter (PDict [(PStr ''draft'', PBool True)]) ''a'' (now_iso ?e) example_fields =
   Inr (PDict [(PStr ''draft'', PBool True), (PStr ''title'', PStr ''a''), (PStr ''type'', PStr ''articles''),
     (PStr ''date'', PStr ''2024-01-01T00:00:00''), (PStr ''article_doi'', PStr ''x''),
     (PStr ''article_oaurl'', PStr ''''), (PStr ''article_topics'', PList []),
     (PStr ''article_article_authors'', PList []), (PStr ''article_title'', PStr ''a''),
     (PStr ''article_venue'', PStr ''?'')])"
    by (simp add: ex_fetch_inputs ex_merge)
  have r: "main ?e [''p'', ''a'', ''x''] example_site =
    (Inr (), example_site\<lparr>files := (files example_site)(abs_md_path ?e ''a'' \<mapsto>
       write_front_matter (yaml_dump ?e)
          (PDict [(PStr ''draft'', PBool True), (PStr ''title'', PStr ''a''), (PStr ''type'', PStr ''articles''),
            (PStr ''date'', PStr ''2024-01-01T00:00:00''), (PStr ''article_doi'', PStr ''x''),
            (PStr ''article_oaurl'', PStr ''''), (PStr ''article_topics'', PList []),
            (PStr ''article_article_authors'', PList []), (PStr ''article_title'', PStr ''a''),
            (PStr ''article_venue'', PStr ''?'')]) []),
      stdout := stdout example_site @ abs_md_path ?e ''a'' @ [CHR 0x0A]\<rparr>)"
    by (rule main_success [OF ex_site_wf ex_doi ex_ensure ex_page_free [THEN conjunct1]
          ex_page_free [THEN conjunct2] ex_fetch_inputs(1) ex_fetch_inputs(2) ex_ok_status(1)
          ex_ok_status(2) ex_fields h9 h10])
  show ?thesis
    using r unfolding ex_path by (simp add: example_site_def example_world_def example_env_def)
qed

text \<open>C23: a DOI the API does not know ends the run with status 2 but leaves the
  skeleton page hugo created on disk; running the script again with the same
  arguments then stops with status 3 because the page exists. No partial state is
  rolled back, as spec section 7 says of the later steps.\<close>

theorem main_not_found_rerun:
  assumes "wf_world w" "extract_doi d = Inr doi" "ensure_dirs e w = (Inr (), w1)"
    and "files w (abs_md_path e t) = None" "abs_md_path e t \<notin> dirs w"
    and "hugo e (rel_md_path t) = Inr skel"
    and "http e (''https://api.openalex.org/works/doi:'' @ py_quote doi) = Inr r"
    and "status_code r = 404"
  shows "fst (main e [p, t, d] w) = Inl (SystemExit 2) \<and>
         files (snd (main e [p, t, d] w)) (abs_md_path e t) = Some skel \<and>
         fst (main e [p, t, d] (snd (main e [p, t, d] w))) = Inl (SystemExit 3)"
proof -
  let ?w2 = "w1\<lparr>files := (files w)(abs_md_path e t \<mapsto> skel), stderr := stderr w @ not_found_msg\<rparr>"
  have run1: "main e [p, t, d] w = (Inl (SystemExit 2), ?w2)"
    using assms by (simp add: main_fetched [OF assms(1-7)] Let_def)
  have "content_dir e \<in> dirs w1" using ensure_dirs_Inr [OF assms(1,3)] by blast
  then have again: "ensure_dirs e ?w2 = (Inr (), ?w2)" by (simp add: ensure_dirs_def os_makedirs_def)
  show ?thesis
    using run1 main_prefix [OF assms(2) again, where p = p and t = t] by (simp add: is_file_def)
qed

theorem main_not_found_rerun_witness:
  "fst (main (example_env example_skeleton example_404 example_load) [''p'', ''a'', ''x''] example_site) =
     Inl (SystemExit 2) \<and>
   files (snd (main (example_env example_skeleton example_404 example_load) [''p'', ''a'', ''x''] example_site))
     ''/site/content/articles/a.md'' = Some example_skeleton \<and>
   fst (main (example_env example_skeleton example_404 example_load) [''p'', ''a'', ''x'']
     (snd (main (example_env example_skeleton example_404 example_load) [''p'', ''a'', ''x''] example_site))) =
     Inl (SystemExit 3)"
  using main_not_found_rerun [OF ex_site_wf ex_doi ex_ensure ex_page_free [THEN conjunct1]
      ex_page_free [THEN conjunct2] ex_fetch_inputs(1) ex_fetch_inputs(2) ex_ok_status(3), where p = "''p''"]
  unfolding ex_path .

text \<open>C24: a run changes no file but the page it is about,
  \<open>SITE_ROOT/content/articles/<slug>.md\<close>, whatever the arguments, the
  environment and the outcome.\<close>

theorem main_frame:
  "q \<noteq> abs_md_path e (argv ! 1) \<Longrightarrow> files (snd (main e argv w)) q = files w q"
  using main_writes_only [of e argv] unfolding writes_only_def by blast

theorem main_frame_witness:
  "''/site/content/index.md'' \<noteq>
     abs_md_path (example_env example_skeleton example_ok example_load) ([''p'', ''a'', ''x''] ! 1) \<and>
   files (snd (main (example_env example_skeleton example_ok example_load) [''p'', ''a'', ''x'']
     (example_site\<lparr>files := [''/site/content/index.md'' \<mapsto> ''home'']\<rparr>))) ''/site/content/index.md'' =
   Some ''home''"
proof -
  have h: "''/site/content/index.md'' \<noteq>
     abs_md_path (example_env example_skeleton example_ok example_load) ([''p'', ''a'', ''x''] ! 1)"
    by (simp add: ex_path)
  show ?thesis
    using h main_frame [OF h, where w = "example_site\<lparr>files := [''/site/content/index.md'' \<mapsto> ''home'']\<rparr>"]
    by simp
qed

text \<open>C25: the page of a title is a direct child of the content directory
  \<open>SITE_ROOT/content/articles\<close>, named by the slug of the title and \<open>.md\<close>; the
  slug is never empty and holds neither a slash nor a dot, so no title can name a
  file elsewhere, a hidden file, or a path with \<open>..\<close>.\<close>

theorem page_path_in_content_dir:
  "abs_md_path e t = content_dir e @ ''/'' @ slugify t @ ''.md'' \<and>
   slugify t \<noteq> [] \<and> CHR ''/'' \<notin> set (slugify t) \<and> CHR ''.'' \<notin> set (slugify t)"
  using abs_md_path_content_dir slugify_path_safe by blast

text \<open>C28: a page whose front matter the loader does not turn into a dict ends the
  run with an uncaught \<open>TypeError\<close> (exit status 1) at \<open>fm["title"] = ...\<close>, after
  hugo created the page and the API was queried; the skeleton stays on disk. This
  is what happens to a TOML front matter (\<open>+++\<close>): \<open>read_front_matter\<close> accepts the
  delimiter but hands the TOML text to \<open>yaml.safe_load\<close>, which reads
  \<open>title = 1\<close> as the string \<open>"title = 1"\<close>.\<close>

theorem main_non_dict_front_matter:
  assumes "wf_world w" "extract_doi d = Inr doi" "ensure_dirs e w = (Inr (), w1)"
    and "files w (abs_md_path e t) = None" "abs_md_path e t \<notin> dirs w"
    and "hugo e (rel_md_path t) = Inr skel"
    and "http e (''https://api.openalex.org/works/doi:'' @ py_quote doi) = Inr r"
    and "\<not> (400 \<le> status_code r \<and> status_code r < 600)" "json_result r = Inr meta"
    and "map_fields meta t doi = Inr af"
    and "read_front_matter (yaml_load e) (universal_newlines skel) = Inr (fm, body)"
    and "\<not> is_dict fm"
  shows "main e [p, t, d] w = (Inl TypeError, w1\<lparr>files := (files w)(abs_md_path e t \<mapsto> skel)\<rparr>)"
proof -
  have "status_code r \<noteq> 404" using assms(8) by auto
  with assms show ?thesis
    by (simp add: main_fetched [OF assms(1-7)] raise_for_status_def Let_def merge_not_dict)
qed

theorem main_non_dict_front_matter_witness:
  "main (example_env toml_skeleton example_ok toml_load) [''p'', ''a'', ''x''] example_site =
   (Inl TypeError, example_site\<lparr>files := [''/site/content/articles/a.md'' \<mapsto> toml_skeleton]\<rparr>)"
proof -
  let ?e = "example_env toml_skeleton example_ok toml_load"
  have h11: "read_front_matter (yaml_load ?e) (universal_newlines toml_skeleton) =
      Inr (PStr ''title = 1'', [])"
    by (simp add: ex_fetch_inputs ex_read_toml)
  have h12: "\<not> is_dict (PStr ''title = 1'')" by simp
  have r: "main ?e [''p'', ''a'', ''x''] example_site =
      (Inl TypeError, example_site\<lparr>files := (files example_site)(abs_md_path ?e ''a'' \<mapsto> toml_skeleton)\<rparr>)"
    by (rule main_non_dict_front_matter [OF ex_site_wf ex_doi ex_ensure ex_page_free [THEN conjunct1]
          ex_page_free [THEN conjunct2] ex_fetch_inputs(1) ex_fetch_inputs(2) ex_ok_status(1)
          ex_ok_status(2) ex_fields h11 h12])
  show ?thesis
    using r unfolding ex_path by (simp add: example_site_def example_world_def)
qed


text \<open>C30: \<open>ensure_dirs\<close> in a well-formed world where neither the content
  directory nor one of its ancestors is a file returns normally, and afterwards the
  content directory and all its ancestors are directories; no file changes.\<close>

theorem ensure_dirs_creates:
  assumes "wf_world w" "\<not> is_file w (content_dir e)" "\<not> list_ex (is_file w) (ancestors (content_dir e))"
  shows "\<exists>w1. ensure_dirs e w = (Inr (), w1) \<and> content_dir e \<in> dirs w1 \<and>
              set (ancestors (content_dir e)) \<subseteq> dirs w1 \<and> files w1 = files w"
proof -
  obtain w1 where w1: "ensure_dirs e w = (Inr (), w1)"
    using assms(2,3) by (cases "content_dir e \<in> dirs w") (auto simp: ensure_dirs_def os_makedirs_def)
  then show ?thesis using ensure_dirs_Inr [OF assms(1) w1] ensure_dirs_frame [OF w1] by blast
qed

theorem ensure_dirs_creates_witness:
  "wf_world example_world \<and>
   \<not> is_file example_world (content_dir (example_env example_skeleton example_ok example_load)) \<and>
   \<not> list_ex (is_file example_world) (ancestors (content_dir (example_env example_skeleton example_ok example_load))) \<and>
   (\<exists>w1. ensure_dirs (example_env example_skeleton example_ok example_load) example_world = (Inr (), w1) \<and>
      content_dir (example_env example_skeleton example_ok example_load) \<in> dirs w1 \<and>
      set (ancestors (content_dir (example_env example_skeleton example_ok example_load))) \<subseteq> dirs w1 \<and>
      files w1 = files example_world)"
proof -
  let ?e = "example_env example_skeleton example_ok example_load"
  have h1: "wf_world example_world" by (simp add: wf_world_def example_world_def is_file_def)
  have h2: "\<not> is_file example_world (content_dir ?e)" by (simp add: is_file_def example_world_def)
  have h3: "\<not> list_ex (is_file example_world) (ancestors (content_dir ?e))"
    by (simp add: is_file_def example_world_def list_ex_iff)
  show ?thesis using h1 h2 h3 ensure_dirs_creates [OF h1 h2 h3] by blast
qed

text \<open>C31: when a regular file sits where the content directory should be, the run
  ends with an uncaught \<open>FileExistsError\<close> (exit status 1) from
  \<open>ensure_dirs\<close>, before anything else happens: the world is unchanged.\<close>

theorem main_content_dir_blocked:
  assumes "wf_world w" "extract_doi d = Inr doi" "is_file w (content_dir e)"
  shows "main e [p, t, d] w = (Inl FileExistsError, w)"
proof -
  have "content_dir e \<notin> dirs w" using assms(1,3) by (auto simp: wf_world_def)
  then have "ensure_dirs e w = (Inl FileExistsError, w)"
    using assms(3) by (simp add: ensure_dirs_def os_makedirs_def)
  then show ?thesis using assms(2) by (simp add: main_def Let_def bindIO_def)
qed

theorem main_content_dir_blocked_witness:
  "wf_world (example_world\<lparr>files := [''/site/content/articles'' \<mapsto> ''x''], dirs := {''/site'', ''/site/content''}\<rparr>) \<and>
   extract_doi ''x'' = Inr ''x'' \<and>
   is_file (example_world\<lparr>files := [''/site/content/articles'' \<mapsto> ''x''], dirs := {''/site'', ''/site/content''}\<rparr>)
     (content_dir (example_env example_skeleton example_ok example_load)) \<and>
   main (example_env example_skeleton example_ok example_load) [''p'', ''a'', ''x'']
     (example_world\<lparr>files := [''/site/content/articles'' \<mapsto> ''x''], dirs := {''/site'', ''/site/content''}\<rparr>) =
   (Inl FileExistsError, example_world\<lparr>files := [''/site/content/articles'' \<mapsto> ''x''], dirs := {''/site'', ''/site/content''}\<rparr>)"
proof -
  let ?w = "example_world\<lparr>files := [''/site/content/articles'' \<mapsto> ''x''], dirs := {''/site'', ''/site/content''}\<rparr>"
  have h1: "wf_world ?w"
    by (simp add: wf_world_def example_world_def is_file_def ex_ancestors)
  have h3: "is_file ?w (content_dir (example_env example_skeleton example_ok example_load))"
    by (simp add: is_file_def ex_content_dir)
  show ?thesis using h1 ex_doi h3 main_content_dir_blocked [OF h1 ex_doi h3] by blast
qed


text \<open>C29: the body \<open>read_front_matter\<close> returns for a page on disk never holds a
  carriage return, because the file is opened in text mode (line 73), which turns
  CR and CRLF into LF. So the test \<open>body.startswith("\\r\\n")\<close> of line 122 never
  holds for a body the script has read, and a page with CRLF line ends is written
  back with LF line ends.\<close>

theorem read_front_matter_at_no_CR:
  assumes "fst (read_front_matter_at e p w) = Inr (fm, body)"
  shows "CHR 0x0D \<notin> set body"
proof (cases "files w p")
  case None
  then have "\<exists>err. fst (read_front_matter_at e p w) = Inl err"
    by (simp add: read_front_matter_at_def read_text_def bindIO_def)
  with assms show ?thesis by auto
next
  case (Some t)
  then have "read_front_matter (yaml_load e) (universal_newlines t) = Inr (fm, body)"
    using assms by (simp add: read_front_matter_at_apply)
  then have "set body \<subseteq> set (universal_newlines t)" by (rule read_front_matter_body_subset)
  then show ?thesis using universal_newlines_no_CR [of t] by blast
qed

theorem read_front_matter_at_no_CR_witness:
  "fst (read_front_matter_at (example_env example_skeleton example_ok toy_load) ''/p''
     (example_world\<lparr>files := [''/p'' \<mapsto>
        ''---'' @ [CHR 0x0D, CHR 0x0A] @ ''t: x'' @ [CHR 0x0D, CHR 0x0A] @ ''---'' @ [CHR 0x0D, CHR 0x0A] @ ''B'' @ [CHR 0x0D, CHR 0x0A]]\<rparr>)) =
     Inr (PDict [(PStr ''title'', PStr ''x'')], ''B'' @ [CHR 0x0A]) \<and>
   CHR 0x0D \<notin> set (''B'' @ [CHR 0x0A])"
proof -
  let ?t = "''---'' @ [CHR 0x0D, CHR 0x0A] @ ''t: x'' @ [CHR 0x0D, CHR 0x0A] @ ''---'' @ [CHR 0x0D, CHR 0x0A] @ ''B'' @ [CHR 0x0D, CHR 0x0A]"
  let ?w = "example_world\<lparr>files := [''/p'' \<mapsto> ?t]\<rparr>"
  let ?e = "example_env example_skeleton example_ok toy_load"
  have f: "files ?w ''/p'' = Some ?t" by simp
  have "read_front_matter_at ?e ''/p'' ?w = (read_front_matter (yaml_load ?e) (universal_newlines ?t), ?w)"
    by (rule read_front_matter_at_apply [OF f])
  also have "\<dots> = (Inr (PDict [(PStr ''title'', PStr ''x'')], ''B'' @ [CHR 0x0A]), ?w)"
    by (simp only: ex_fetch_inputs(3) ex_read_crlf)
  finally have h: "fst (read_front_matter_at ?e ''/p'' ?w) = Inr (PDict [(PStr ''title'', PStr ''x'')], ''B'' @ [CHR 0x0A])"
    by simp
  show ?thesis using h read_front_matter_at_no_CR [OF h] by blast
qed

end
