(* ===== verification/Runs.thy ===== *)
theory Runs
  imports Pipeline
begin

text \<open>
  Sequences of runs of the script on one site. Each run is a call of \<open>main\<close>
  (lines 127--183 of \<open>src/scripts/openalex_to_hugo.py\<close>) with any arguments and any
  behaviour of hugo, the API, the YAML library and the clock; only the site root is
  fixed. \<open>runs sr w w'\<close> says that \<open>w'\<close> is reachable from \<open>w\<close> by zero or
  more runs, whatever their outcomes. The lemmas lift the one-run facts of
  \<open>Pipeline\<close> to whole sequences by rule induction: the world stays well formed,
  a file that exists is never changed or removed, every new file is the page of some
  title, and a skeleton left behind by a failed run stays as it is.
\<close>

inductive runs :: "string \<Rightarrow> world \<Rightarrow> world \<Rightarrow> bool" for sr :: string where
  none: "runs sr w w"
| more: "runs sr w w' \<Longrightarrow> site_root e = sr \<Longrightarrow> main e argv w' = (r, w'') \<Longrightarrow> runs sr w w''"

inductive_cases runs_moreE: "runs sr w w''"

subsection \<open>One run\<close>

lemma extract_doi_Inr: "\<exists>doi. extract_doi s = Inr doi"
  by (simp add: extract_doi_cases)

text \<open>A run never changes a file that existed before it: the only file it writes
  is the page, and it writes the page only when nothing was there.\<close>

lemma main_map_le: "files w \<subseteq>\<^sub>m files (snd (main e argv w))"
proof (cases "length argv = 3")
  case False
  then show ?thesis by (simp add: main_def map_le_def)
next
  case True
  then obtain p t d where argv: "argv = [p, t, d]"
    by (cases argv; cases "tl argv"; cases "tl (tl argv)") auto
  obtain doi where doi: "extract_doi d = Inr doi" using extract_doi_Inr by blast
  obtain r1 w1 where ens: "ensure_dirs e w = (r1, w1)" by fastforce
  note fr = ensure_dirs_frame [OF ens]
  show ?thesis
  proof (cases r1)
    case (Inl err)
    then show ?thesis using ens doi fr by (simp add: argv main_def Let_def bindIO_def)
  next
    case (Inr u)
    then have ens': "ensure_dirs e w = (Inr (), w1)" using ens by simp
    show ?thesis
    proof (cases "is_file w1 (abs_md_path e t) \<or> abs_md_path e t \<in> dirs w1")
      case True
      then show ?thesis using fr by (simp add: argv main_prefix [OF doi ens'])
    next
      case False
      then have "files w (abs_md_path e t) = None" using fr by (simp add: is_file_def)
      moreover have "files (snd (main e argv w)) q = files w q" if "q \<noteq> abs_md_path e t" for q
        using main_writes_only [of e argv] that unfolding writes_only_def by (simp add: argv)
      ultimately show ?thesis by (metis (mono_tags) domIff map_le_def option.distinct(1))
    qed
  qed
qed

lemma main_new_file:
  "files w q = None \<Longrightarrow> files (snd (main e argv w)) q \<noteq> None \<Longrightarrow> q = abs_md_path e (argv ! 1)"
  using main_writes_only [of e argv] unfolding writes_only_def by metis

subsection \<open>Sequences of runs\<close>

lemma runs_map_le: "runs sr w w' \<Longrightarrow> files w \<subseteq>\<^sub>m files w'"
proof (induction rule: runs.induct)
  case (none w)
  then show ?case by simp
next
  case (more w w' e argv r w'')
  then show ?case using main_map_le [of w' e argv] map_le_trans by (metis snd_conv)
qed

lemma runs_wf: "runs sr w w' \<Longrightarrow> wf_world w \<Longrightarrow> wf_world w'"
proof (induction rule: runs.induct)
  case (none w)
  then show ?case .
next
  case (more w w' e argv r w'')
  then show ?case using main_keeps_wf [of e argv] unfolding keeps_wf_def by (metis snd_conv)
qed

lemma runs_new_files:
  "runs sr w w' \<Longrightarrow> files w q = None \<Longrightarrow> files w' q \<noteq> None \<Longrightarrow>
   \<exists>e t. site_root e = sr \<and> q = abs_md_path e t"
proof (induction rule: runs.induct)
  case (none w)
  then show ?case by simp
next
  case (more w w' e argv r w'')
  show ?case
  proof (cases "files w' q = None")
    case True
    then have "q = abs_md_path e (argv ! 1)"
      using more.prems(2) more.hyps(3) main_new_file [of w' q e argv] by simp
    then show ?thesis using more.hyps(2) by blast
  next
    case False
    then show ?thesis using more.IH more.prems(1) by blast
  qed
qed

lemma runs_trans: "runs sr w2 w3 \<Longrightarrow> runs sr w1 w2 \<Longrightarrow> runs sr w1 w3"
  by (induction rule: runs.induct) (auto intro: runs.more)


subsection \<open>Invariant and persistence of pages along runs\<close>

lemma runs_snoc: "runs sr w w' \<Longrightarrow> site_root e = sr \<Longrightarrow> runs sr w (snd (main e argv w'))"
  by (rule runs.more [where argv = argv and r = "fst (main e argv w')"]) simp_all

lemma ex_runs_usage:
  "runs ''/site'' example_site (snd (main (example_env example_skeleton example_ok example_load) [] example_site))"
  by (rule runs_snoc [OF runs.none]) (simp add: example_env_def)

text \<open>C32: Along any sequence of runs on one site, from a well-formed world: the
  world stays well formed, no file that existed is changed or removed, and every
  file that appears is the page \<open>content/articles/<slug>.md\<close> of some title.\<close>

theorem runs_invariant:
  assumes "runs sr w w'" "wf_world w"
  shows "wf_world w' \<and> files w \<subseteq>\<^sub>m files w' \<and>
         (\<forall>q. files w q = None \<longrightarrow> files w' q \<noteq> None \<longrightarrow> (\<exists>e t. site_root e = sr \<and> q = abs_md_path e t))"
  using runs_wf [OF assms] runs_map_le [OF assms(1)] runs_new_files [OF assms(1)] by blast

theorem runs_invariant_witness:
  "let w' = snd (main (example_env example_skeleton example_ok example_load) [] example_site) in
   wf_world w' \<and> files example_site \<subseteq>\<^sub>m files w' \<and>
   (\<forall>q. files example_site q = None \<longrightarrow> files w' q \<noteq> None \<longrightarrow>
        (\<exists>e t. site_root e = ''/site'' \<and> q = abs_md_path e t))"
  unfolding Let_def by (rule runs_invariant [OF ex_runs_usage ex_site_wf])

text \<open>C33: Once a run with a working \<open>hugo\<close> has found the page of a title
  missing and created it, the page exists in every world reachable afterwards,
  whatever the API, the YAML library and the merge did in that run (a 404, a
  failed request, a malformed response) and whatever later runs do: no run removes
  a page, and a failed run leaves its skeleton behind.\<close>

theorem runs_page_persists:
  assumes "runs (site_root e) w0 w" "wf_world w0" "ensure_dirs e w = (Inr (), w1)"
    and "files w (abs_md_path e t) = None" "abs_md_path e t \<notin> dirs w"
    and "hugo e (rel_md_path t) = Inr skel"
    and "runs (site_root e) (snd (main e [p, t, d] w)) w'"
  shows "files w' (abs_md_path e t) \<noteq> None"
proof -
  have wf: "wf_world w" by (rule runs_wf [OF assms(1,2)])
  obtain doi where doi: "extract_doi d = Inr doi" using extract_doi_Inr by blast
  have "files (snd (main e [p, t, d] w)) (abs_md_path e t) \<noteq> None"
    by (rule main_page_created [OF wf doi assms(3-6)])
  then show ?thesis using map_le_implies_dom_le [OF runs_map_le [OF assms(7)]] by blast
qed

theorem runs_page_persists_witness:
  "files (snd (main (example_env example_skeleton example_404 example_load) [''p'', ''a'', ''x''] example_site))
     ''/site/content/articles/a.md'' \<noteq> None"
proof -
  let ?e = "example_env example_skeleton example_404 example_load"
  have "files (snd (main ?e [''p'', ''a'', ''x''] example_site)) (abs_md_path ?e ''a'') \<noteq> None"
    by (rule runs_page_persists [OF runs.none ex_site_wf ex_ensure ex_page_free [THEN conjunct1]
          ex_page_free [THEN conjunct2] ex_fetch_inputs(1) runs.none])
  then show ?thesis unfolding ex_path .
qed

end
