(* ===== verification/Spec2Isabelle.thy ===== *)
theory Spec2Isabelle
  imports Runs
begin

text \<open>
  \<^bold>\<open>A verification library for \<open>src/scripts/openalex_to_hugo.py\<close>.\<close>

  The program is one Python script run once per invocation:
  \<open>openalex_to_hugo.py "Title" <doi-or-url>\<close>. Its \<open>main\<close> (lines 127--183)
  checks the argument count (exit 2), normalises the DOI (\<open>extract_doi\<close>), makes
  sure the content directory exists (\<open>ensure_dirs\<close>), turns the title into a file
  name (\<open>slugify\<close>), refuses to overwrite an existing page (exit 3), asks the site
  generator for a skeleton page (\<open>hugo_new\<close>), fetches the work from the OpenAlex
  API (\<open>fetch_openalex_by_doi\<close>, exit 2 on 404), maps the JSON to page fields
  (\<open>pick_venue\<close>, \<open>pick_authors\<close>, \<open>pick_topics\<close> and the inline mappings of
  lines 153--159), reads the skeleton's front matter (\<open>read_front_matter\<close>),
  merges the fields into it (lines 165--179), writes the page back
  (\<open>write_front_matter\<close>) and prints its path.

  \<^bold>\<open>Theories and what they model.\<close>
  \<^item> \<open>Prelude\<close>: exceptions as values (\<open>py_exc\<close>; a computation that may raise
    has type \<open>py_exc + 'a\<close>), \<open>bindE\<close> for statement sequencing and \<open>mapE\<close>
    for loops whose body may raise; the world of a run (\<open>world\<close>: files,
    directories, stdout, stderr) and its statements \<open>'a io\<close> with \<open>bindIO\<close>;
    \<open>sys.exit(n)\<close> is the exception \<open>SystemExit n\<close> and \<open>exit_status\<close> the
    process status.
  \<^item> \<open>PyStr\<close>: Python \<open>str\<close> over the Latin-1 code points (the \<open>char\<close> with code
    \<open>n\<close> is U+00n) with the CPython character classes \<open>isspace\<close>/\<open>\s\<close>, \<open>\w\<close>,
    \<open>lower\<close> and the line boundaries of \<open>splitlines\<close>; \<open>strip\<close>,
    \<open>startswith\<close>, \<open>find\<close>, \<open>split(sep, 1)\<close>, indexing and
    \<open>splitlines(keepends=True)\<close>.
  \<^item> \<open>Slugify\<close>: \<open>slugify\<close> (lines 14--19), one recursive definition per regular
    expression step. C1--C3: it is idempotent, its fixed points are exactly the slugs
    (\<open>is_slug\<close>), and a title without word characters gives \<open>untitled\<close>.
  \<^item> \<open>ExtractDoi\<close>: \<open>extract_doi\<close> (lines 21--27). C4--C6: the behaviour of
    each of its three branches; a lemma shows that it never raises.
  \<^item> \<open>PyValue\<close>: JSON and YAML values (\<open>pyval\<close>), truthiness and \<open>or\<close>,
    \<open>get\<close>, \<open>[]\<close>, iteration, \<open>in\<close>, item assignment and \<open>setdefault\<close> on dicts
    kept as association lists in insertion order (refining map update), and \<open>int()\<close>.
  \<^item> \<open>Mapper\<close>: \<open>pick_venue\<close>, \<open>pick_authors\<close>, \<open>pick_topics\<close> (lines 40--62)
    and the field mappings of \<open>main\<close> (\<open>map_fields\<close>, lines 153--159).
    C7--C11: the topics are the stable top-k by score (refinement of the abstract
    \<open>is_top_k\<close>), the authors in source order, a truthy venue, totality on
    responses of the OpenAlex shape (\<open>wf_meta\<close>) and the \<open>AttributeError\<close> of
    a response or a \<open>host_venue\<close> that is not an object; a lemma bounds the number of topics by \<open>limit\<close>.
  \<^item> \<open>FrontMatter\<close>: \<open>read_front_matter\<close> and \<open>write_front_matter\<close> (lines
    72--125) on the decoded text, with the text-mode newline translation
    (\<open>universal_newlines\<close>) and the YAML library as parameters. C12--C15: the round
    trip, the loss of a leading newline of the body, the unclosed-header fallback,
    and the dead test of line 93.
  \<^item> \<open>Fetch\<close>: \<open>urllib.parse.quote(q, safe=':')\<close> over UTF-8 (\<open>py_quote\<close>) and
    \<open>fetch_openalex_by_doi\<close> (lines 29--38) with the HTTP client as a parameter.
    C16--C19: the URL and the three status branches, and the alphabet of the
    quoted DOI (it stays one path segment).
  \<^item> \<open>FileSystem\<close>: \<open>os.path.join\<close>, \<open>os.path.exists\<close>,
    \<open>os.makedirs(p, exist_ok=True)\<close> and text-mode \<open>open\<close> for reading and
    writing, over files and directories, with the errors CPython raises
    (\<open>FileExistsError\<close>, \<open>NotADirectoryError\<close>, \<open>IsADirectoryError\<close>,
    \<open>FileNotFoundError\<close>); the well-formedness \<open>wf_world\<close> of a world (no path is
    both a file and a directory, ancestors are directories) and its preservation
    by every operation (\<open>keeps_wf\<close>).
  \<^item> \<open>Merge\<close>: the merge of lines 165--179 (\<open>merge_front_matter\<close>). C26--C27:
    it refines the map-level specification \<open>merge_spec\<close>, and the order of the
    keys of the written front matter.
  \<^item> \<open>Pipeline\<close>: \<open>ensure_dirs\<close>, \<open>hugo_new\<close>, the file access of the front
    matter functions and \<open>main\<close>, over an environment \<open>env\<close> of the external
    collaborators (site root, hugo, HTTP client, YAML loader and dumper, clock).
    C20--C25 and C28--C31: usage error, no clobber, the successful run, the
    skeleton left by a 404 and the exit 3 of a rerun, the frame property (only the
    page's file changes), the page path, the \<open>TypeError\<close> of a front matter that
    is not a mapping (a TOML header), the absence of carriage returns in a body read
    from disk (text mode), the directories \<open>ensure_dirs\<close> creates, and the failure
    when a file blocks the content directory. Lemmas show that a run keeps the
    world well formed (\<open>main_keeps_wf\<close>) and that no statement after
    \<open>hugo_new\<close> removes the page (\<open>keeps_file\<close>).
  \<^item> \<open>Runs\<close>: sequences of runs on one site as the inductive relation \<open>runs\<close>
    (zero or more calls of \<open>main\<close> with any arguments and collaborators). C32:
    along any sequence the world stays well formed, no existing file changes and
    every new file is a page (rule induction); C33: a page created by a run with a
    working hugo exists in every later world, whatever the API did in that run.

  \<^bold>\<open>Loops and termination.\<close> Every loop of the script runs over a finite list
  or string: the loops are structural recursions (\<open>fun\<close>) or, for the regular
  expression substitutions of \<open>Slugify\<close> and \<open>splitlines\<close>, recursions with a
  \<open>measure\<close> on the length of the remaining text. No fuel is needed and every
  definition is total and executable.

  \<^bold>\<open>Not modelled, and why.\<close>
  \<^item> Code points above U+00FF: \<open>char\<close> is a byte. \<open>lower\<close>, \<open>\w\<close> and UTF-8
    are exact on the code points modelled.
  \<^item> The file encoding: the file store holds decoded text, so a page that is not
    valid UTF-8 (a \<open>UnicodeDecodeError\<close>) is outside the model.
  \<^item> Permissions, symbolic links and other \<open>OSError\<close>s of the file system; the
    root directory is implicit. \<open>SITE_ROOT\<close> (line 11) is the parameter
    \<open>site_root\<close>.
  \<^item> The external programs and libraries: hugo (the archetype text is a parameter),
    the HTTP client and the OpenAlex service, \<open>yaml.safe_load\<close>/\<open>safe_dump\<close> and
    the clock are parameters; lemmas state what they need of them as hypotheses.
  \<^item> The regular-expression engine: each substitution of \<open>slugify\<close> is the
    function the pattern computes, not the engine that runs it.
  \<^item> Floats are reals; the comparison of two sort keys that are not numbers is the
    marker \<open>UnmodelledCompare\<close> (CPython raises \<open>TypeError\<close> or compares the
    strings).
  \<^item> The import guard of lines 4--9 (exit 1 without \<open>requests\<close> or \<open>yaml\<close>) and
    the traceback printed for an uncaught exception.
\<close>

end
